theory Spec2Isabelle
  imports Main "HOL-Library.Word"
begin

unbundle bit_operations_syntax

section \<open>Errors\<close>

text \<open>
  Every function of the library returns an \<^verbatim>\<open>int\<close> (1, or 0 for close, on success
  and -1 on error) and reports through \<^verbatim>\<open>libcerror_error_set\<close>, which appends an entry
  (domain, code, message) to the error it is handed. The model keeps the whole chain of
  entries, innermost first; the message is the format string of the source after its
  \<^verbatim>\<open>%s: \<close> prefix.
\<close>

datatype error_domain =
    LIBCERROR_ERROR_DOMAIN_ARGUMENTS
  | LIBCERROR_ERROR_DOMAIN_IO
  | LIBCERROR_ERROR_DOMAIN_MEMORY
  | LIBCERROR_ERROR_DOMAIN_RUNTIME

datatype error_code =
    LIBCERROR_ARGUMENT_ERROR_INVALID_VALUE
  | LIBCERROR_ARGUMENT_ERROR_UNSUPPORTED_VALUE
  | LIBCERROR_ARGUMENT_ERROR_VALUE_EXCEEDS_MAXIMUM
  | LIBCERROR_IO_ERROR_OPEN_FAILED
  | LIBCERROR_IO_ERROR_CLOSE_FAILED
  | LIBCERROR_IO_ERROR_SEEK_FAILED
  | LIBCERROR_IO_ERROR_READ_FAILED
  | LIBCERROR_MEMORY_ERROR_INSUFFICIENT
  | LIBCERROR_MEMORY_ERROR_COPY_FAILED
  | LIBCERROR_MEMORY_ERROR_SET_FAILED
  | LIBCERROR_RUNTIME_ERROR_VALUE_MISSING
  | LIBCERROR_RUNTIME_ERROR_VALUE_ALREADY_SET
  | LIBCERROR_RUNTIME_ERROR_INITIALIZE_FAILED
  | LIBCERROR_RUNTIME_ERROR_RESIZE_FAILED
  | LIBCERROR_RUNTIME_ERROR_FINALIZE_FAILED
  | LIBCERROR_RUNTIME_ERROR_GET_FAILED
  | LIBCERROR_RUNTIME_ERROR_SET_FAILED
  | LIBCERROR_RUNTIME_ERROR_APPEND_FAILED
  | LIBCERROR_RUNTIME_ERROR_COPY_FAILED
  | LIBCERROR_RUNTIME_ERROR_UNSUPPORTED_VALUE
  | LIBCERROR_RUNTIME_ERROR_VALUE_OUT_OF_BOUNDS

type_synonym libcerror_entry = "error_domain \<times> error_code \<times> string"
type_synonym libcerror_error = "libcerror_entry list"

definition libcerror_error_set ::
  "libcerror_error \<Rightarrow> error_domain \<Rightarrow> error_code \<Rightarrow> string \<Rightarrow> libcerror_error" where
  "libcerror_error_set error domain code message = error @ [(domain, code, message)]"

section \<open>Bytes\<close>

type_synonym byte = "8 word"

text \<open>
  \<^verbatim>\<open>byte_stream_copy_to_uint32_little_endian\<close> and its 64-bit sibling (macros of
  \<^verbatim>\<open>byte_stream.h\<close>): the value starts as the last byte and takes each earlier byte
  after a shift by 8.
\<close>

definition byte_stream_copy_to_uint32_little_endian :: "byte list \<Rightarrow> 32 word" where
  "byte_stream_copy_to_uint32_little_endian byte_stream =
     push_bit 8 (push_bit 8 (push_bit 8 (ucast (byte_stream ! 3)) OR ucast (byte_stream ! 2))
       OR ucast (byte_stream ! 1)) OR ucast (byte_stream ! 0)"

definition byte_stream_copy_to_uint64_little_endian :: "byte list \<Rightarrow> 64 word" where
  "byte_stream_copy_to_uint64_little_endian byte_stream =
     push_bit 8 (push_bit 8 (push_bit 8 (push_bit 8 (push_bit 8 (push_bit 8 (push_bit 8
       (ucast (byte_stream ! 7)) OR ucast (byte_stream ! 6)) OR ucast (byte_stream ! 5))
       OR ucast (byte_stream ! 4)) OR ucast (byte_stream ! 3)) OR ucast (byte_stream ! 2))
       OR ucast (byte_stream ! 1)) OR ucast (byte_stream ! 0)"

text \<open>
  An access to \<open>count\<close> bytes of a buffer from index \<open>index\<close>. C does not check it; the
  model does, so that an access outside the buffer (undefined behaviour in C) is a value
  of the model: \<open>None\<close>.
\<close>

definition buffer_bytes :: "byte list \<Rightarrow> nat \<Rightarrow> nat \<Rightarrow> byte list option" where
  "buffer_bytes data index count =
     (if index + count \<le> length data then Some (take count (drop index data)) else None)"

section \<open>The byte source (libbfio)\<close>

text \<open>
  The file IO handle belongs to libbfio, outside this repository. Its contract, as the
  decoders use it: a handle is open or closed (or cannot tell); an open handle reports a
  size, seeks, and reads from its current offset as many bytes as asked, fewer only at the
  end of its data. \<open>bfio_size\<close> is what \<^verbatim>\<open>libbfio_handle_get_size\<close> reports, kept apart
  from the data: \<open>None\<close> when the call fails. \<open>bfio_can_open\<close>, \<open>bfio_can_close\<close> and
  \<open>bfio_can_free\<close> say whether opening, closing and freeing the handle succeed.
\<close>

datatype bfio_state = BFIO_OPEN | BFIO_CLOSED | BFIO_UNKNOWN

record libbfio_handle =
  bfio_data :: "byte list"
  bfio_size :: "64 word option"
  bfio_offset :: nat
  bfio_state :: bfio_state
  bfio_can_open :: bool
  bfio_can_close :: bool
  bfio_can_free :: bool

definition libbfio_error :: "string \<Rightarrow> libcerror_error" where
  "libbfio_error function =
     libcerror_error_set [] LIBCERROR_ERROR_DOMAIN_RUNTIME LIBCERROR_RUNTIME_ERROR_VALUE_MISSING function"

definition libbfio_handle_is_open :: "libbfio_handle \<Rightarrow> libcerror_error + int" where
  "libbfio_handle_is_open handle =
     (case bfio_state handle of
        BFIO_OPEN \<Rightarrow> Inr 1
      | BFIO_CLOSED \<Rightarrow> Inr 0
      | BFIO_UNKNOWN \<Rightarrow> Inl (libbfio_error ''libbfio_handle_is_open''))"

definition libbfio_handle_open :: "libbfio_handle \<Rightarrow> libcerror_error + libbfio_handle" where
  "libbfio_handle_open handle =
     (if bfio_can_open handle then Inr (handle\<lparr>bfio_state := BFIO_OPEN, bfio_offset := 0\<rparr>)
      else Inl (libbfio_error ''libbfio_handle_open''))"

definition libbfio_handle_close :: "libbfio_handle \<Rightarrow> (libcerror_error + unit) \<times> libbfio_handle" where
  "libbfio_handle_close handle =
     (if bfio_can_close handle \<and> bfio_state handle = BFIO_OPEN
      then (Inr (), handle\<lparr>bfio_state := BFIO_CLOSED\<rparr>)
      else (Inl (libbfio_error ''libbfio_handle_close''), handle))"

definition libbfio_handle_get_size :: "libbfio_handle \<Rightarrow> libcerror_error + 64 word" where
  "libbfio_handle_get_size handle =
     (if bfio_state handle = BFIO_OPEN
      then (case bfio_size handle of
              Some reported \<Rightarrow> Inr reported
            | None \<Rightarrow> Inl (libbfio_error ''libbfio_handle_get_size''))
      else Inl (libbfio_error ''libbfio_handle_get_size''))"

definition libbfio_handle_seek_offset ::
  "libbfio_handle \<Rightarrow> nat \<Rightarrow> libcerror_error + libbfio_handle" where
  "libbfio_handle_seek_offset handle offset =
     (if bfio_state handle = BFIO_OPEN then Inr (handle\<lparr>bfio_offset := offset\<rparr>)
      else Inl (libbfio_error ''libbfio_handle_seek_offset''))"

text \<open>
  \<^verbatim>\<open>libbfio_handle_read_buffer\<close> returns the bytes it read (their number is the
  \<^verbatim>\<open>read_count\<close> of the source), or an error (\<^verbatim>\<open>read_count\<close> -1).
\<close>

definition libbfio_handle_read_buffer ::
  "libbfio_handle \<Rightarrow> nat \<Rightarrow> (libcerror_error + byte list) \<times> libbfio_handle" where
  "libbfio_handle_read_buffer handle count =
     (if bfio_state handle = BFIO_OPEN
      then (let buffer = take count (drop (bfio_offset handle) (bfio_data handle))
            in (Inr buffer, handle\<lparr>bfio_offset := bfio_offset handle + length buffer\<rparr>))
      else (Inl (libbfio_error ''libbfio_handle_read_buffer''), handle))"

section \<open>The IO handle and the file header\<close>

text \<open>
  \<^verbatim>\<open>libscca_io_handle_t\<close>: the fields the sources use. \<^verbatim>\<open>libscca_io_handle_clear\<close> sets
  all of them to zero.
\<close>

record libscca_io_handle =
  format_version :: "32 word"
  file_size :: "32 word"
  abort :: int

definition io_handle_zero :: libscca_io_handle where
  "io_handle_zero = \<lparr>format_version = 0, file_size = 0, abort = 0\<rparr>"

text \<open>
  Modelled from the spec: the layout of \<^verbatim>\<open>scca_file_header_t\<close> (\<^verbatim>\<open>scca_file_header.h\<close>
  is not among the sources). Section 4.2 gives 84 bytes: format_version at 0, signature at
  4, unknown at 8, file_size at 12, executable_filename at 16 (60 bytes), prefetch_hash at
  76, unknown at 80.
\<close>

definition sizeof_scca_file_header_t :: nat where
  "sizeof_scca_file_header_t = 84"

definition file_header_format_version :: "byte list \<Rightarrow> byte list" where
  "file_header_format_version file_header = take 4 file_header"

definition file_header_signature :: "byte list \<Rightarrow> byte list" where
  "file_header_signature file_header = take 4 (drop 4 file_header)"

definition file_header_file_size :: "byte list \<Rightarrow> byte list" where
  "file_header_file_size file_header = take 4 (drop 12 file_header)"

definition file_header_prefetch_hash :: "byte list \<Rightarrow> byte list" where
  "file_header_prefetch_hash file_header = take 4 (drop 76 file_header)"

text \<open>\<^verbatim>\<open>const char *scca_file_signature = "SCCA"\<close>\<close>

definition scca_file_signature :: "byte list" where
  "scca_file_signature = [0x53, 0x43, 0x43, 0x41]"

text \<open>
  \<^verbatim>\<open>libscca_io_handle_read_file_header\<close>. The result holds the IO handle with the
  decoded format version and file size, and the prefetch hash; the file IO handle comes
  back with its offset moved. The source compares the size the reader reports with the
  decoded file size last, in an \<^verbatim>\<open>if\<close> whose body is a comment: both branches of the
  model's last \<open>if\<close> are the same.
\<close>

definition libscca_io_handle_read_file_header ::
  "libscca_io_handle option \<Rightarrow> libbfio_handle
     \<Rightarrow> (libcerror_error + libscca_io_handle \<times> 32 word) \<times> libbfio_handle" where
  "libscca_io_handle_read_file_header io_handle file_io_handle =
     (case io_handle of
        None \<Rightarrow>
          (Inl (libcerror_error_set [] LIBCERROR_ERROR_DOMAIN_ARGUMENTS
                  LIBCERROR_ARGUMENT_ERROR_INVALID_VALUE ''invalid IO handle.''), file_io_handle)
      | Some io \<Rightarrow>
          (case libbfio_handle_get_size file_io_handle of
             Inl error \<Rightarrow>
               (Inl (libcerror_error_set error LIBCERROR_ERROR_DOMAIN_RUNTIME
                       LIBCERROR_RUNTIME_ERROR_GET_FAILED ''unable to retrieve file size.''),
                file_io_handle)
           | Inr reported_size \<Rightarrow>
               (case libbfio_handle_seek_offset file_io_handle 0 of
                  Inl error \<Rightarrow>
                    (Inl (libcerror_error_set error LIBCERROR_ERROR_DOMAIN_IO
                            LIBCERROR_IO_ERROR_SEEK_FAILED
                            ''unable to seek file header offset: 0.''), file_io_handle)
                | Inr sought \<Rightarrow>
                    (case libbfio_handle_read_buffer sought sizeof_scca_file_header_t of
                       (Inl error, handle) \<Rightarrow>
                         (Inl (libcerror_error_set error LIBCERROR_ERROR_DOMAIN_IO
                                 LIBCERROR_IO_ERROR_READ_FAILED
                                 ''unable to read file header data.''), handle)
                     | (Inr file_header, handle) \<Rightarrow>
                         if length file_header \<noteq> sizeof_scca_file_header_t
                         then (Inl (libcerror_error_set [] LIBCERROR_ERROR_DOMAIN_IO
                                      LIBCERROR_IO_ERROR_READ_FAILED
                                      ''unable to read file header data.''), handle)
                         else if file_header_signature file_header \<noteq> scca_file_signature
                         then (Inl (libcerror_error_set [] LIBCERROR_ERROR_DOMAIN_RUNTIME
                                      LIBCERROR_RUNTIME_ERROR_UNSUPPORTED_VALUE
                                      ''invalid signature.''), handle)
                         else
                           (let io' = io
                                  \<lparr>format_version := byte_stream_copy_to_uint32_little_endian
                                                       (file_header_format_version file_header),
                                   file_size := byte_stream_copy_to_uint32_little_endian
                                                  (file_header_file_size file_header)\<rparr>;
                                prefetch_hash = byte_stream_copy_to_uint32_little_endian
                                                  (file_header_prefetch_hash file_header)
                            in if reported_size \<noteq> ucast (file_size io')
                               then (Inr (io', prefetch_hash), handle)
                               else (Inr (io', prefetch_hash), handle))))))"

section \<open>Memory\<close>

text \<open>
  \<^verbatim>\<open>memory_allocate\<close> may return \<^verbatim>\<open>NULL\<close>. The outcomes of the allocations to come
  are a list the model consumes in order (an exhausted list means success), and \<open>live\<close>
  counts the blocks allocated and not yet freed, so that a block that is dropped without
  being freed, or freed twice, shows in the count. An object of another library (a
  libfvalue value, a libcdata array, a libbfio handle made by the library) counts as one
  block. \<^verbatim>\<open>memory_set\<close> and \<^verbatim>\<open>memory_copy\<close> wrap \<^verbatim>\<open>memset\<close> and \<^verbatim>\<open>memcpy\<close>, which
  return their first argument: their \<^verbatim>\<open>NULL\<close> branches are not reachable and not modelled.
  The model is of a build with a 64-bit \<^verbatim>\<open>size_t\<close> and without \<^verbatim>\<open>HAVE_DEBUG_OUTPUT\<close>
  (equally: with \<^verbatim>\<open>libcnotify_verbose\<close> 0), except where a definition says otherwise.
\<close>

record world =
  alloc_tape :: "bool list"
  live :: int

definition allocation_succeeds :: "world \<Rightarrow> bool \<times> world" where
  "allocation_succeeds w =
     (case alloc_tape w of
        [] \<Rightarrow> (True, w)
      | ok # tape \<Rightarrow> (ok, w\<lparr>alloc_tape := tape\<rparr>))"

definition memory_allocate :: "world \<Rightarrow> bool \<times> world" where
  "memory_allocate w =
     (case allocation_succeeds w of
        (True, w') \<Rightarrow> (True, w'\<lparr>live := live w' + 1\<rparr>)
      | (False, w') \<Rightarrow> (False, w'))"

definition memory_free :: "world \<Rightarrow> world" where
  "memory_free w = w\<lparr>live := live w - 1\<rparr>"

section \<open>The IO handle: initialize, free, clear\<close>

text \<open>
  A pointer is an option (\<open>None\<close> is \<^verbatim>\<open>NULL\<close>); a pointer to a pointer, as in
  \<^verbatim>\<open>libscca_io_handle_initialize(libscca_io_handle_t **io_handle, ...)\<close>, an option of an
  option. The functions return what the pointer holds afterwards.
\<close>

definition libscca_io_handle_initialize ::
  "libscca_io_handle option option \<Rightarrow> world
     \<Rightarrow> (libcerror_error + unit) \<times> libscca_io_handle option option \<times> world" where
  "libscca_io_handle_initialize io_handle w =
     (case io_handle of
        None \<Rightarrow>
          (Inl (libcerror_error_set [] LIBCERROR_ERROR_DOMAIN_ARGUMENTS
                  LIBCERROR_ARGUMENT_ERROR_INVALID_VALUE ''invalid IO handle.''), io_handle, w)
      | Some (Some _) \<Rightarrow>
          (Inl (libcerror_error_set [] LIBCERROR_ERROR_DOMAIN_RUNTIME
                  LIBCERROR_RUNTIME_ERROR_VALUE_ALREADY_SET
                  ''invalid IO handle value already set.''), io_handle, w)
      | Some None \<Rightarrow>
          (case memory_allocate w of
             (False, w') \<Rightarrow>
               (Inl (libcerror_error_set [] LIBCERROR_ERROR_DOMAIN_MEMORY
                       LIBCERROR_MEMORY_ERROR_INSUFFICIENT ''unable to create IO handle.''),
                Some None, w')
           | (True, w') \<Rightarrow> (Inr (), Some (Some io_handle_zero), w')))"

definition libscca_io_handle_free ::
  "libscca_io_handle option option \<Rightarrow> world
     \<Rightarrow> (libcerror_error + unit) \<times> libscca_io_handle option option \<times> world" where
  "libscca_io_handle_free io_handle w =
     (case io_handle of
        None \<Rightarrow>
          (Inl (libcerror_error_set [] LIBCERROR_ERROR_DOMAIN_ARGUMENTS
                  LIBCERROR_ARGUMENT_ERROR_INVALID_VALUE ''invalid IO handle.''), io_handle, w)
      | Some None \<Rightarrow> (Inr (), Some None, w)
      | Some (Some _) \<Rightarrow> (Inr (), Some None, memory_free w))"

definition libscca_io_handle_clear ::
  "libscca_io_handle option \<Rightarrow> (libcerror_error + unit) \<times> libscca_io_handle option" where
  "libscca_io_handle_clear io_handle =
     (case io_handle of
        None \<Rightarrow>
          (Inl (libcerror_error_set [] LIBCERROR_ERROR_DOMAIN_ARGUMENTS
                  LIBCERROR_ARGUMENT_ERROR_INVALID_VALUE ''invalid IO handle.''), None)
      | Some _ \<Rightarrow> (Inr (), Some io_handle_zero))"

section \<open>The metrics array\<close>

text \<open>
  Modelled from the spec: the sizes of \<^verbatim>\<open>scca_metrics_array_entry_v17_t\<close> and
  \<^verbatim>\<open>scca_metrics_array_entry_v23_t\<close> (\<^verbatim>\<open>scca_metrics_array.h\<close> is not among the sources).
  Section 4.4 gives an entry size of 20 bytes for version 17 and of 32 bytes for versions
  23 and 26.
\<close>

definition sizeof_scca_metrics_array_entry_v17_t :: nat where
  "sizeof_scca_metrics_array_entry_v17_t = 20"

definition sizeof_scca_metrics_array_entry_v23_t :: nat where
  "sizeof_scca_metrics_array_entry_v23_t = 32"

text \<open>
  \<^verbatim>\<open>libscca_io_handle_read_metrics_array\<close>. Without debug output the loop over the entries
  only advances a pointer, so the function checks the format version, reads the array
  and frees it.
\<close>

definition libscca_io_handle_read_metrics_array ::
  "libscca_io_handle option \<Rightarrow> libbfio_handle \<Rightarrow> 32 word \<Rightarrow> 32 word \<Rightarrow> world
     \<Rightarrow> (libcerror_error + unit) \<times> libbfio_handle \<times> world" where
  "libscca_io_handle_read_metrics_array io_handle file_io_handle file_offset number_of_entries w =
     (case io_handle of
        None \<Rightarrow>
          (Inl (libcerror_error_set [] LIBCERROR_ERROR_DOMAIN_ARGUMENTS
                  LIBCERROR_ARGUMENT_ERROR_INVALID_VALUE ''invalid IO handle.''),
           file_io_handle, w)
      | Some io \<Rightarrow>
          if format_version io \<noteq> 17 \<and> format_version io \<noteq> 23 \<and> format_version io \<noteq> 26
          then (Inl (libcerror_error_set [] LIBCERROR_ERROR_DOMAIN_ARGUMENTS
                       LIBCERROR_ARGUMENT_ERROR_UNSUPPORTED_VALUE
                       ''invalid IO handle - unsupported format version.''),
                file_io_handle, w)
          else
            (let entry_data_size =
                   (if format_version io = 17 then sizeof_scca_metrics_array_entry_v17_t
                    else sizeof_scca_metrics_array_entry_v23_t)
             in case libbfio_handle_seek_offset file_io_handle (unat file_offset) of
                  Inl error \<Rightarrow>
                    (Inl (libcerror_error_set error LIBCERROR_ERROR_DOMAIN_IO
                            LIBCERROR_IO_ERROR_SEEK_FAILED
                            ''unable to seek metrics array offset: %PRIu32.''),
                     file_io_handle, w)
                | Inr sought \<Rightarrow>
                    (let read_size = unat number_of_entries * entry_data_size
                     in case memory_allocate w of
                          (False, w1) \<Rightarrow>
                            (Inl (libcerror_error_set [] LIBCERROR_ERROR_DOMAIN_MEMORY
                                    LIBCERROR_MEMORY_ERROR_INSUFFICIENT
                                    ''unable to create metrics array data.''), sought, w1)
                        | (True, w1) \<Rightarrow>
                            (case libbfio_handle_read_buffer sought read_size of
                               (Inl error, handle) \<Rightarrow>
                                 (Inl (libcerror_error_set error LIBCERROR_ERROR_DOMAIN_IO
                                         LIBCERROR_IO_ERROR_READ_FAILED
                                         ''unable to read metrics array data.''),
                                  handle, memory_free w1)
                             | (Inr metrics_array_data, handle) \<Rightarrow>
                                 if length metrics_array_data \<noteq> read_size
                                 then (Inl (libcerror_error_set [] LIBCERROR_ERROR_DOMAIN_IO
                                              LIBCERROR_IO_ERROR_READ_FAILED
                                              ''unable to read metrics array data.''),
                                       handle, memory_free w1)
                                 else (Inr (), handle, memory_free w1)))))"

section \<open>Collaborators outside the sources\<close>

subsection \<open>File information\<close>

text \<open>
  \<^verbatim>\<open>libscca_file_information_t\<close>, with the fields \<^verbatim>\<open>libscca_file_open_read\<close> uses.
\<close>

record libscca_file_information =
  metrics_array_offset :: "32 word"
  number_of_metrics_entries :: "32 word"
  trace_chain_array_offset :: "32 word"
  number_of_trace_chain_array_entries :: "32 word"
  filename_strings_offset :: "32 word"
  filename_strings_size :: "32 word"
  volumes_information_offset :: "32 word"
  volumes_information_size :: "32 word"
  number_of_volumes :: "32 word"

definition file_information_zero :: libscca_file_information where
  "file_information_zero =
     \<lparr>metrics_array_offset = 0, number_of_metrics_entries = 0, trace_chain_array_offset = 0,
      number_of_trace_chain_array_entries = 0, filename_strings_offset = 0,
      filename_strings_size = 0, volumes_information_offset = 0, volumes_information_size = 0,
      number_of_volumes = 0\<rparr>"

text \<open>
  Modelled from the spec: \<^verbatim>\<open>libscca_file_information_initialize\<close> and
  \<^verbatim>\<open>libscca_file_information_free\<close> (\<^verbatim>\<open>libscca_file_information.c\<close> is not among the
  sources). Section 3 has every entity created during the parse of its section and
  destroyed with the model; section 7 has it released on a fatal error. They are given the
  shape of \<^verbatim>\<open>libscca_io_handle_initialize\<close> and \<^verbatim>\<open>libscca_io_handle_free\<close>: a zeroed
  structure is allocated, or the allocation fails; freeing releases the block and sets the
  pointer to \<^verbatim>\<open>NULL\<close>. At their call sites the pointer to the pointer is the address of a
  field, and the pointer is \<^verbatim>\<open>NULL\<close> before the call to initialize.
\<close>

definition libscca_file_information_initialize ::
  "world \<Rightarrow> (libcerror_error + libscca_file_information) \<times> world" where
  "libscca_file_information_initialize w =
     (case memory_allocate w of
        (False, w') \<Rightarrow>
          (Inl (libcerror_error_set [] LIBCERROR_ERROR_DOMAIN_MEMORY
                  LIBCERROR_MEMORY_ERROR_INSUFFICIENT ''unable to create file information.''), w')
      | (True, w') \<Rightarrow> (Inr file_information_zero, w'))"

definition libscca_file_information_free ::
  "libscca_file_information option \<Rightarrow> world \<Rightarrow> libscca_file_information option \<times> world" where
  "libscca_file_information_free file_information w =
     (case file_information of
        None \<Rightarrow> (None, w)
      | Some _ \<Rightarrow> (None, memory_free w))"

subsection \<open>String values (libfvalue)\<close>

text \<open>
  libfvalue is another library. A value of type \<^verbatim>\<open>LIBFVALUE_VALUE_TYPE_STRING_UTF16\<close>
  holds the entries that \<^verbatim>\<open>libfvalue_value_type_set_data_strings_array\<close> found in the data
  it was given. How the data is split into strings is a parameter of the model
  (\<open>strings_array\<close> below, \<open>None\<close> when libfvalue reports an error). Like every function of
  these libraries, the ones used here reject a \<^verbatim>\<open>NULL\<close> value with an invalid-value
  argument error.
\<close>

record libfvalue_value =
  value_entries :: "byte list list"

definition libfvalue_value_type_initialize ::
  "world \<Rightarrow> (libcerror_error + libfvalue_value) \<times> world" where
  "libfvalue_value_type_initialize w =
     (case memory_allocate w of
        (False, w') \<Rightarrow>
          (Inl (libcerror_error_set [] LIBCERROR_ERROR_DOMAIN_MEMORY
                  LIBCERROR_MEMORY_ERROR_INSUFFICIENT ''unable to create value.''), w')
      | (True, w') \<Rightarrow> (Inr \<lparr>value_entries = []\<rparr>, w'))"

definition libfvalue_value_free ::
  "libfvalue_value option \<Rightarrow> world \<Rightarrow> libfvalue_value option \<times> world" where
  "libfvalue_value_free v w =
     (case v of
        None \<Rightarrow> (None, w)
      | Some _ \<Rightarrow> (None, memory_free w))"

definition libfvalue_value_type_set_data_strings_array ::
  "(byte list \<Rightarrow> byte list list option) \<Rightarrow> libfvalue_value option \<Rightarrow> byte list
     \<Rightarrow> libcerror_error + libfvalue_value" where
  "libfvalue_value_type_set_data_strings_array strings_array v data =
     (case v of
        None \<Rightarrow>
          Inl (libcerror_error_set [] LIBCERROR_ERROR_DOMAIN_ARGUMENTS
                 LIBCERROR_ARGUMENT_ERROR_INVALID_VALUE ''invalid value.'')
      | Some v' \<Rightarrow>
          (case strings_array data of
             None \<Rightarrow>
               Inl (libcerror_error_set [] LIBCERROR_ERROR_DOMAIN_RUNTIME
                      LIBCERROR_RUNTIME_ERROR_APPEND_FAILED ''unable to append value entry.'')
           | Some entries \<Rightarrow> Inr (v'\<lparr>value_entries := entries\<rparr>)))"

definition libfvalue_value_get_number_of_value_entries ::
  "libfvalue_value option \<Rightarrow> libcerror_error + int" where
  "libfvalue_value_get_number_of_value_entries v =
     (case v of
        None \<Rightarrow>
          Inl (libcerror_error_set [] LIBCERROR_ERROR_DOMAIN_ARGUMENTS
                 LIBCERROR_ARGUMENT_ERROR_INVALID_VALUE ''invalid value.'')
      | Some v' \<Rightarrow> Inr (int (length (value_entries v'))))"

subsection \<open>Volume information\<close>

text \<open>
  \<^verbatim>\<open>libscca_internal_volume_information_t\<close>, with the fields
  \<^verbatim>\<open>libscca_io_handle_read_volumes_information\<close> sets. It has no field for file references:
  the decoder stores none.
\<close>

record libscca_internal_volume_information =
  device_path :: "byte list option"
  device_path_size :: nat
  creation_time :: "64 word"
  serial_number :: "32 word"
  directory_strings :: "libfvalue_value option"

definition volume_information_zero :: libscca_internal_volume_information where
  "volume_information_zero =
     \<lparr>device_path = None, device_path_size = 0, creation_time = 0, serial_number = 0,
      directory_strings = None\<rparr>"

text \<open>
  Modelled from the spec: \<^verbatim>\<open>libscca_volume_information_initialize\<close> and
  \<^verbatim>\<open>libscca_internal_volume_information_free\<close> (\<^verbatim>\<open>libscca_volume_information.c\<close> is not
  among the sources). Section 3 has the model own its volumes, their device paths and
  directory strings exclusively, and section 7 has every partially constructed entity
  released: initialize allocates a zeroed structure, free releases the device path, the
  directory strings value and the structure.
\<close>

definition libscca_volume_information_initialize ::
  "world \<Rightarrow> (libcerror_error + libscca_internal_volume_information) \<times> world" where
  "libscca_volume_information_initialize w =
     (case memory_allocate w of
        (False, w') \<Rightarrow>
          (Inl (libcerror_error_set [] LIBCERROR_ERROR_DOMAIN_MEMORY
                  LIBCERROR_MEMORY_ERROR_INSUFFICIENT ''unable to create volume information.''),
           w')
      | (True, w') \<Rightarrow> (Inr volume_information_zero, w'))"

definition libscca_internal_volume_information_free ::
  "libscca_internal_volume_information \<Rightarrow> world \<Rightarrow> world" where
  "libscca_internal_volume_information_free volume_information w =
     (let w1 = (if device_path volume_information \<noteq> None then memory_free w else w);
          w2 = snd (libfvalue_value_free (directory_strings volume_information) w1)
      in memory_free w2)"

subsection \<open>Arrays (libcdata)\<close>

text \<open>
  libcdata is another library. An array is the list of its entries; appending may fail
  for want of memory and leaves the array as it was; resizing to 0 frees every entry
  with the function it is given and keeps the (empty) array.
\<close>

definition libcdata_array_initialize ::
  "world \<Rightarrow> (libcerror_error + 'a list) \<times> world" where
  "libcdata_array_initialize w =
     (case memory_allocate w of
        (False, w') \<Rightarrow>
          (Inl (libcerror_error_set [] LIBCERROR_ERROR_DOMAIN_MEMORY
                  LIBCERROR_MEMORY_ERROR_INSUFFICIENT ''unable to create array.''), w')
      | (True, w') \<Rightarrow> (Inr [], w'))"

definition libcdata_array_append_entry ::
  "'a list option \<Rightarrow> 'a \<Rightarrow> world \<Rightarrow> (libcerror_error + 'a list option) \<times> world" where
  "libcdata_array_append_entry array entry w =
     (case array of
        None \<Rightarrow>
          (Inl (libcerror_error_set [] LIBCERROR_ERROR_DOMAIN_ARGUMENTS
                  LIBCERROR_ARGUMENT_ERROR_INVALID_VALUE ''invalid array.''), w)
      | Some entries \<Rightarrow>
          (case allocation_succeeds w of
             (False, w') \<Rightarrow>
               (Inl (libcerror_error_set [] LIBCERROR_ERROR_DOMAIN_RUNTIME
                       LIBCERROR_RUNTIME_ERROR_RESIZE_FAILED ''unable to resize array.''), w')
           | (True, w') \<Rightarrow> (Inr (Some (entries @ [entry])), w')))"

definition libcdata_array_resize_0 ::
  "'a list option \<Rightarrow> ('a \<Rightarrow> world \<Rightarrow> world) \<Rightarrow> world
     \<Rightarrow> (libcerror_error + unit) \<times> 'a list option \<times> world" where
  "libcdata_array_resize_0 array entry_free_function w =
     (case array of
        None \<Rightarrow>
          (Inl (libcerror_error_set [] LIBCERROR_ERROR_DOMAIN_ARGUMENTS
                  LIBCERROR_ARGUMENT_ERROR_INVALID_VALUE ''invalid array.''), None, w)
      | Some entries \<Rightarrow> (Inr (), Some [], fold entry_free_function entries w))"

definition libcdata_array_free ::
  "'a list option \<Rightarrow> ('a \<Rightarrow> world \<Rightarrow> world) option \<Rightarrow> world \<Rightarrow> 'a list option \<times> world" where
  "libcdata_array_free array entry_free_function w =
     (case array of
        None \<Rightarrow> (None, w)
      | Some entries \<Rightarrow>
          (None, memory_free (case entry_free_function of
                                None \<Rightarrow> w
                              | Some free_entry \<Rightarrow> fold free_entry entries w)))"

definition libcdata_array_get_number_of_entries :: "'a list option \<Rightarrow> libcerror_error + int" where
  "libcdata_array_get_number_of_entries array =
     (case array of
        None \<Rightarrow>
          Inl (libcerror_error_set [] LIBCERROR_ERROR_DOMAIN_ARGUMENTS
                 LIBCERROR_ARGUMENT_ERROR_INVALID_VALUE ''invalid array.'')
      | Some entries \<Rightarrow> Inr (int (length entries)))"

subsection \<open>What the model takes as parameters\<close>

text \<open>
  The parts that are neither in the sources nor described well enough to be written out
  are parameters of the model, so that what is proved holds for whatever they do:
  \<^item> \<open>file_information_read\<close> is \<^verbatim>\<open>libscca_file_information_read\<close>
    (\<^verbatim>\<open>libscca_file_information.c\<close>): from the zeroed file information, the file IO handle
    and the IO handle to an error or the decoded file information, with the file IO handle
    as it leaves it;
  \<^item> \<open>strings_array\<close> is how libfvalue splits a UTF-16 little-endian strings array;
  \<^item> \<open>file_of_name\<close> and \<open>file_of_wide_name\<close> give the (closed) file IO handle that
    \<^verbatim>\<open>libbfio_file_initialize\<close> and \<^verbatim>\<open>libbfio_file_set_name\<close> (or \<^verbatim>\<open>_set_name_wide\<close>)
    make for a file name;
  \<^item> \<open>LIBSCCA_ACCESS_FLAG_READ\<close> and \<open>LIBSCCA_ACCESS_FLAG_WRITE\<close> are the constants of
    \<^verbatim>\<open>libscca_definitions.h\<close>.
\<close>

record externals =
  file_information_read ::
    "libscca_file_information \<Rightarrow> libbfio_handle \<Rightarrow> libscca_io_handle
       \<Rightarrow> (libcerror_error + libscca_file_information) \<times> libbfio_handle"
  strings_array :: "byte list \<Rightarrow> byte list list option"
  file_of_name :: "string \<Rightarrow> libbfio_handle"
  file_of_wide_name :: "32 word list \<Rightarrow> libbfio_handle"
  LIBSCCA_ACCESS_FLAG_READ :: "32 word"
  LIBSCCA_ACCESS_FLAG_WRITE :: "32 word"

section \<open>The filename strings\<close>

text \<open>\<^verbatim>\<open>libscca_io_handle_read_filename_strings\<close>\<close>

definition libscca_io_handle_read_filename_strings ::
  "externals \<Rightarrow> libscca_io_handle option \<Rightarrow> libbfio_handle \<Rightarrow> 32 word \<Rightarrow> 32 word
     \<Rightarrow> libfvalue_value option \<Rightarrow> world
     \<Rightarrow> (libcerror_error + unit) \<times> libfvalue_value option \<times> libbfio_handle \<times> world" where
  "libscca_io_handle_read_filename_strings ext io_handle file_io_handle filename_string_offset
       filename_string_size strings w =
     (case io_handle of
        None \<Rightarrow>
          (Inl (libcerror_error_set [] LIBCERROR_ERROR_DOMAIN_ARGUMENTS
                  LIBCERROR_ARGUMENT_ERROR_INVALID_VALUE ''invalid IO handle.''),
           strings, file_io_handle, w)
      | Some io \<Rightarrow>
          (case libbfio_handle_seek_offset file_io_handle (unat filename_string_offset) of
             Inl error \<Rightarrow>
               (Inl (libcerror_error_set error LIBCERROR_ERROR_DOMAIN_IO
                       LIBCERROR_IO_ERROR_SEEK_FAILED
                       ''unable to seek filename strings header offset: %PRIu32.''),
                strings, file_io_handle, w)
           | Inr sought \<Rightarrow>
               (case memory_allocate w of
                  (False, w1) \<Rightarrow>
                    (Inl (libcerror_error_set [] LIBCERROR_ERROR_DOMAIN_MEMORY
                            LIBCERROR_MEMORY_ERROR_INSUFFICIENT
                            ''unable to create filename strings data.''), strings, sought, w1)
                | (True, w1) \<Rightarrow>
                    (case libbfio_handle_read_buffer sought (unat filename_string_size) of
                       (Inl error, handle) \<Rightarrow>
                         (Inl (libcerror_error_set error LIBCERROR_ERROR_DOMAIN_IO
                                 LIBCERROR_IO_ERROR_READ_FAILED
                                 ''unable to read filename strings data.''),
                          strings, handle, memory_free w1)
                     | (Inr filename_strings_data, handle) \<Rightarrow>
                         if length filename_strings_data \<noteq> unat filename_string_size
                         then (Inl (libcerror_error_set [] LIBCERROR_ERROR_DOMAIN_IO
                                      LIBCERROR_IO_ERROR_READ_FAILED
                                      ''unable to read filename strings data.''),
                               strings, handle, memory_free w1)
                         else
                           (case libfvalue_value_type_set_data_strings_array
                                   (strings_array ext) strings filename_strings_data of
                              Inl error \<Rightarrow>
                                (Inl (libcerror_error_set error LIBCERROR_ERROR_DOMAIN_RUNTIME
                                        LIBCERROR_RUNTIME_ERROR_SET_FAILED
                                        ''unable to set data of filename strings value.''),
                                 strings, handle, memory_free w1)
                            | Inr strings' \<Rightarrow>
                                (Inr (), Some strings', handle, memory_free w1))))))"

section \<open>The volumes information\<close>

text \<open>
  The records \<^verbatim>\<open>scca_volume_information_v17_t\<close> and \<^verbatim>\<open>scca_volume_information_v23_t\<close>
  are declared in \<^verbatim>\<open>scca_volume_information.h\<close>, which is not among the sources; their
  layout is taken from the members the decoder names (source lines 1167 to 1331), byte
  arrays in the order in which it reads them. Both start with device_path_offset at 0,
  device_path_number_of_characters at 4, creation_time at 8, serial_number at 16,
  file_references_offset at 20, file_references_size at 24,
  directory_strings_array_offset at 28 and number_of_directory_strings at 32 (the offsets
  that section 4.7 of the spec gives too), followed by the 4 bytes of unknown1: 40 bytes,
  the size of the version 17 record. The record of versions 23 and 26 goes on with
  unknown2 (28 bytes), unknown3 (4), unknown4 (28) and unknown5 (4): 104 bytes. Only the
  step from one record to the next depends on these two sizes.
\<close>

definition sizeof_scca_volume_information_v17_t :: nat where
  "sizeof_scca_volume_information_v17_t = 40"

definition sizeof_scca_volume_information_v23_t :: nat where
  "sizeof_scca_volume_information_v23_t = 104"

record scca_volume_information =
  vi_device_path_offset :: "32 word"
  vi_device_path_number_of_characters :: "32 word"
  vi_creation_time :: "64 word"
  vi_serial_number :: "32 word"
  vi_file_references_offset :: "32 word"
  vi_file_references_size :: "32 word"
  vi_directory_strings_array_offset :: "32 word"
  vi_number_of_directory_strings :: "32 word"

text \<open>
  The eight \<^verbatim>\<open>byte_stream_copy_to_uint..._little_endian\<close> of a volume record (source lines
  1166 to 1196) read the first 36 bytes at \<^verbatim>\<open>volume_information_data\<close>, which is
  \<^verbatim>\<open>&volumes_information_data[volume_information_offset]\<close>. Nothing in the source
  compares that offset with the size of the buffer (line 1150 is a comment that asks for
  it), so the model decides whether the access is inside the buffer.
\<close>

definition scca_volume_information_fields ::
  "byte list \<Rightarrow> nat \<Rightarrow> scca_volume_information option" where
  "scca_volume_information_fields volumes_information_data volume_information_offset =
     (case buffer_bytes volumes_information_data volume_information_offset 36 of
        None \<Rightarrow> None
      | Some volume_information_data \<Rightarrow>
          Some \<lparr>vi_device_path_offset =
                   byte_stream_copy_to_uint32_little_endian (take 4 volume_information_data),
                 vi_device_path_number_of_characters =
                   byte_stream_copy_to_uint32_little_endian (take 4 (drop 4 volume_information_data)),
                 vi_creation_time =
                   byte_stream_copy_to_uint64_little_endian (take 8 (drop 8 volume_information_data)),
                 vi_serial_number =
                   byte_stream_copy_to_uint32_little_endian (take 4 (drop 16 volume_information_data)),
                 vi_file_references_offset =
                   byte_stream_copy_to_uint32_little_endian (take 4 (drop 20 volume_information_data)),
                 vi_file_references_size =
                   byte_stream_copy_to_uint32_little_endian (take 4 (drop 24 volume_information_data)),
                 vi_directory_strings_array_offset =
                   byte_stream_copy_to_uint32_little_endian (take 4 (drop 28 volume_information_data)),
                 vi_number_of_directory_strings =
                   byte_stream_copy_to_uint32_little_endian (take 4 (drop 32 volume_information_data))\<rparr>)"

text \<open>A 32-bit counter below a bound does not wrap when it is incremented.\<close>

lemma unat_inc_less:
  fixes i n :: "32 word"
  assumes "i < n"
  shows "unat (i + 1) = Suc (unat i)"
proof -
  have "unat i < unat n" using assms by (simp add: word_less_nat_alt)
  moreover have "unat n < 2 ^ 32" using unsigned_less [of n] by simp
  ultimately have "unat i + unat (1 :: 32 word) < 2 ^ LENGTH(32)" by simp
  then have "unat (i + 1) = unat i + unat (1 :: 32 word)"
    by (simp only: unat_add_lem [THEN iffD1])
  then show ?thesis by simp
qed

text \<open>
  The loop over the file references (source lines 1403 to 1433):
  \<^verbatim>\<open>for( file_references_index = 1; file_references_index < number_of_file_references;
  file_references_index++ )\<close>. Its body is debug output only: with \<open>verbose\<close> (a build with
  \<^verbatim>\<open>HAVE_DEBUG_OUTPUT\<close> and \<^verbatim>\<open>libcnotify_verbose\<close> not 0) it reads the 64-bit value at
  \<^verbatim>\<open>file_references_offset + 8 + ( file_references_index * 8 )\<close>, computed in
  \<^verbatim>\<open>uint32_t\<close>, and prints it; without, it reads nothing. The result is the list of the
  values read, or \<open>None\<close> when a read is outside the buffer.
\<close>

function file_references_loop ::
  "bool \<Rightarrow> byte list \<Rightarrow> 32 word \<Rightarrow> 32 word \<Rightarrow> 32 word \<Rightarrow> 64 word list
     \<Rightarrow> 64 word list option" where
  "file_references_loop verbose volumes_information_data file_references_offset
       number_of_file_references file_references_index printed =
     (if file_references_index < number_of_file_references
      then (if verbose
            then (case buffer_bytes volumes_information_data
                         (unat (file_references_offset + 8 + file_references_index * 8)) 8 of
                    None \<Rightarrow> None
                  | Some value_64bit \<Rightarrow>
                      file_references_loop verbose volumes_information_data file_references_offset
                        number_of_file_references (file_references_index + 1)
                        (printed @ [byte_stream_copy_to_uint64_little_endian value_64bit]))
            else file_references_loop verbose volumes_information_data file_references_offset
                   number_of_file_references (file_references_index + 1) printed)
      else Some printed)"
  by pat_completeness auto
termination
  by (relation "measure (\<lambda>(verbose, data, offset, n, i, printed). unat n - unat i)")
     (auto simp: unat_inc_less word_less_nat_alt)

declare file_references_loop.simps [simp del]

text \<open>
  The file references of a volume (source lines 1358 to 1441, entered when
  \<^verbatim>\<open>file_references_offset\<close> is not 0): the version and the number of file references are
  read at \<^verbatim>\<open>file_references_offset\<close> and \<^verbatim>\<open>file_references_offset + 4\<close>; debug output
  also prints the \<^verbatim>\<open>file_references_size\<close> bytes of the section and the 64-bit value at
  \<^verbatim>\<open>file_references_offset + 8\<close>; then the loop runs. The result is (version, number of
  file references, values read by the loop). Nothing is stored in the volume information.
  Line 1360 is a comment that asks for a bounds check; there is none.
\<close>

definition volumes_information_file_references ::
  "bool \<Rightarrow> byte list \<Rightarrow> 32 word \<Rightarrow> 32 word \<Rightarrow> (32 word \<times> 32 word \<times> 64 word list) option" where
  "volumes_information_file_references verbose volumes_information_data file_references_offset
       file_references_size =
     (if verbose \<and> buffer_bytes volumes_information_data (unat file_references_offset)
                      (unat file_references_size) = None
      then None
      else
        (case buffer_bytes volumes_information_data (unat file_references_offset) 4 of
           None \<Rightarrow> None
         | Some version \<Rightarrow>
             (case buffer_bytes volumes_information_data (unat (file_references_offset + 4)) 4 of
                None \<Rightarrow> None
              | Some number_of_file_references \<Rightarrow>
                  if verbose \<and> buffer_bytes volumes_information_data
                                   (unat (file_references_offset + 8)) 8 = None
                  then None
                  else
                    (case file_references_loop verbose volumes_information_data
                            file_references_offset
                            (byte_stream_copy_to_uint32_little_endian number_of_file_references)
                            1 [] of
                       None \<Rightarrow> None
                     | Some printed \<Rightarrow>
                         Some (byte_stream_copy_to_uint32_little_endian version,
                               byte_stream_copy_to_uint32_little_endian number_of_file_references,
                               printed)))))"

text \<open>
  A decoder that indexes the buffer either returns (with an error, or with its result) or
  makes an access outside the buffer, where C leaves the behaviour undefined.
\<close>

datatype failure = Error libcerror_error | Outside_Buffer

text \<open>
  The device path of a volume (source lines 1442 to 1572). \<^verbatim>\<open>device_path_size *= 2\<close> is
  computed in \<^verbatim>\<open>uint32_t\<close>. On an error the volume information is freed (label
  \<^verbatim>\<open>on_error\<close>, lines 1649 to 1654).
\<close>

definition volume_information_device_path ::
  "byte list \<Rightarrow> 32 word \<Rightarrow> 32 word \<Rightarrow> libscca_internal_volume_information \<Rightarrow> world
     \<Rightarrow> (failure + libscca_internal_volume_information) \<times> world" where
  "volume_information_device_path volumes_information_data device_path_offset
       device_path_number_of_characters volume_information w =
     (if device_path_offset \<noteq> 0 \<and> device_path_number_of_characters \<noteq> 0
      then (let device_path_size2 = device_path_number_of_characters * 2
            in case memory_allocate w of
                 (False, w1) \<Rightarrow>
                   (Inl (Error (libcerror_error_set [] LIBCERROR_ERROR_DOMAIN_MEMORY
                                  LIBCERROR_MEMORY_ERROR_INSUFFICIENT
                                  ''unable to create device path.'')),
                    libscca_internal_volume_information_free volume_information w1)
               | (True, w1) \<Rightarrow>
                   (case buffer_bytes volumes_information_data (unat device_path_offset)
                           (unat device_path_size2) of
                      None \<Rightarrow> (Inl Outside_Buffer, w1)
                    | Some path \<Rightarrow>
                        (Inr (volume_information
                                \<lparr>device_path := Some path,
                                 device_path_size := unat device_path_size2\<rparr>), w1)))
      else (Inr volume_information, w))"

text \<open>
  The directory strings of a volume (source lines 1573 to 1611).
  \<^verbatim>\<open>directory_strings_array_size = volumes_information_size - directory_strings_array_offset\<close>
  is computed in \<^verbatim>\<open>uint32_t\<close>, and libfvalue is handed that many bytes from
  \<^verbatim>\<open>&volumes_information_data[directory_strings_array_offset]\<close>.
\<close>

definition volume_information_directory_strings ::
  "externals \<Rightarrow> byte list \<Rightarrow> 32 word \<Rightarrow> 32 word \<Rightarrow> libscca_internal_volume_information \<Rightarrow> world
     \<Rightarrow> (failure + libscca_internal_volume_information) \<times> world" where
  "volume_information_directory_strings ext volumes_information_data volumes_information_size'
       directory_strings_array_offset volume_information w =
     (if directory_strings_array_offset \<noteq> 0
      then (let directory_strings_array_size =
                  volumes_information_size' - directory_strings_array_offset
            in case libfvalue_value_type_initialize w of
                 (Inl error, w1) \<Rightarrow>
                   (Inl (Error (libcerror_error_set error LIBCERROR_ERROR_DOMAIN_RUNTIME
                                  LIBCERROR_RUNTIME_ERROR_INITIALIZE_FAILED
                                  ''unable to create directory strings value.'')),
                    libscca_internal_volume_information_free volume_information w1)
               | (Inr strings, w1) \<Rightarrow>
                   (let volume_information1 =
                          volume_information\<lparr>directory_strings := Some strings\<rparr>
                    in case buffer_bytes volumes_information_data
                              (unat directory_strings_array_offset)
                              (unat directory_strings_array_size) of
                         None \<Rightarrow> (Inl Outside_Buffer, w1)
                       | Some strings_data \<Rightarrow>
                           (case libfvalue_value_type_set_data_strings_array (strings_array ext)
                                   (Some strings) strings_data of
                              Inl error \<Rightarrow>
                                (Inl (Error (libcerror_error_set error
                                               LIBCERROR_ERROR_DOMAIN_RUNTIME
                                               LIBCERROR_RUNTIME_ERROR_SET_FAILED
                                               ''unable to set data of directory strings value.'')),
                                 libscca_internal_volume_information_free volume_information1 w1)
                            | Inr strings' \<Rightarrow>
                                (Inr (volume_information
                                        \<lparr>directory_strings := Some strings'\<rparr>), w1))))
      else (Inr volume_information, w))"

text \<open>
  One pass of the loop over the volumes (source lines 1136 to 1628): the volume
  information is created, the record at \<^verbatim>\<open>volume_information_offset\<close> is decoded, the
  file references, the device path and the directory strings are read, and the volume
  information is appended to the array. On an error the volume information of this pass
  is freed; the entries appended before stay in the array.
\<close>

definition read_volume_information ::
  "externals \<Rightarrow> byte list \<Rightarrow> 32 word \<Rightarrow> 32 word
     \<Rightarrow> libscca_internal_volume_information list option \<Rightarrow> world
     \<Rightarrow> (failure + libscca_internal_volume_information list option) \<times> world" where
  "read_volume_information ext volumes_information_data volumes_information_size'
       volume_information_offset volumes_array' w =
     (case libscca_volume_information_initialize w of
        (Inl error, w1) \<Rightarrow>
          (Inl (Error (libcerror_error_set error LIBCERROR_ERROR_DOMAIN_RUNTIME
                         LIBCERROR_RUNTIME_ERROR_INITIALIZE_FAILED
                         ''unable to create volume: %PRIu32 information.'')), w1)
      | (Inr volume_information0, w1) \<Rightarrow>
          (case scca_volume_information_fields volumes_information_data
                  (unat volume_information_offset) of
             None \<Rightarrow> (Inl Outside_Buffer, w1)
           | Some decoded \<Rightarrow>
               (let volume_information1 = volume_information0
                      \<lparr>creation_time := vi_creation_time decoded,
                       serial_number := vi_serial_number decoded\<rparr>
                in if vi_file_references_offset decoded \<noteq> 0 \<and>
                      volumes_information_file_references False volumes_information_data
                        (vi_file_references_offset decoded) (vi_file_references_size decoded) = None
                   then (Inl Outside_Buffer, w1)
                   else
                     (case volume_information_device_path volumes_information_data
                             (vi_device_path_offset decoded)
                             (vi_device_path_number_of_characters decoded)
                             volume_information1 w1 of
                        (Inl failed, w2) \<Rightarrow> (Inl failed, w2)
                      | (Inr volume_information2, w2) \<Rightarrow>
                          (case volume_information_directory_strings ext
                                  volumes_information_data volumes_information_size'
                                  (vi_directory_strings_array_offset decoded)
                                  volume_information2 w2 of
                             (Inl failed, w3) \<Rightarrow> (Inl failed, w3)
                           | (Inr volume_information3, w3) \<Rightarrow>
                               (case libcdata_array_append_entry volumes_array'
                                       volume_information3 w3 of
                                  (Inl error, w4) \<Rightarrow>
                                    (Inl (Error (libcerror_error_set error
                                                   LIBCERROR_ERROR_DOMAIN_RUNTIME
                                                   LIBCERROR_RUNTIME_ERROR_APPEND_FAILED
                                                   ''unable to append volume: %PRIu32 information to array.'')),
                                     libscca_internal_volume_information_free
                                       volume_information3 w4)
                                | (Inr appended, w4) \<Rightarrow> (Inr appended, w4)))))))"

text \<open>
  The loop over the volumes (source lines 1132 to 1629):
  \<^verbatim>\<open>for( volume_index = 0; volume_index < number_of_volumes; volume_index++ )\<close>, with
  \<^verbatim>\<open>volume_information_offset += volume_information_size\<close> in \<^verbatim>\<open>uint32_t\<close>.
\<close>

function volumes_information_loop ::
  "externals \<Rightarrow> nat \<Rightarrow> byte list \<Rightarrow> 32 word \<Rightarrow> 32 word \<Rightarrow> 32 word \<Rightarrow> 32 word
     \<Rightarrow> libscca_internal_volume_information list option \<Rightarrow> world
     \<Rightarrow> (failure + unit) \<times> libscca_internal_volume_information list option \<times> world" where
  "volumes_information_loop ext volume_information_size volumes_information_data
       volumes_information_size' number_of_volumes' volume_index volume_information_offset
       volumes_array' w =
     (if volume_index < number_of_volumes'
      then (case read_volume_information ext volumes_information_data volumes_information_size'
                   volume_information_offset volumes_array' w of
              (Inl failed, w1) \<Rightarrow> (Inl failed, volumes_array', w1)
            | (Inr appended, w1) \<Rightarrow>
                volumes_information_loop ext volume_information_size volumes_information_data
                  volumes_information_size' number_of_volumes' (volume_index + 1)
                  (volume_information_offset + word_of_nat volume_information_size)
                  appended w1)
      else (Inr (), volumes_array', w))"
  by pat_completeness auto
termination
  by (relation "measure (\<lambda>(ext, record_size, data, total, n, i, offset, array, w).
                           unat n - unat i)")
     (auto simp: unat_inc_less word_less_nat_alt)

declare volumes_information_loop.simps [simp del]

text \<open>
  \<^verbatim>\<open>libscca_io_handle_read_volumes_information\<close>. The buffer of
  \<^verbatim>\<open>volumes_information_size\<close> bytes is allocated, read, decoded and freed (also at the
  label \<^verbatim>\<open>on_error\<close>). The result holds the array and the file IO handle as they are left.
\<close>

definition libscca_io_handle_read_volumes_information ::
  "externals \<Rightarrow> libscca_io_handle option \<Rightarrow> libbfio_handle \<Rightarrow> 32 word \<Rightarrow> 32 word \<Rightarrow> 32 word
     \<Rightarrow> libscca_internal_volume_information list option \<Rightarrow> world
     \<Rightarrow> (failure + unit) \<times> libscca_internal_volume_information list option
         \<times> libbfio_handle \<times> world" where
  "libscca_io_handle_read_volumes_information ext io_handle file_io_handle
       volumes_information_offset' volumes_information_size' number_of_volumes' volumes_array' w =
     (case io_handle of
        None \<Rightarrow>
          (Inl (Error (libcerror_error_set [] LIBCERROR_ERROR_DOMAIN_ARGUMENTS
                         LIBCERROR_ARGUMENT_ERROR_INVALID_VALUE ''invalid IO handle.'')),
           volumes_array', file_io_handle, w)
      | Some io \<Rightarrow>
          (case libbfio_handle_seek_offset file_io_handle (unat volumes_information_offset') of
             Inl error \<Rightarrow>
               (Inl (Error (libcerror_error_set error LIBCERROR_ERROR_DOMAIN_IO
                              LIBCERROR_IO_ERROR_SEEK_FAILED
                              ''unable to seek volumes information offset: %PRIi32 (0x%08PRIx32).'')),
                volumes_array', file_io_handle, w)
           | Inr sought \<Rightarrow>
               (case memory_allocate w of
                  (False, w1) \<Rightarrow>
                    (Inl (Error (libcerror_error_set [] LIBCERROR_ERROR_DOMAIN_MEMORY
                                   LIBCERROR_MEMORY_ERROR_INSUFFICIENT
                                   ''unable to create volumes information data.'')),
                     volumes_array', sought, w1)
                | (True, w1) \<Rightarrow>
                    (case libbfio_handle_read_buffer sought (unat volumes_information_size') of
                       (Inl error, handle) \<Rightarrow>
                         (Inl (Error (libcerror_error_set error LIBCERROR_ERROR_DOMAIN_IO
                                        LIBCERROR_IO_ERROR_READ_FAILED
                                        ''unable to read volumes information data.'')),
                          volumes_array', handle, memory_free w1)
                     | (Inr volumes_information_data, handle) \<Rightarrow>
                         if length volumes_information_data \<noteq> unat volumes_information_size'
                         then (Inl (Error (libcerror_error_set [] LIBCERROR_ERROR_DOMAIN_IO
                                             LIBCERROR_IO_ERROR_READ_FAILED
                                             ''unable to read volumes information data.'')),
                               volumes_array', handle, memory_free w1)
                         else
                           (let volume_information_size =
                                  (if format_version io = 17
                                   then sizeof_scca_volume_information_v17_t
                                   else sizeof_scca_volume_information_v23_t)
                            in case volumes_information_loop ext volume_information_size
                                      volumes_information_data volumes_information_size'
                                      number_of_volumes' 0 0 volumes_array' w1 of
                                 (Inl (Error error), appended, w2) \<Rightarrow>
                                   (Inl (Error error), appended, handle, memory_free w2)
                               | (Inl Outside_Buffer, appended, w2) \<Rightarrow>
                                   (Inl Outside_Buffer, appended, handle, w2)
                               | (Inr _, appended, w2) \<Rightarrow>
                                   (Inr (), appended, handle, memory_free w2))))))"

section \<open>The file\<close>

text \<open>
  \<^verbatim>\<open>libscca_internal_file_t\<close>, with the fields the sources use. \<open>file_io_handle\<close> is the
  pointer to the file IO handle; the model keeps the handle's state with it. While a
  function runs, the handle it works on is passed along as a value of its own, and the
  field is brought up to date where the function returns.
\<close>

record libscca_internal_file =
  io_handle :: "libscca_io_handle option"
  file_io_handle :: "libbfio_handle option"
  file_io_handle_created_in_library :: "8 word"
  file_io_handle_opened_in_library :: "8 word"
  prefetch_hash :: "32 word"
  file_information :: "libscca_file_information option"
  filename_strings :: "libfvalue_value option"
  volumes_array :: "libscca_internal_volume_information list option"

text \<open>The structure after \<^verbatim>\<open>memory_set( internal_file, 0, ... )\<close>.\<close>

definition internal_file_zero :: libscca_internal_file where
  "internal_file_zero =
     \<lparr>io_handle = None, file_io_handle = None, file_io_handle_created_in_library = 0,
      file_io_handle_opened_in_library = 0, prefetch_hash = 0, file_information = None,
      filename_strings = None, volumes_array = None\<rparr>"

text \<open>\<^verbatim>\<open>libscca_file_initialize\<close>\<close>

definition libscca_file_initialize ::
  "libscca_internal_file option option \<Rightarrow> world
     \<Rightarrow> (libcerror_error + unit) \<times> libscca_internal_file option option \<times> world" where
  "libscca_file_initialize file w =
     (case file of
        None \<Rightarrow>
          (Inl (libcerror_error_set [] LIBCERROR_ERROR_DOMAIN_ARGUMENTS
                  LIBCERROR_ARGUMENT_ERROR_INVALID_VALUE ''invalid file.''), file, w)
      | Some (Some _) \<Rightarrow>
          (Inl (libcerror_error_set [] LIBCERROR_ERROR_DOMAIN_RUNTIME
                  LIBCERROR_RUNTIME_ERROR_VALUE_ALREADY_SET
                  ''invalid file value already set.''), file, w)
      | Some None \<Rightarrow>
          (case memory_allocate w of
             (False, w1) \<Rightarrow>
               (Inl (libcerror_error_set [] LIBCERROR_ERROR_DOMAIN_MEMORY
                       LIBCERROR_MEMORY_ERROR_INSUFFICIENT ''unable to create file.''),
                Some None, w1)
           | (True, w1) \<Rightarrow>
               (case libcdata_array_initialize w1 of
                  (Inl error, w2) \<Rightarrow>
                    (Inl (libcerror_error_set error LIBCERROR_ERROR_DOMAIN_RUNTIME
                            LIBCERROR_RUNTIME_ERROR_INITIALIZE_FAILED
                            ''unable to create volumes array.''),
                     Some None, memory_free w2)
                | (Inr array, w2) \<Rightarrow>
                    (case libscca_io_handle_initialize (Some (io_handle internal_file_zero)) w2 of
                       (Inl error, _, w3) \<Rightarrow>
                         (Inl (libcerror_error_set error LIBCERROR_ERROR_DOMAIN_RUNTIME
                                 LIBCERROR_RUNTIME_ERROR_INITIALIZE_FAILED
                                 ''unable to create IO handle.''),
                          Some None,
                          memory_free (snd (libcdata_array_free (Some array) None w3)))
                     | (Inr _, created, w3) \<Rightarrow>
                         (Inr (),
                          Some (Some (internal_file_zero
                                        \<lparr>volumes_array := Some array,
                                         io_handle := (case created of
                                                         None \<Rightarrow> None
                                                       | Some pointer \<Rightarrow> pointer)\<rparr>)),
                          w3)))))"

text \<open>\<^verbatim>\<open>libscca_file_signal_abort\<close>\<close>

definition libscca_file_signal_abort ::
  "libscca_internal_file option \<Rightarrow> (libcerror_error + unit) \<times> libscca_internal_file option" where
  "libscca_file_signal_abort file =
     (case file of
        None \<Rightarrow>
          (Inl (libcerror_error_set [] LIBCERROR_ERROR_DOMAIN_ARGUMENTS
                  LIBCERROR_ARGUMENT_ERROR_INVALID_VALUE ''invalid file.''), None)
      | Some internal_file \<Rightarrow>
          (case io_handle internal_file of
             None \<Rightarrow>
               (Inl (libcerror_error_set [] LIBCERROR_ERROR_DOMAIN_RUNTIME
                       LIBCERROR_RUNTIME_ERROR_VALUE_MISSING
                       ''invalid file - missing IO handle.''), file)
           | Some io \<Rightarrow>
               (Inr (), Some (internal_file\<lparr>io_handle := Some (io\<lparr>abort := 1\<rparr>)\<rparr>))))"

text \<open>
  The label \<^verbatim>\<open>on_error\<close> of \<^verbatim>\<open>libscca_file_open_read\<close> (source lines 1061 to 1080): the
  filename strings and the file information are freed when they are set, and the volumes
  array is resized to 0 with \<^verbatim>\<open>libscca_internal_volume_information_free\<close> for its entries.
  The results of the three calls are not looked at.
\<close>

definition file_open_read_on_error ::
  "libscca_internal_file \<Rightarrow> world \<Rightarrow> libscca_internal_file \<times> world" where
  "file_open_read_on_error internal_file w =
     (let (strings, w1) =
            (if filename_strings internal_file \<noteq> None
             then libfvalue_value_free (filename_strings internal_file) w
             else (filename_strings internal_file, w));
          (information, w2) =
            (if file_information internal_file \<noteq> None
             then libscca_file_information_free (file_information internal_file) w1
             else (file_information internal_file, w1));
          (_, array, w3) =
            libcdata_array_resize_0 (volumes_array internal_file)
              libscca_internal_volume_information_free w2
      in (internal_file\<lparr>filename_strings := strings, file_information := information,
                         volumes_array := array\<rparr>, w3))"

text \<open>
  The filename strings section of \<^verbatim>\<open>libscca_file_open_read\<close> (source lines 1003 to 1037),
  entered when \<^verbatim>\<open>filename_strings_offset\<close> is not 0.
\<close>

definition file_open_read_filename_strings ::
  "externals \<Rightarrow> libscca_internal_file \<Rightarrow> libscca_file_information \<Rightarrow> libbfio_handle \<Rightarrow> world
     \<Rightarrow> (libcerror_error + unit) \<times> libscca_internal_file \<times> libbfio_handle \<times> world" where
  "file_open_read_filename_strings ext internal_file information file_io_handle' w =
     (case libfvalue_value_type_initialize w of
        (Inl error, w1) \<Rightarrow>
          (Inl (libcerror_error_set error LIBCERROR_ERROR_DOMAIN_RUNTIME
                  LIBCERROR_RUNTIME_ERROR_INITIALIZE_FAILED
                  ''unable to create filename strings value.''),
           internal_file, file_io_handle', w1)
      | (Inr strings, w1) \<Rightarrow>
          (case libscca_io_handle_read_filename_strings ext (io_handle internal_file)
                  file_io_handle' (filename_strings_offset information)
                  (filename_strings_size information) (Some strings) w1 of
             (Inl error, strings', handle, w2) \<Rightarrow>
               (Inl (libcerror_error_set error LIBCERROR_ERROR_DOMAIN_IO
                       LIBCERROR_IO_ERROR_READ_FAILED ''unable to read filename strings.''),
                internal_file\<lparr>filename_strings := strings'\<rparr>, handle, w2)
           | (Inr _, strings', handle, w2) \<Rightarrow>
               (Inr (), internal_file\<lparr>filename_strings := strings'\<rparr>, handle, w2)))"

text \<open>
  \<^verbatim>\<open>libscca_file_open_read\<close>. The abort flag of the IO handle is set back to 0 before
  anything is read (source lines 896 to 899). The metrics array and the trace chain array
  are read with debug output only (lines 957 to 1001). The volumes information is read
  through \<^verbatim>\<open>internal_file->file_io_handle\<close>, which the one caller has set to the handle it
  passes; were it \<^verbatim>\<open>NULL\<close>, the seek in libbfio would fail. Every failure past the checks
  of the arguments goes through the label \<^verbatim>\<open>on_error\<close>.
\<close>

definition libscca_file_open_read ::
  "externals \<Rightarrow> libscca_internal_file option \<Rightarrow> libbfio_handle \<Rightarrow> world
     \<Rightarrow> (failure + unit) \<times> libscca_internal_file option \<times> libbfio_handle \<times> world" where
  "libscca_file_open_read ext file file_io_handle' w =
     (case file of
        None \<Rightarrow>
          (Inl (Error (libcerror_error_set [] LIBCERROR_ERROR_DOMAIN_ARGUMENTS
                         LIBCERROR_ARGUMENT_ERROR_INVALID_VALUE ''invalid file.'')),
           None, file_io_handle', w)
      | Some internal_file \<Rightarrow>
          (case io_handle internal_file of
             None \<Rightarrow>
               (Inl (Error (libcerror_error_set [] LIBCERROR_ERROR_DOMAIN_RUNTIME
                              LIBCERROR_RUNTIME_ERROR_VALUE_MISSING
                              ''invalid file - missing IO handle.'')),
                file, file_io_handle', w)
           | Some io \<Rightarrow>
               if file_information internal_file \<noteq> None
               then (Inl (Error (libcerror_error_set [] LIBCERROR_ERROR_DOMAIN_RUNTIME
                                   LIBCERROR_RUNTIME_ERROR_VALUE_ALREADY_SET
                                   ''invalid file - file information value already set.'')),
                     file, file_io_handle', w)
               else if filename_strings internal_file \<noteq> None
               then (Inl (Error (libcerror_error_set [] LIBCERROR_ERROR_DOMAIN_RUNTIME
                                   LIBCERROR_RUNTIME_ERROR_VALUE_ALREADY_SET
                                   ''invalid file - filename strings value already set.'')),
                     file, file_io_handle', w)
               else
                 (let io0 = (if abort io \<noteq> 0 then io\<lparr>abort := 0\<rparr> else io);
                      file0 = internal_file\<lparr>io_handle := Some io0\<rparr>
                  in case libscca_io_handle_read_file_header (Some io0) file_io_handle' of
                       (Inl error, handle1) \<Rightarrow>
                         (let (file', w') = file_open_read_on_error file0 w
                          in (Inl (Error (libcerror_error_set error LIBCERROR_ERROR_DOMAIN_IO
                                            LIBCERROR_IO_ERROR_READ_FAILED
                                            ''unable to read file header.'')),
                              Some file', handle1, w'))
                     | (Inr (io1, hash), handle1) \<Rightarrow>
                         (let file1 = file0\<lparr>io_handle := Some io1, prefetch_hash := hash\<rparr>
                          in case libscca_file_information_initialize w of
                               (Inl error, w1) \<Rightarrow>
                                 (let (file', w') = file_open_read_on_error file1 w1
                                  in (Inl (Error (libcerror_error_set error
                                                    LIBCERROR_ERROR_DOMAIN_RUNTIME
                                                    LIBCERROR_RUNTIME_ERROR_INITIALIZE_FAILED
                                                    ''unable to create file information.'')),
                                      Some file', handle1, w'))
                             | (Inr information0, w1) \<Rightarrow>
                                 (case file_information_read ext information0 handle1 io1 of
                                    (Inl error, handle2) \<Rightarrow>
                                      (let (file', w') =
                                             file_open_read_on_error
                                               (file1\<lparr>file_information := Some information0\<rparr>) w1
                                       in (Inl (Error (libcerror_error_set error
                                                         LIBCERROR_ERROR_DOMAIN_IO
                                                         LIBCERROR_IO_ERROR_READ_FAILED
                                                         ''unable to read file information.'')),
                                           Some file', handle2, w'))
                                  | (Inr information, handle2) \<Rightarrow>
                                      (let file2 = file1\<lparr>file_information := Some information\<rparr>
                                       in case (if filename_strings_offset information \<noteq> 0
                                                then file_open_read_filename_strings ext file2
                                                       information handle2 w1
                                                else (Inr (), file2, handle2, w1)) of
                                            (Inl error, file3, handle3, w2) \<Rightarrow>
                                              (let (file', w') = file_open_read_on_error file3 w2
                                               in (Inl (Error error), Some file', handle3, w'))
                                          | (Inr _, file3, handle3, w2) \<Rightarrow>
                                              if volumes_information_offset information \<noteq> 0
                                              then
                                                (case (case file_io_handle file3 of
                                                         None \<Rightarrow>
                                                           (Inl (Error (libcerror_error_set
                                                                   (libbfio_error ''libbfio_handle_seek_offset'')
                                                                   LIBCERROR_ERROR_DOMAIN_IO
                                                                   LIBCERROR_IO_ERROR_SEEK_FAILED
                                                                   ''unable to seek volumes information offset: %PRIi32 (0x%08PRIx32).'')),
                                                            volumes_array file3, handle3, w2)
                                                       | Some _ \<Rightarrow>
                                                           libscca_io_handle_read_volumes_information
                                                             ext (io_handle file3) handle3
                                                             (volumes_information_offset information)
                                                             (volumes_information_size information)
                                                             (number_of_volumes information)
                                                             (volumes_array file3) w2) of
                                                   (Inl (Error error), array, handle4, w3) \<Rightarrow>
                                                     (let (file', w') =
                                                            file_open_read_on_error
                                                              (file3\<lparr>volumes_array := array\<rparr>) w3
                                                      in (Inl (Error (libcerror_error_set error
                                                                        LIBCERROR_ERROR_DOMAIN_IO
                                                                        LIBCERROR_IO_ERROR_READ_FAILED
                                                                        ''unable to read volumes information.'')),
                                                          Some file', handle4, w'))
                                                 | (Inl Outside_Buffer, array, handle4, w3) \<Rightarrow>
                                                     (Inl Outside_Buffer,
                                                      Some (file3\<lparr>volumes_array := array\<rparr>),
                                                      handle4, w3)
                                                 | (Inr _, array, handle4, w3) \<Rightarrow>
                                                     (Inr (),
                                                      Some (file3\<lparr>volumes_array := array\<rparr>),
                                                      handle4, w3))
                                              else (Inr (), Some file3, handle3, w2)))))))"

text \<open>
  \<^verbatim>\<open>libscca_file_get_number_of_filenames\<close> and \<^verbatim>\<open>libscca_file_get_number_of_volumes\<close>:
  the file's pointer is handed to the library that owns the collection.
\<close>

definition libscca_file_get_number_of_filenames ::
  "libscca_internal_file option \<Rightarrow> libcerror_error + int" where
  "libscca_file_get_number_of_filenames file =
     (case file of
        None \<Rightarrow>
          Inl (libcerror_error_set [] LIBCERROR_ERROR_DOMAIN_ARGUMENTS
                 LIBCERROR_ARGUMENT_ERROR_INVALID_VALUE ''invalid file.'')
      | Some internal_file \<Rightarrow>
          (case libfvalue_value_get_number_of_value_entries (filename_strings internal_file) of
             Inl error \<Rightarrow>
               Inl (libcerror_error_set error LIBCERROR_ERROR_DOMAIN_RUNTIME
                      LIBCERROR_RUNTIME_ERROR_GET_FAILED
                      ''unable to retrieve number of filename strings.'')
           | Inr number_of_filenames \<Rightarrow> Inr number_of_filenames))"

definition libscca_file_get_number_of_volumes ::
  "libscca_internal_file option \<Rightarrow> libcerror_error + int" where
  "libscca_file_get_number_of_volumes file =
     (case file of
        None \<Rightarrow>
          Inl (libcerror_error_set [] LIBCERROR_ERROR_DOMAIN_ARGUMENTS
                 LIBCERROR_ARGUMENT_ERROR_INVALID_VALUE ''invalid file.'')
      | Some internal_file \<Rightarrow>
          (case libcdata_array_get_number_of_entries (volumes_array internal_file) of
             Inl error \<Rightarrow>
               Inl (libcerror_error_set error LIBCERROR_ERROR_DOMAIN_RUNTIME
                      LIBCERROR_RUNTIME_ERROR_GET_FAILED
                      ''unable to retrieve number of volumes.'')
           | Inr number \<Rightarrow> Inr number))"

section \<open>Opening and closing\<close>

text \<open>
  What libbfio does for a file the library opens by name: \<^verbatim>\<open>libbfio_file_initialize\<close>
  allocates a handle, \<^verbatim>\<open>libbfio_file_set_name\<close> (or \<^verbatim>\<open>_set_name_wide\<close>) copies the name
  into it, which may fail for want of memory, and \<^verbatim>\<open>libbfio_handle_free\<close> releases it.
  The handle of a name is the parameter \<open>file_of_name\<close>.
\<close>

definition libbfio_file_initialize :: "world \<Rightarrow> (libcerror_error + unit) \<times> world" where
  "libbfio_file_initialize w =
     (case memory_allocate w of
        (False, w') \<Rightarrow> (Inl (libbfio_error ''libbfio_file_initialize''), w')
      | (True, w') \<Rightarrow> (Inr (), w'))"

definition libbfio_file_set_name ::
  "libbfio_handle \<Rightarrow> world \<Rightarrow> (libcerror_error + libbfio_handle) \<times> world" where
  "libbfio_file_set_name named w =
     (case allocation_succeeds w of
        (False, w') \<Rightarrow> (Inl (libbfio_error ''libbfio_file_set_name''), w')
      | (True, w') \<Rightarrow> (Inr named, w'))"

definition libbfio_handle_free ::
  "libbfio_handle \<Rightarrow> world \<Rightarrow> (libcerror_error + unit) \<times> world" where
  "libbfio_handle_free handle w =
     (if bfio_can_free handle then (Inr (), memory_free w)
      else (Inl (libbfio_error ''libbfio_handle_free''), w))"

text \<open>
  The label \<^verbatim>\<open>on_error\<close> of \<^verbatim>\<open>libscca_file_open_file_io_handle\<close> (source lines 670 to
  682): a handle the library opened is closed again, with the error handed on to
  \<^verbatim>\<open>libbfio_handle_close\<close>, and the file's pointer to the handle is set to \<^verbatim>\<open>NULL\<close>.
\<close>

definition file_open_file_io_handle_on_error ::
  "int \<Rightarrow> libscca_internal_file \<Rightarrow> libbfio_handle \<Rightarrow> libcerror_error
     \<Rightarrow> libcerror_error \<times> libscca_internal_file \<times> libbfio_handle" where
  "file_open_file_io_handle_on_error file_io_handle_is_open internal_file handle error =
     (if file_io_handle_is_open = 0 \<and> file_io_handle_opened_in_library internal_file \<noteq> 0
      then (case libbfio_handle_close handle of
              (Inl close_error, handle') \<Rightarrow>
                (error @ close_error,
                 internal_file\<lparr>file_io_handle_opened_in_library := 0, file_io_handle := None\<rparr>,
                 handle')
            | (Inr _, handle') \<Rightarrow>
                (error,
                 internal_file\<lparr>file_io_handle_opened_in_library := 0, file_io_handle := None\<rparr>,
                 handle'))
      else (error, internal_file\<lparr>file_io_handle := None\<rparr>, handle))"

text \<open>
  \<^verbatim>\<open>libscca_file_open_file_io_handle\<close>. The result holds the file and the file IO handle
  as the call leaves them. \<^verbatim>\<open>bfio_access_flags\<close> only travels to \<^verbatim>\<open>libbfio_handle_open\<close>.
\<close>

definition libscca_file_open_file_io_handle ::
  "externals \<Rightarrow> libscca_internal_file option \<Rightarrow> libbfio_handle option \<Rightarrow> 32 word \<Rightarrow> world
     \<Rightarrow> (failure + unit) \<times> libscca_internal_file option \<times> libbfio_handle option \<times> world" where
  "libscca_file_open_file_io_handle ext file file_io_handle' access_flags w =
     (case file of
        None \<Rightarrow>
          (Inl (Error (libcerror_error_set [] LIBCERROR_ERROR_DOMAIN_ARGUMENTS
                         LIBCERROR_ARGUMENT_ERROR_INVALID_VALUE ''invalid file.'')),
           file, file_io_handle', w)
      | Some internal_file \<Rightarrow>
          if file_io_handle internal_file \<noteq> None
          then (Inl (Error (libcerror_error_set [] LIBCERROR_ERROR_DOMAIN_RUNTIME
                              LIBCERROR_RUNTIME_ERROR_VALUE_ALREADY_SET
                              ''invalid file - file IO handle already set.'')),
                file, file_io_handle', w)
          else
            (case file_io_handle' of
               None \<Rightarrow>
                 (Inl (Error (libcerror_error_set [] LIBCERROR_ERROR_DOMAIN_ARGUMENTS
                                LIBCERROR_ARGUMENT_ERROR_INVALID_VALUE
                                ''invalid file IO handle.'')),
                  file, file_io_handle', w)
             | Some handle \<Rightarrow>
                 if access_flags AND LIBSCCA_ACCESS_FLAG_READ ext = 0 \<and>
                    access_flags AND LIBSCCA_ACCESS_FLAG_WRITE ext = 0
                 then (Inl (Error (libcerror_error_set [] LIBCERROR_ERROR_DOMAIN_ARGUMENTS
                                     LIBCERROR_ARGUMENT_ERROR_UNSUPPORTED_VALUE
                                     ''unsupported access flags.'')),
                       file, file_io_handle', w)
                 else if access_flags AND LIBSCCA_ACCESS_FLAG_WRITE ext \<noteq> 0
                 then (Inl (Error (libcerror_error_set [] LIBCERROR_ERROR_DOMAIN_ARGUMENTS
                                     LIBCERROR_ARGUMENT_ERROR_UNSUPPORTED_VALUE
                                     ''write access currently not supported.'')),
                       file, file_io_handle', w)
                 else
                   (let file1 = internal_file\<lparr>file_io_handle := Some handle\<rparr>
                    in case libbfio_handle_is_open handle of
                         Inl error \<Rightarrow>
                           (let (error', file', handle') =
                                  file_open_file_io_handle_on_error (- 1) file1 handle
                                    (libcerror_error_set error LIBCERROR_ERROR_DOMAIN_IO
                                       LIBCERROR_IO_ERROR_OPEN_FAILED
                                       ''unable to determine if file IO handle is open.'')
                            in (Inl (Error error'), Some file', Some handle', w))
                       | Inr file_io_handle_is_open \<Rightarrow>
                           (case (if file_io_handle_is_open = 0
                                  then (case libbfio_handle_open handle of
                                          Inl error \<Rightarrow> Inl error
                                        | Inr opened \<Rightarrow>
                                            Inr (file1\<lparr>file_io_handle_opened_in_library := 1\<rparr>,
                                                 opened))
                                  else Inr (file1, handle)) of
                              Inl error \<Rightarrow>
                                (let (error', file', handle') =
                                       file_open_file_io_handle_on_error file_io_handle_is_open
                                         file1 handle
                                         (libcerror_error_set error LIBCERROR_ERROR_DOMAIN_IO
                                            LIBCERROR_IO_ERROR_OPEN_FAILED
                                            ''unable to open file IO handle.'')
                                 in (Inl (Error error'), Some file', Some handle', w))
                            | Inr (file2, handle2) \<Rightarrow>
                                (case libscca_file_open_read ext (Some file2) handle2 w of
                                   (Inl (Error error), file3, handle3, w3) \<Rightarrow>
                                     (let (error', file', handle') =
                                            file_open_file_io_handle_on_error
                                              file_io_handle_is_open
                                              (case file3 of None \<Rightarrow> file2 | Some read \<Rightarrow> read)
                                              handle3
                                              (libcerror_error_set error LIBCERROR_ERROR_DOMAIN_IO
                                                 LIBCERROR_IO_ERROR_READ_FAILED
                                                 ''unable to read from file handle.'')
                                      in (Inl (Error error'), Some file', Some handle', w3))
                                 | (Inl Outside_Buffer, file3, handle3, w3) \<Rightarrow>
                                     (Inl Outside_Buffer, file3, Some handle3, w3)
                                 | (Inr _, file3, handle3, w3) \<Rightarrow>
                                     (Inr (),
                                      Some ((case file3 of None \<Rightarrow> file2 | Some read \<Rightarrow> read)
                                              \<lparr>file_io_handle := Some handle3\<rparr>),
                                      Some handle3, w3))))))"

text \<open>
  \<^verbatim>\<open>libscca_file_open\<close>. The file IO handle is made by the library, and freed again at the
  label \<^verbatim>\<open>on_error\<close> (source lines 392 to 399).
\<close>

definition libscca_file_open ::
  "externals \<Rightarrow> libscca_internal_file option \<Rightarrow> string option \<Rightarrow> 32 word \<Rightarrow> world
     \<Rightarrow> (failure + unit) \<times> libscca_internal_file option \<times> world" where
  "libscca_file_open ext file filename access_flags w =
     (case file of
        None \<Rightarrow>
          (Inl (Error (libcerror_error_set [] LIBCERROR_ERROR_DOMAIN_ARGUMENTS
                         LIBCERROR_ARGUMENT_ERROR_INVALID_VALUE ''invalid file.'')), file, w)
      | Some internal_file \<Rightarrow>
          (case filename of
             None \<Rightarrow>
               (Inl (Error (libcerror_error_set [] LIBCERROR_ERROR_DOMAIN_ARGUMENTS
                              LIBCERROR_ARGUMENT_ERROR_INVALID_VALUE ''invalid filename.'')),
                file, w)
           | Some name \<Rightarrow>
               if access_flags AND LIBSCCA_ACCESS_FLAG_READ ext = 0 \<and>
                  access_flags AND LIBSCCA_ACCESS_FLAG_WRITE ext = 0
               then (Inl (Error (libcerror_error_set [] LIBCERROR_ERROR_DOMAIN_ARGUMENTS
                                   LIBCERROR_ARGUMENT_ERROR_UNSUPPORTED_VALUE
                                   ''unsupported access flags.'')), file, w)
               else if access_flags AND LIBSCCA_ACCESS_FLAG_WRITE ext \<noteq> 0
               then (Inl (Error (libcerror_error_set [] LIBCERROR_ERROR_DOMAIN_ARGUMENTS
                                   LIBCERROR_ARGUMENT_ERROR_UNSUPPORTED_VALUE
                                   ''write access currently not supported.'')), file, w)
               else
                 (case libbfio_file_initialize w of
                    (Inl error, w1) \<Rightarrow>
                      (Inl (Error (libcerror_error_set error LIBCERROR_ERROR_DOMAIN_RUNTIME
                                     LIBCERROR_RUNTIME_ERROR_INITIALIZE_FAILED
                                     ''unable to create file IO handle.'')), file, w1)
                  | (Inr _, w1) \<Rightarrow>
                      (case libbfio_file_set_name (file_of_name ext name) w1 of
                         (Inl error, w2) \<Rightarrow>
                           (Inl (Error (libcerror_error_set error LIBCERROR_ERROR_DOMAIN_RUNTIME
                                          LIBCERROR_RUNTIME_ERROR_SET_FAILED
                                          ''unable to set filename in file IO handle.'')),
                            file, snd (libbfio_handle_free (file_of_name ext name) w2))
                       | (Inr handle, w2) \<Rightarrow>
                           (case libscca_file_open_file_io_handle ext file (Some handle)
                                   access_flags w2 of
                              (Inl (Error error), file', handle', w3) \<Rightarrow>
                                (Inl (Error (libcerror_error_set error LIBCERROR_ERROR_DOMAIN_IO
                                               LIBCERROR_IO_ERROR_OPEN_FAILED
                                               ''unable to open file: %s.'')),
                                 file',
                                 (case handle' of
                                    None \<Rightarrow> w3
                                  | Some left \<Rightarrow> snd (libbfio_handle_free left w3)))
                            | (Inl Outside_Buffer, file', handle', w3) \<Rightarrow>
                                (Inl Outside_Buffer, file', w3)
                            | (Inr _, file', handle', w3) \<Rightarrow>
                                (Inr (),
                                 map_option
                                   (\<lambda>opened. opened\<lparr>file_io_handle_created_in_library := 1\<rparr>)
                                   file',
                                 w3))))))"

text \<open>
  \<^verbatim>\<open>libscca_file_open_wide\<close> (with \<^verbatim>\<open>HAVE_WIDE_CHARACTER_TYPE\<close>): the same function for a
  name of wide characters.
\<close>

definition libscca_file_open_wide ::
  "externals \<Rightarrow> libscca_internal_file option \<Rightarrow> 32 word list option \<Rightarrow> 32 word \<Rightarrow> world
     \<Rightarrow> (failure + unit) \<times> libscca_internal_file option \<times> world" where
  "libscca_file_open_wide ext file filename access_flags w =
     (case file of
        None \<Rightarrow>
          (Inl (Error (libcerror_error_set [] LIBCERROR_ERROR_DOMAIN_ARGUMENTS
                         LIBCERROR_ARGUMENT_ERROR_INVALID_VALUE ''invalid file.'')), file, w)
      | Some internal_file \<Rightarrow>
          (case filename of
             None \<Rightarrow>
               (Inl (Error (libcerror_error_set [] LIBCERROR_ERROR_DOMAIN_ARGUMENTS
                              LIBCERROR_ARGUMENT_ERROR_INVALID_VALUE ''invalid filename.'')),
                file, w)
           | Some name \<Rightarrow>
               if access_flags AND LIBSCCA_ACCESS_FLAG_READ ext = 0 \<and>
                  access_flags AND LIBSCCA_ACCESS_FLAG_WRITE ext = 0
               then (Inl (Error (libcerror_error_set [] LIBCERROR_ERROR_DOMAIN_ARGUMENTS
                                   LIBCERROR_ARGUMENT_ERROR_UNSUPPORTED_VALUE
                                   ''unsupported access flags.'')), file, w)
               else if access_flags AND LIBSCCA_ACCESS_FLAG_WRITE ext \<noteq> 0
               then (Inl (Error (libcerror_error_set [] LIBCERROR_ERROR_DOMAIN_ARGUMENTS
                                   LIBCERROR_ARGUMENT_ERROR_UNSUPPORTED_VALUE
                                   ''write access currently not supported.'')), file, w)
               else
                 (case libbfio_file_initialize w of
                    (Inl error, w1) \<Rightarrow>
                      (Inl (Error (libcerror_error_set error LIBCERROR_ERROR_DOMAIN_RUNTIME
                                     LIBCERROR_RUNTIME_ERROR_INITIALIZE_FAILED
                                     ''unable to create file IO handle.'')), file, w1)
                  | (Inr _, w1) \<Rightarrow>
                      (case libbfio_file_set_name (file_of_wide_name ext name) w1 of
                         (Inl error, w2) \<Rightarrow>
                           (Inl (Error (libcerror_error_set error LIBCERROR_ERROR_DOMAIN_RUNTIME
                                          LIBCERROR_RUNTIME_ERROR_SET_FAILED
                                          ''unable to set filename in file IO handle.'')),
                            file, snd (libbfio_handle_free (file_of_wide_name ext name) w2))
                       | (Inr handle, w2) \<Rightarrow>
                           (case libscca_file_open_file_io_handle ext file (Some handle)
                                   access_flags w2 of
                              (Inl (Error error), file', handle', w3) \<Rightarrow>
                                (Inl (Error (libcerror_error_set error LIBCERROR_ERROR_DOMAIN_IO
                                               LIBCERROR_IO_ERROR_OPEN_FAILED
                                               ''unable to open file: %ls.'')),
                                 file',
                                 (case handle' of
                                    None \<Rightarrow> w3
                                  | Some left \<Rightarrow> snd (libbfio_handle_free left w3)))
                            | (Inl Outside_Buffer, file', handle', w3) \<Rightarrow>
                                (Inl Outside_Buffer, file', w3)
                            | (Inr _, file', handle', w3) \<Rightarrow>
                                (Inr (),
                                 map_option
                                   (\<lambda>opened. opened\<lparr>file_io_handle_created_in_library := 1\<rparr>)
                                   file',
                                 w3))))))"

text \<open>
  \<^verbatim>\<open>libscca_file_close\<close> returns 0 if successful or -1 on error. A failure of one step sets
  the result to -1 and the function goes on with the next step. The model returns the
  result with the error, the file, the file IO handle as the call leaves it (\<open>None\<close> when
  it was freed, or when there was none) and the memory.
\<close>

definition libscca_file_close ::
  "libscca_internal_file option \<Rightarrow> world
     \<Rightarrow> (int \<times> libcerror_error) \<times> libscca_internal_file option \<times> libbfio_handle option \<times> world" where
  "libscca_file_close file w =
     (case file of
        None \<Rightarrow>
          ((- 1, libcerror_error_set [] LIBCERROR_ERROR_DOMAIN_ARGUMENTS
                   LIBCERROR_ARGUMENT_ERROR_INVALID_VALUE ''invalid file.''), None, None, w)
      | Some internal_file \<Rightarrow>
          (case file_io_handle internal_file of
             None \<Rightarrow>
               ((- 1, libcerror_error_set [] LIBCERROR_ERROR_DOMAIN_RUNTIME
                        LIBCERROR_RUNTIME_ERROR_VALUE_MISSING
                        ''invalid file - missing file IO handle.''), file, None, w)
           | Some handle \<Rightarrow>
               (let (result1, error1, handle1) =
                      (if file_io_handle_opened_in_library internal_file \<noteq> 0
                       then (case libbfio_handle_close handle of
                               (Inl error, closed) \<Rightarrow>
                                 (- 1, libcerror_error_set error LIBCERROR_ERROR_DOMAIN_IO
                                         LIBCERROR_IO_ERROR_CLOSE_FAILED
                                         ''unable to close file IO handle.'', closed)
                             | (Inr _, closed) \<Rightarrow> (0, [], closed))
                       else (0, [], handle));
                    (result2, error2, handle2, w2) =
                      (if file_io_handle_created_in_library internal_file \<noteq> 0
                       then (case libbfio_handle_free handle1 w of
                               (Inl error, w') \<Rightarrow>
                                 (- 1, libcerror_error_set (error1 @ error)
                                         LIBCERROR_ERROR_DOMAIN_RUNTIME
                                         LIBCERROR_RUNTIME_ERROR_FINALIZE_FAILED
                                         ''unable to free file IO handle.'', Some handle1, w')
                             | (Inr _, w') \<Rightarrow> (result1, error1, None, w'))
                       else (result1, error1, Some handle1, w));
                    (result3, error3, io3) =
                      (case libscca_io_handle_clear (io_handle internal_file) of
                         (Inl error, io) \<Rightarrow>
                           (- 1, libcerror_error_set (error2 @ error)
                                   LIBCERROR_ERROR_DOMAIN_RUNTIME
                                   LIBCERROR_RUNTIME_ERROR_FINALIZE_FAILED
                                   ''unable to clear IO handle.'', io)
                       | (Inr _, io) \<Rightarrow> (result2, error2, io));
                    (information4, w4) =
                      (if file_information internal_file \<noteq> None
                       then libscca_file_information_free (file_information internal_file) w2
                       else (file_information internal_file, w2));
                    (strings5, w5) =
                      (if filename_strings internal_file \<noteq> None
                       then libfvalue_value_free (filename_strings internal_file) w4
                       else (filename_strings internal_file, w4));
                    (result6, error6, array6, w6) =
                      (case libcdata_array_resize_0 (volumes_array internal_file)
                              libscca_internal_volume_information_free w5 of
                         (Inl error, array, w') \<Rightarrow>
                           (- 1, libcerror_error_set (error3 @ error)
                                   LIBCERROR_ERROR_DOMAIN_RUNTIME
                                   LIBCERROR_RUNTIME_ERROR_RESIZE_FAILED
                                   ''unable to resize volumes array.'', array, w')
                       | (Inr _, array, w') \<Rightarrow> (result3, error3, array, w'))
                in ((result6, error6),
                    Some (internal_file
                            \<lparr>file_io_handle_opened_in_library := 0,
                             file_io_handle_created_in_library := 0,
                             file_io_handle := None,
                             io_handle := io3,
                             prefetch_hash := 0,
                             file_information := information4,
                             filename_strings := strings5,
                             volumes_array := array6\<rparr>),
                    handle2, w6))))"

section \<open>What a file owns\<close>

text \<open>
  The blocks a volume information holds (the structure, its device path, its directory
  strings value), the blocks the entries of a volumes array hold, and the blocks a file
  holds through its file information, its filename strings and the entries of its volumes
  array: what \<open>live\<close> must fall by when they are released.
\<close>

definition volume_blocks :: "libscca_internal_volume_information \<Rightarrow> int" where
  "volume_blocks volume_information =
     1 + (if device_path volume_information = None then 0 else 1)
       + (if directory_strings volume_information = None then 0 else 1)"

definition array_blocks :: "libscca_internal_volume_information list option \<Rightarrow> int" where
  "array_blocks array = (case array of None \<Rightarrow> 0 | Some entries \<Rightarrow> sum_list (map volume_blocks entries))"

definition parsed_blocks :: "libscca_internal_file \<Rightarrow> int" where
  "parsed_blocks internal_file =
     (if file_information internal_file = None then 0 else 1)
       + (if filename_strings internal_file = None then 0 else 1)
       + array_blocks (volumes_array internal_file)"

section \<open>Reference collaborators and example files\<close>

text \<open>
  Modelled from the spec: \<^verbatim>\<open>libscca_file_information_read\<close> (\<^verbatim>\<open>libscca_file_information.c\<close>
  is not among the sources). Section 4.3: the block is read immediately after the header
  and has 156 bytes for version 17 and 224 bytes for versions 23 and 26; it starts with
  metrics_array_offset, number_of_metrics_entries, trace_chain_array_offset,
  number_of_trace_chain_entries, filename_strings_offset, filename_strings_size,
  volumes_information_offset, number_of_volumes and volumes_information_size, 32 bits
  each; each non-zero offset is checked against the range from 84 to the declared file
  size. The section states no check of the format version and no size for a version
  other than 17, 23 and 26: the model checks none and reads the 224 bytes of the later
  layout for every version but 17. It stands for the parameter \<open>file_information_read\<close>
  where a theorem needs a concrete one; no theorem about all files depends on it.
\<close>

definition spec_file_information_read ::
  "libscca_file_information \<Rightarrow> libbfio_handle \<Rightarrow> libscca_io_handle
     \<Rightarrow> (libcerror_error + libscca_file_information) \<times> libbfio_handle" where
  "spec_file_information_read information file_io_handle' io =
     (case libbfio_handle_read_buffer file_io_handle'
             (if format_version io = 17 then 156 else 224) of
        (Inl error, handle) \<Rightarrow>
          (Inl (libcerror_error_set error LIBCERROR_ERROR_DOMAIN_IO
                  LIBCERROR_IO_ERROR_READ_FAILED ''unable to read file information data.''),
           handle)
      | (Inr block, handle) \<Rightarrow>
          if length block \<noteq> (if format_version io = 17 then 156 else 224)
          then (Inl (libcerror_error_set [] LIBCERROR_ERROR_DOMAIN_IO
                       LIBCERROR_IO_ERROR_READ_FAILED
                       ''unable to read file information data.''), handle)
          else
            (let decoded = information
                   \<lparr>metrics_array_offset :=
                      byte_stream_copy_to_uint32_little_endian (take 4 block),
                    number_of_metrics_entries :=
                      byte_stream_copy_to_uint32_little_endian (take 4 (drop 4 block)),
                    trace_chain_array_offset :=
                      byte_stream_copy_to_uint32_little_endian (take 4 (drop 8 block)),
                    number_of_trace_chain_array_entries :=
                      byte_stream_copy_to_uint32_little_endian (take 4 (drop 12 block)),
                    filename_strings_offset :=
                      byte_stream_copy_to_uint32_little_endian (take 4 (drop 16 block)),
                    filename_strings_size :=
                      byte_stream_copy_to_uint32_little_endian (take 4 (drop 20 block)),
                    volumes_information_offset :=
                      byte_stream_copy_to_uint32_little_endian (take 4 (drop 24 block)),
                    number_of_volumes :=
                      byte_stream_copy_to_uint32_little_endian (take 4 (drop 28 block)),
                    volumes_information_size :=
                      byte_stream_copy_to_uint32_little_endian (take 4 (drop 32 block))\<rparr>
             in if list_all (\<lambda>offset. offset = 0 \<or> (84 \<le> offset \<and> offset \<le> file_size io))
                     [metrics_array_offset decoded, trace_chain_array_offset decoded,
                      filename_strings_offset decoded, volumes_information_offset decoded]
                then (Inr decoded, handle)
                else (Inl (libcerror_error_set [] LIBCERROR_ERROR_DOMAIN_RUNTIME
                             LIBCERROR_RUNTIME_ERROR_VALUE_OUT_OF_BOUNDS
                             ''invalid offset value out of bounds.''), handle)))"

text \<open>
  Modelled from the spec: the string table of section 4.6, which stands for libfvalue's
  splitting of a strings array. The strings are UTF-16 little-endian, each ended by one
  NUL code unit; an odd length is an error; a last string without its NUL is kept, an
  empty one after the last NUL is not.
\<close>

fun spec_strings_array_from :: "byte list \<Rightarrow> byte list \<Rightarrow> byte list list option" where
  "spec_strings_array_from current [] = Some (if current = [] then [] else [current])"
| "spec_strings_array_from current [_] = None"
| "spec_strings_array_from current (low # high # rest) =
     (if low = 0 \<and> high = 0
      then map_option (\<lambda>strings. current # strings) (spec_strings_array_from [] rest)
      else spec_strings_array_from (current @ [low, high]) rest)"

definition spec_strings_array :: "byte list \<Rightarrow> byte list list option" where
  "spec_strings_array data = spec_strings_array_from [] data"

text \<open>
  An open byte source over given bytes, which reports their number as its size, and a
  closed one that can be opened.
\<close>

definition open_handle_of :: "byte list \<Rightarrow> libbfio_handle" where
  "open_handle_of bytes =
     \<lparr>bfio_data = bytes, bfio_size = Some (word_of_nat (length bytes)), bfio_offset = 0,
      bfio_state = BFIO_OPEN, bfio_can_open = True, bfio_can_close = True,
      bfio_can_free = True\<rparr>"

definition closed_handle_of :: "byte list \<Rightarrow> libbfio_handle" where
  "closed_handle_of bytes = (open_handle_of bytes)\<lparr>bfio_state := BFIO_CLOSED\<rparr>"

text \<open>
  A file header as section 4.2 lays it out, from the bytes of its format version, its
  signature, its file size and its prefetch hash; the executable filename is left empty.
\<close>

definition example_file_header ::
  "byte list \<Rightarrow> byte list \<Rightarrow> byte list \<Rightarrow> byte list \<Rightarrow> byte list" where
  "example_file_header version signature declared_size hash =
     version @ signature @ [0, 0, 0, 0] @ declared_size @ replicate 60 0 @ hash @ [0, 0, 0, 0]"

text \<open>
  The minimal version 17 file of section 8, scenario 1: the signature SCCA, prefetch hash
  0xDEADBEEF, a file information whose offsets and counts are all 0. Its 240 bytes are the
  header and the 156 bytes of the version 17 file information.
\<close>

definition minimal_v17_file :: "byte list" where
  "minimal_v17_file =
     example_file_header [17, 0, 0, 0] [0x53, 0x43, 0x43, 0x41] [240, 0, 0, 0]
       [0xEF, 0xBE, 0xAD, 0xDE] @ replicate 156 0"

text \<open>
  The reference collaborators: the file information reader and the string table of the
  spec, a file system with the one file \<^verbatim>\<open>A.pf\<close> (the minimal file; any other name gives a
  handle that cannot be opened), and 1 and 2 for the read and the write flag.
\<close>

definition reference_externals :: externals where
  "reference_externals =
     \<lparr>file_information_read = spec_file_information_read,
      strings_array = spec_strings_array,
      file_of_name = (\<lambda>name. if name = ''A.pf'' then closed_handle_of minimal_v17_file
                              else (closed_handle_of [])\<lparr>bfio_can_open := False\<rparr>),
      file_of_wide_name = (\<lambda>name. (closed_handle_of [])\<lparr>bfio_can_open := False\<rparr>),
      LIBSCCA_ACCESS_FLAG_READ = 1,
      LIBSCCA_ACCESS_FLAG_WRITE = 2\<rparr>"

text \<open>A file as \<^verbatim>\<open>libscca_file_initialize\<close> leaves it, and memory with nothing allocated.\<close>

definition initialized_file :: libscca_internal_file where
  "initialized_file =
     internal_file_zero\<lparr>volumes_array := Some [], io_handle := Some io_handle_zero\<rparr>"

definition empty_world :: world where
  "empty_world = \<lparr>alloc_tape = [], live = 0\<rparr>"

text \<open>
  Two headers alone: one of format version 30 with the signature SCCA, and one of format
  version 17 with the signature ABCD (section 8, scenarios 3 and 2).
\<close>

definition version_30_file :: "byte list" where
  "version_30_file =
     example_file_header [30, 0, 0, 0] [0x53, 0x43, 0x43, 0x41] [84, 0, 0, 0]
       [0xEF, 0xBE, 0xAD, 0xDE]"

definition bad_signature_file :: "byte list" where
  "bad_signature_file =
     example_file_header [17, 0, 0, 0] [0x41, 0x42, 0x43, 0x44] [84, 0, 0, 0]
       [0xEF, 0xBE, 0xAD, 0xDE]"


text \<open>
  The file that opening the minimal file through a closed handle gives, and a file with
  filename strings and one volume besides, as an open of a larger SCCA file leaves it.
\<close>

definition minimal_v17_opened :: libscca_internal_file where
  "minimal_v17_opened =
     \<lparr>io_handle = Some \<lparr>format_version = 17, file_size = 240, abort = 0\<rparr>,
      file_io_handle = Some ((open_handle_of minimal_v17_file)\<lparr>bfio_offset := 240\<rparr>),
      file_io_handle_created_in_library = 0,
      file_io_handle_opened_in_library = 1,
      prefetch_hash = 0xDEADBEEF,
      file_information = Some file_information_zero,
      filename_strings = None,
      volumes_array = Some []\<rparr>"

definition example_volume :: libscca_internal_volume_information where
  "example_volume =
     \<lparr>device_path = Some [0x43, 0, 0x3A, 0], device_path_size = 4,
      creation_time = 0x01D012A100000000, serial_number = 0x12345678,
      directory_strings = Some \<lparr>value_entries = [[0x41, 0]]\<rparr>\<rparr>"

definition example_opened_file :: libscca_internal_file where
  "example_opened_file =
     minimal_v17_opened
       \<lparr>filename_strings := Some \<lparr>value_entries = [[0x42, 0]]\<rparr>,
        volumes_array := Some [example_volume]\<rparr>"

text \<open>
  A version 17 file with two volumes: after the header and the file information, at offset
  240, a volumes information of 212 bytes with two records of 40 bytes, 128 bytes that
  nothing points at and, at its offset 208, the device path \<^verbatim>\<open>C:\<close> that both records
  point at. The file information it
  decodes to, the volume its first record decodes to, and the errors the volumes decoder
  reports when the second volume information cannot be allocated.
\<close>

definition example_volume_record :: "byte list" where
  "example_volume_record =
     [208, 0, 0, 0] @ [2, 0, 0, 0] @ [0, 0, 0, 0, 0xA1, 0x12, 0xD0, 0x01] @
     [0x78, 0x56, 0x34, 0x12] @ replicate 16 0 @ replicate 4 0"

definition two_volume_block :: "byte list" where
  "two_volume_block =
     example_volume_record @ example_volume_record @ replicate 128 0 @ [0x43, 0, 0x3A, 0]"

definition two_volume_file :: "byte list" where
  "two_volume_file =
     example_file_header [17, 0, 0, 0] [0x53, 0x43, 0x43, 0x41] [0xC4, 0x01, 0, 0]
       [0xEF, 0xBE, 0xAD, 0xDE] @
     (replicate 24 0 @ [240, 0, 0, 0] @ [2, 0, 0, 0] @ [212, 0, 0, 0] @ replicate 120 0) @
     two_volume_block"

definition two_volume_information :: libscca_file_information where
  "two_volume_information =
     file_information_zero\<lparr>volumes_information_offset := 240, number_of_volumes := 2,
                            volumes_information_size := 212\<rparr>"

definition decoded_volume :: libscca_internal_volume_information where
  "decoded_volume =
     \<lparr>device_path = Some [0x43, 0, 0x3A, 0], device_path_size = 4,
      creation_time = 0x01D012A100000000, serial_number = 0x12345678,
      directory_strings = None\<rparr>"

definition volumes_failure :: libcerror_error where
  "volumes_failure =
     [(LIBCERROR_ERROR_DOMAIN_MEMORY, LIBCERROR_MEMORY_ERROR_INSUFFICIENT,
       ''unable to create volume information.''),
      (LIBCERROR_ERROR_DOMAIN_RUNTIME, LIBCERROR_RUNTIME_ERROR_INITIALIZE_FAILED,
       ''unable to create volume: %PRIu32 information.'')]"

text \<open>
  A volumes information of 104 bytes that starts with a version 17 record whose
  \<^verbatim>\<open>file_references_offset\<close> is 4096, far outside the 104 bytes.
\<close>

definition overrun_volume_block :: "byte list" where
  "overrun_volume_block =
     [0, 0, 0, 0] @ [0, 0, 0, 0] @ [0, 0, 0, 0, 0xA1, 0x12, 0xD0, 0x01] @
     [0x78, 0x56, 0x34, 0x12] @ [0, 0x10, 0, 0] @ [16, 0, 0, 0] @ replicate 8 0 @
     replicate 68 0"

text \<open>
  Two volumes informations with a file references section at offset 8: one with the
  number of file references 3, followed by the two references of section 8, scenario 5,
  and one with the number of file references 1 and no reference.
\<close>

definition file_references_block :: "byte list" where
  "file_references_block =
     replicate 8 0 @ [3, 0, 0, 0] @ [3, 0, 0, 0] @ replicate 8 0 @
     [0x42, 0, 0, 0, 0, 0, 0x01, 0] @ [0x43, 0, 0, 0, 0, 0, 0x02, 0]"

definition one_file_reference_block :: "byte list" where
  "one_file_reference_block = replicate 8 0 @ [3, 0, 0, 0] @ [1, 0, 0, 0] @ replicate 8 0"

text \<open>
  A volumes information of 72 bytes: one version 17 record, with no device path and no
  directory strings, whose \<^verbatim>\<open>file_references_offset\<close> is 40 and whose
  \<^verbatim>\<open>file_references_size\<close> is 32, and at offset 40 the file references section of section
  8, scenario 5: version 3, number of file references 3, 8 bytes, two references.
\<close>

definition referencing_volume_block :: "byte list" where
  "referencing_volume_block =
     [0, 0, 0, 0] @ [0, 0, 0, 0] @ [0, 0, 0, 0, 0xA1, 0x12, 0xD0, 0x01] @
     [0x78, 0x56, 0x34, 0x12] @ [40, 0, 0, 0] @ [32, 0, 0, 0] @ replicate 8 0 @
     replicate 4 0 @
     [3, 0, 0, 0] @ [3, 0, 0, 0] @ replicate 8 0 @
     [0x42, 0, 0, 0, 0, 0, 0x01, 0] @ [0x43, 0, 0, 0, 0, 0, 0x02, 0]"

section \<open>Lemmas on memory and on the example files\<close>

lemmas memory_defs = memory_allocate_def allocation_succeeds_def memory_free_def

lemma volume_information_free_world:
  "live (libscca_internal_volume_information_free v w) = live w - volume_blocks v"
  "alloc_tape (libscca_internal_volume_information_free v w) = alloc_tape w"
  by (auto simp: libscca_internal_volume_information_free_def volume_blocks_def
      libfvalue_value_free_def memory_free_def Let_def split: option.splits)

lemma fold_volume_information_free_world:
  "live (fold libscca_internal_volume_information_free vs w) =
     live w - sum_list (map volume_blocks vs)"
  "alloc_tape (fold libscca_internal_volume_information_free vs w) = alloc_tape w"
  by (induction vs arbitrary: w) (simp_all add: volume_information_free_world)

section \<open>The file header\<close>

lemmas header_defs =
  libscca_io_handle_read_file_header_def libbfio_handle_get_size_def
  libbfio_handle_seek_offset_def libbfio_handle_read_buffer_def sizeof_scca_file_header_t_def
  file_header_signature_def libcerror_error_set_def file_header_format_version_def
  file_header_file_size_def file_header_prefetch_hash_def libbfio_error_def

lemmas example_defs =
  open_handle_of_def example_file_header_def scca_file_signature_def io_handle_zero_def
  byte_stream_copy_to_uint32_little_endian_def

text \<open>
  C2, as the code has it. The header decoder fails whenever bytes 4 to 8 are not SCCA, and
  with the invalid-signature error (runtime domain, unsupported value) once the 84 bytes
  of the header have been read from an open source. It does not look at the format
  version: with the signature in place it succeeds for every version and stores the
  decoded format version and file size in the IO handle, next to the prefetch hash. The
  check that the format version is 17, 23 or 26 is made by the metrics array decoder,
  which fails with an unsupported-value argument error for any other version, before it
  reads anything.
\<close>

theorem file_header_checks_signature_not_version:
  "(take 4 (drop 4 (bfio_data h)) \<noteq> scca_file_signature \<longrightarrow>
      (\<exists>error. fst (libscca_io_handle_read_file_header (Some io) h) = Inl error)) \<and>
   (bfio_state h = BFIO_OPEN \<and> bfio_size h = Some reported \<and> 84 \<le> length (bfio_data h) \<longrightarrow>
      fst (libscca_io_handle_read_file_header (Some io) h) =
        (if take 4 (drop 4 (bfio_data h)) \<noteq> scca_file_signature
         then Inl [(LIBCERROR_ERROR_DOMAIN_RUNTIME, LIBCERROR_RUNTIME_ERROR_UNSUPPORTED_VALUE,
                    ''invalid signature.'')]
         else Inr (io\<lparr>format_version :=
                        byte_stream_copy_to_uint32_little_endian (take 4 (bfio_data h)),
                      file_size :=
                        byte_stream_copy_to_uint32_little_endian
                          (take 4 (drop 12 (bfio_data h)))\<rparr>,
                   byte_stream_copy_to_uint32_little_endian
                     (take 4 (drop 76 (bfio_data h)))))) \<and>
   (format_version io \<noteq> 17 \<and> format_version io \<noteq> 23 \<and> format_version io \<noteq> 26 \<longrightarrow>
      libscca_io_handle_read_metrics_array (Some io) h file_offset number_of_entries w =
        (Inl [(LIBCERROR_ERROR_DOMAIN_ARGUMENTS, LIBCERROR_ARGUMENT_ERROR_UNSUPPORTED_VALUE,
               ''invalid IO handle - unsupported format version.'')], h, w))"
proof (intro conjI impI)
  assume "take 4 (drop 4 (bfio_data h)) \<noteq> scca_file_signature"
  then show "\<exists>error. fst (libscca_io_handle_read_file_header (Some io) h) = Inl error"
    by (auto simp: header_defs Let_def take_drop min_def split: option.splits)
next
  assume "bfio_state h = BFIO_OPEN \<and> bfio_size h = Some reported \<and> 84 \<le> length (bfio_data h)"
  then show "fst (libscca_io_handle_read_file_header (Some io) h) =
        (if take 4 (drop 4 (bfio_data h)) \<noteq> scca_file_signature
         then Inl [(LIBCERROR_ERROR_DOMAIN_RUNTIME, LIBCERROR_RUNTIME_ERROR_UNSUPPORTED_VALUE,
                    ''invalid signature.'')]
         else Inr (io\<lparr>format_version :=
                        byte_stream_copy_to_uint32_little_endian (take 4 (bfio_data h)),
                      file_size :=
                        byte_stream_copy_to_uint32_little_endian
                          (take 4 (drop 12 (bfio_data h)))\<rparr>,
                   byte_stream_copy_to_uint32_little_endian
                     (take 4 (drop 76 (bfio_data h)))))"
    by (simp add: header_defs Let_def take_drop min_def)
next
  assume "format_version io \<noteq> 17 \<and> format_version io \<noteq> 23 \<and> format_version io \<noteq> 26"
  then show "libscca_io_handle_read_metrics_array (Some io) h file_offset number_of_entries w =
        (Inl [(LIBCERROR_ERROR_DOMAIN_ARGUMENTS, LIBCERROR_ARGUMENT_ERROR_UNSUPPORTED_VALUE,
               ''invalid IO handle - unsupported format version.'')], h, w)"
    by (simp add: libscca_io_handle_read_metrics_array_def libcerror_error_set_def)
qed

text \<open>
  The three parts at concrete inputs: the header with the signature ABCD is refused, the
  header of format version 30 is accepted, and the metrics array decoder refuses format
  version 30.
\<close>

theorem file_header_checks_signature_not_version_witness:
  "fst (libscca_io_handle_read_file_header (Some io_handle_zero)
          (open_handle_of bad_signature_file)) =
     Inl [(LIBCERROR_ERROR_DOMAIN_RUNTIME, LIBCERROR_RUNTIME_ERROR_UNSUPPORTED_VALUE,
           ''invalid signature.'')] \<and>
   fst (libscca_io_handle_read_file_header (Some io_handle_zero)
          (open_handle_of version_30_file)) =
     Inr (\<lparr>format_version = 30, file_size = 84, abort = 0\<rparr>, 0xDEADBEEF) \<and>
   libscca_io_handle_read_metrics_array
       (Some \<lparr>format_version = 30, file_size = 84, abort = 0\<rparr>)
       (open_handle_of version_30_file) 84 0 empty_world =
     (Inl [(LIBCERROR_ERROR_DOMAIN_ARGUMENTS, LIBCERROR_ARGUMENT_ERROR_UNSUPPORTED_VALUE,
            ''invalid IO handle - unsupported format version.'')],
      open_handle_of version_30_file, empty_world)"
  using file_header_checks_signature_not_version
          [of "open_handle_of bad_signature_file" io_handle_zero "84"]
        file_header_checks_signature_not_version
          [of "open_handle_of version_30_file" io_handle_zero "84"]
        file_header_checks_signature_not_version
          [of "open_handle_of version_30_file"
              "\<lparr>format_version = 30, file_size = 84, abort = 0\<rparr>" "84" 84 0 empty_world]
  by (simp add: example_defs version_30_file_def bad_signature_file_def)

text \<open>
  C2 as the spec states it fails: the header decoder accepts a header whose format version
  is 30, which is none of 17, 23 and 26.
\<close>

theorem file_header_accepts_version_30:
  "fst (libscca_io_handle_read_file_header (Some io_handle_zero)
          (open_handle_of version_30_file)) =
     Inr (\<lparr>format_version = 30, file_size = 84, abort = 0\<rparr>, 0xDEADBEEF)"
  by (simp add: header_defs example_defs version_30_file_def Let_def)

text \<open>
  C3, as the code has it. The size the byte source reports plays no part in reading the
  header: with any two reported sizes the outcome is the same (the same error, or the same
  decoded IO handle and prefetch hash). So a file size that differs from the reported size
  is never an error, and nothing records it: the model has no size-mismatch flag.
\<close>

theorem file_header_ignores_reported_size:
  "fst (libscca_io_handle_read_file_header io (h\<lparr>bfio_size := Some reported\<rparr>)) =
   fst (libscca_io_handle_read_file_header io (h\<lparr>bfio_size := Some reported'\<rparr>))"
  by (simp add: header_defs Let_def split: option.splits)

text \<open>
  C3 as the spec states it fails: the header of the minimal file declares 240 bytes; read
  from a source that reports 84 bytes it gives the very IO handle and prefetch hash it
  gives when the source reports 240 bytes, so the mismatch is recorded nowhere.
\<close>

theorem file_header_size_mismatch_leaves_no_trace:
  "fst (libscca_io_handle_read_file_header (Some io_handle_zero)
          ((open_handle_of minimal_v17_file)\<lparr>bfio_size := Some 84\<rparr>)) =
     Inr (\<lparr>format_version = 17, file_size = 240, abort = 0\<rparr>, 0xDEADBEEF) \<and>
   fst (libscca_io_handle_read_file_header (Some io_handle_zero)
          ((open_handle_of minimal_v17_file)\<lparr>bfio_size := Some 240\<rparr>)) =
     Inr (\<lparr>format_version = 17, file_size = 240, abort = 0\<rparr>, 0xDEADBEEF)"
  by (simp add: header_defs example_defs minimal_v17_file_def Let_def)

section \<open>Opening the minimal file\<close>

lemma minimal_header:
  "libscca_io_handle_read_file_header (Some \<lparr>format_version = 0, file_size = 0, abort = 0\<rparr>)
      (open_handle_of minimal_v17_file) =
     (Inr (\<lparr>format_version = 17, file_size = 240, abort = 0\<rparr>, 0xDEADBEEF),
      (open_handle_of minimal_v17_file)\<lparr>bfio_offset := 84\<rparr>)"
  by (simp add: header_defs example_defs minimal_v17_file_def Let_def)

lemma minimal_information:
  "spec_file_information_read file_information_zero
      ((open_handle_of minimal_v17_file)\<lparr>bfio_offset := 84\<rparr>)
      \<lparr>format_version = 17, file_size = 240, abort = 0\<rparr> =
     (Inr file_information_zero, (open_handle_of minimal_v17_file)\<lparr>bfio_offset := 240\<rparr>)"
  by (simp add: spec_file_information_read_def libbfio_handle_read_buffer_def example_defs
        minimal_v17_file_def file_information_zero_def Let_def)

lemma minimal_open_read:
  "libscca_file_open_read reference_externals
      (Some (initialized_file
               \<lparr>io_handle := Some \<lparr>format_version = 0, file_size = 0, abort = flag\<rparr>,
                file_io_handle := Some pointer, file_io_handle_opened_in_library := 1\<rparr>))
      (open_handle_of minimal_v17_file) empty_world =
     (Inr (), Some (minimal_v17_opened\<lparr>file_io_handle := Some pointer\<rparr>),
      (open_handle_of minimal_v17_file)\<lparr>bfio_offset := 240\<rparr>,
      \<lparr>alloc_tape = [], live = 1\<rparr>)"
proof -
  have reader: "file_information_read reference_externals = spec_file_information_read"
    by (simp add: reference_externals_def)
  have offsets: "filename_strings_offset file_information_zero = 0"
    "volumes_information_offset file_information_zero = 0"
    by (simp_all add: file_information_zero_def)
  show ?thesis
    by (simp add: libscca_file_open_read_def initialized_file_def internal_file_zero_def
        minimal_header minimal_information reader offsets Let_def
        libscca_file_information_initialize_def memory_defs empty_world_def
        minimal_v17_opened_def)
qed

lemma minimal_open:
  "libscca_file_open_file_io_handle reference_externals
      (Some (initialized_file
               \<lparr>io_handle := Some \<lparr>format_version = 0, file_size = 0, abort = flag\<rparr>\<rparr>))
      (Some (closed_handle_of minimal_v17_file)) 1 empty_world =
     (Inr (), Some minimal_v17_opened,
      Some ((open_handle_of minimal_v17_file)\<lparr>bfio_offset := 240\<rparr>),
      \<lparr>alloc_tape = [], live = 1\<rparr>)"
proof -
  have opened: "libbfio_handle_open (closed_handle_of minimal_v17_file) =
      Inr (open_handle_of minimal_v17_file)"
    by (simp add: libbfio_handle_open_def closed_handle_of_def open_handle_of_def)
  have is_open: "libbfio_handle_is_open (closed_handle_of minimal_v17_file) = Inr 0"
    by (simp add: libbfio_handle_is_open_def closed_handle_of_def)
  have flags: "LIBSCCA_ACCESS_FLAG_READ reference_externals = 1"
    "LIBSCCA_ACCESS_FLAG_WRITE reference_externals = 2"
    by (simp_all add: reference_externals_def)
  have init: "file_io_handle initialized_file = None"
    by (simp add: initialized_file_def internal_file_zero_def)
  have parsed: "libscca_file_open_read reference_externals
      (Some (initialized_file
               \<lparr>io_handle := Some \<lparr>format_version = 0, file_size = 0, abort = flag\<rparr>,
                file_io_handle := Some (closed_handle_of minimal_v17_file),
                file_io_handle_opened_in_library := 1\<rparr>))
      (open_handle_of minimal_v17_file) empty_world =
     (Inr (),
      Some (minimal_v17_opened\<lparr>file_io_handle := Some (closed_handle_of minimal_v17_file)\<rparr>),
      (open_handle_of minimal_v17_file)\<lparr>bfio_offset := 240\<rparr>,
      \<lparr>alloc_tape = [], live = 1\<rparr>)"
    by (rule minimal_open_read)
  show ?thesis
    by (simp add: libscca_file_open_file_io_handle_def opened is_open flags init parsed
        minimal_v17_opened_def)
qed

section \<open>The abort flag\<close>

text \<open>
  C5, as the code has it. \<^verbatim>\<open>libscca_file_signal_abort\<close> sets the abort flag of the IO
  handle to 1 and returns 1. \<^verbatim>\<open>libscca_file_open_read\<close> sets the flag back to 0 before it
  reads anything, and no decoder reads the flag: on a file that is not open (no file
  information, no filename strings) a parse started after the signal does exactly what a
  parse started with the flag clear does; it returns the same result, the same file, the
  same file IO handle and the same memory. No parse ends with an error for the flag.
\<close>

theorem signal_abort_does_not_stop_a_parse:
  "io_handle internal_file = Some io \<Longrightarrow>
   file_information internal_file = None \<Longrightarrow> filename_strings internal_file = None \<Longrightarrow>
   libscca_file_signal_abort (Some internal_file) =
     (Inr (), Some (internal_file\<lparr>io_handle := Some (io\<lparr>abort := 1\<rparr>)\<rparr>)) \<and>
   libscca_file_open_read ext
       (Some (internal_file\<lparr>io_handle := Some (io\<lparr>abort := 1\<rparr>)\<rparr>)) h w =
   libscca_file_open_read ext
       (Some (internal_file\<lparr>io_handle := Some (io\<lparr>abort := 0\<rparr>)\<rparr>)) h w"
  by (simp add: libscca_file_signal_abort_def libscca_file_open_read_def Let_def)

theorem signal_abort_does_not_stop_a_parse_witness:
  "libscca_file_signal_abort (Some initialized_file) =
     (Inr (), Some (initialized_file
                      \<lparr>io_handle := Some \<lparr>format_version = 0, file_size = 0, abort = 1\<rparr>\<rparr>)) \<and>
   libscca_file_open_read reference_externals
      (Some (initialized_file
               \<lparr>io_handle := Some \<lparr>format_version = 0, file_size = 0, abort = 1\<rparr>\<rparr>))
      (open_handle_of minimal_v17_file) empty_world =
   libscca_file_open_read reference_externals
      (Some (initialized_file
               \<lparr>io_handle := Some \<lparr>format_version = 0, file_size = 0, abort = 0\<rparr>\<rparr>))
      (open_handle_of minimal_v17_file) empty_world"
  using signal_abort_does_not_stop_a_parse
          [of initialized_file io_handle_zero reference_externals
              "open_handle_of minimal_v17_file" empty_world]
  by (simp add: initialized_file_def internal_file_zero_def io_handle_zero_def)

text \<open>
  C5 as the spec states it fails: after \<^verbatim>\<open>libscca_file_signal_abort\<close> on a fresh file,
  opening the minimal file succeeds and gives the parsed file, with the abort flag back
  at 0.
\<close>

theorem parse_after_signal_abort_succeeds:
  "libscca_file_signal_abort (Some initialized_file) =
     (Inr (), Some (initialized_file
                      \<lparr>io_handle := Some \<lparr>format_version = 0, file_size = 0, abort = 1\<rparr>\<rparr>)) \<and>
   libscca_file_open_file_io_handle reference_externals
      (Some (initialized_file
               \<lparr>io_handle := Some \<lparr>format_version = 0, file_size = 0, abort = 1\<rparr>\<rparr>))
      (Some (closed_handle_of minimal_v17_file)) 1 empty_world =
     (Inr (), Some minimal_v17_opened,
      Some ((open_handle_of minimal_v17_file)\<lparr>bfio_offset := 240\<rparr>),
      \<lparr>alloc_tape = [], live = 1\<rparr>)"
proof (intro conjI)
  show "libscca_file_signal_abort (Some initialized_file) =
     (Inr (), Some (initialized_file
                      \<lparr>io_handle := Some \<lparr>format_version = 0, file_size = 0, abort = 1\<rparr>\<rparr>))"
    by (simp add: libscca_file_signal_abort_def initialized_file_def io_handle_zero_def)
  show "libscca_file_open_file_io_handle reference_externals
      (Some (initialized_file
               \<lparr>io_handle := Some \<lparr>format_version = 0, file_size = 0, abort = 1\<rparr>\<rparr>))
      (Some (closed_handle_of minimal_v17_file)) 1 empty_world =
     (Inr (), Some minimal_v17_opened,
      Some ((open_handle_of minimal_v17_file)\<lparr>bfio_offset := 240\<rparr>),
      \<lparr>alloc_tape = [], live = 1\<rparr>)"
    by (rule minimal_open)
qed

section \<open>The number of filenames\<close>

text \<open>
  C7 at the minimal file, whose \<^verbatim>\<open>filename_strings_offset\<close> is 0: the open succeeds, and
  on the file it leaves \<^verbatim>\<open>libscca_file_get_number_of_filenames\<close> fails, because the
  filename strings value was never created and libfvalue is handed \<^verbatim>\<open>NULL\<close>. The number
  of volumes of the same file is 0: the volumes array exists from
  \<^verbatim>\<open>libscca_file_initialize\<close> on.
\<close>

theorem number_of_filenames_fails_without_filename_strings:
  "fst (libscca_file_open_file_io_handle reference_externals (Some initialized_file)
          (Some (closed_handle_of minimal_v17_file)) 1 empty_world) = Inr () \<and>
   libscca_file_get_number_of_filenames
     (fst (snd (libscca_file_open_file_io_handle reference_externals (Some initialized_file)
                  (Some (closed_handle_of minimal_v17_file)) 1 empty_world))) =
     Inl [(LIBCERROR_ERROR_DOMAIN_ARGUMENTS, LIBCERROR_ARGUMENT_ERROR_INVALID_VALUE,
           ''invalid value.''),
          (LIBCERROR_ERROR_DOMAIN_RUNTIME, LIBCERROR_RUNTIME_ERROR_GET_FAILED,
           ''unable to retrieve number of filename strings.'')] \<and>
   libscca_file_get_number_of_volumes
     (fst (snd (libscca_file_open_file_io_handle reference_externals (Some initialized_file)
                  (Some (closed_handle_of minimal_v17_file)) 1 empty_world))) = Inr 0"
  using minimal_open [of 0]
  by (simp add: initialized_file_def io_handle_zero_def libscca_file_get_number_of_filenames_def
        libscca_file_get_number_of_volumes_def libfvalue_value_get_number_of_value_entries_def
        libcdata_array_get_number_of_entries_def libcerror_error_set_def minimal_v17_opened_def)

section \<open>Creating a file\<close>

text \<open>
  C8. \<^verbatim>\<open>libscca_file_initialize\<close> fails with an invalid-value argument error when
  \<^verbatim>\<open>file\<close> is \<^verbatim>\<open>NULL\<close> and with a value-already-set runtime error when \<^verbatim>\<open>*file\<close> is not
  \<^verbatim>\<open>NULL\<close>, and leaves \<^verbatim>\<open>*file\<close> and the memory as they are. When \<^verbatim>\<open>*file\<close> is \<^verbatim>\<open>NULL\<close>
  and its three allocations succeed (the structure, the volumes array, the IO handle) it
  returns 1 and sets \<^verbatim>\<open>*file\<close> to a zeroed structure with an empty volumes array and a
  zeroed IO handle. Every failing call leaves \<^verbatim>\<open>*file\<close> unchanged and no block allocated.
\<close>

theorem file_initialize_requires_null:
  "libscca_file_initialize None w =
     (Inl [(LIBCERROR_ERROR_DOMAIN_ARGUMENTS, LIBCERROR_ARGUMENT_ERROR_INVALID_VALUE,
            ''invalid file.'')], None, w) \<and>
   libscca_file_initialize (Some (Some already)) w =
     (Inl [(LIBCERROR_ERROR_DOMAIN_RUNTIME, LIBCERROR_RUNTIME_ERROR_VALUE_ALREADY_SET,
            ''invalid file value already set.'')], Some (Some already), w) \<and>
   (list_all (\<lambda>ok. ok) (take 3 (alloc_tape w)) \<longrightarrow>
      libscca_file_initialize (Some None) w =
        (Inr (), Some (Some initialized_file),
         w\<lparr>alloc_tape := drop 3 (alloc_tape w), live := live w + 3\<rparr>)) \<and>
   (\<forall>error file' w'. libscca_file_initialize file w = (Inl error, file', w') \<longrightarrow>
      file' = file \<and> live w' = live w)"
proof (intro conjI impI allI)
  show "libscca_file_initialize None w =
     (Inl [(LIBCERROR_ERROR_DOMAIN_ARGUMENTS, LIBCERROR_ARGUMENT_ERROR_INVALID_VALUE,
            ''invalid file.'')], None, w)"
    by (simp add: libscca_file_initialize_def libcerror_error_set_def)
  show "libscca_file_initialize (Some (Some already)) w =
     (Inl [(LIBCERROR_ERROR_DOMAIN_RUNTIME, LIBCERROR_RUNTIME_ERROR_VALUE_ALREADY_SET,
            ''invalid file value already set.'')], Some (Some already), w)"
    by (simp add: libscca_file_initialize_def libcerror_error_set_def)
next
  assume "list_all (\<lambda>ok. ok) (take 3 (alloc_tape w))"
  then show "libscca_file_initialize (Some None) w =
        (Inr (), Some (Some initialized_file),
         w\<lparr>alloc_tape := drop 3 (alloc_tape w), live := live w + 3\<rparr>)"
    by (cases w; cases "alloc_tape w"; cases "tl (alloc_tape w)"; cases "tl (tl (alloc_tape w))")
       (auto simp: libscca_file_initialize_def libcdata_array_initialize_def
          libscca_io_handle_initialize_def memory_defs initialized_file_def
          internal_file_zero_def)
next
  fix error file' w'
  assume "libscca_file_initialize file w = (Inl error, file', w')"
  then show "file' = file" "live w' = live w"
    by (auto simp: libscca_file_initialize_def libcdata_array_initialize_def
          libscca_io_handle_initialize_def libcdata_array_free_def memory_defs
        split: option.splits list.splits prod.splits bool.splits if_splits sum.splits)
qed

theorem file_initialize_requires_null_witness:
  "libscca_file_initialize (Some None) empty_world =
     (Inr (), Some (Some initialized_file), \<lparr>alloc_tape = [], live = 3\<rparr>) \<and>
   libscca_file_initialize (Some (Some initialized_file)) empty_world =
     (Inl [(LIBCERROR_ERROR_DOMAIN_RUNTIME, LIBCERROR_RUNTIME_ERROR_VALUE_ALREADY_SET,
            ''invalid file value already set.'')], Some (Some initialized_file), empty_world) \<and>
   libscca_file_initialize (Some None) \<lparr>alloc_tape = [True, True, False], live = 0\<rparr> =
     (Inl [(LIBCERROR_ERROR_DOMAIN_MEMORY, LIBCERROR_MEMORY_ERROR_INSUFFICIENT,
            ''unable to create IO handle.''),
           (LIBCERROR_ERROR_DOMAIN_RUNTIME, LIBCERROR_RUNTIME_ERROR_INITIALIZE_FAILED,
            ''unable to create IO handle.'')], Some None, \<lparr>alloc_tape = [], live = 0\<rparr>)"
  using file_initialize_requires_null [of empty_world initialized_file "Some None"]
  by (simp add: empty_world_def libscca_file_initialize_def libcdata_array_initialize_def
          libscca_io_handle_initialize_def libcdata_array_free_def memory_defs
          libcerror_error_set_def internal_file_zero_def)

section \<open>The access flags\<close>

text \<open>
  C9. When the access flags hold the write flag, or neither the read flag nor the write
  flag, \<^verbatim>\<open>libscca_file_open\<close>, \<^verbatim>\<open>libscca_file_open_wide\<close> and
  \<^verbatim>\<open>libscca_file_open_file_io_handle\<close> return -1 and leave the file, the memory and the
  file IO handle they were given as they are: no file IO handle is created or opened.
  The error is the unsupported-value argument error whenever the arguments checked before
  the flags are in order (a file, a filename or a file IO handle, and for
  \<^verbatim>\<open>libscca_file_open_file_io_handle\<close> no file IO handle set in the file yet); otherwise it
  is the error of that earlier check. So an open can only succeed with the read flag and
  without the write flag.
\<close>

theorem open_rejects_write_and_flagless_access:
  "access_flags AND LIBSCCA_ACCESS_FLAG_WRITE ext \<noteq> 0 \<or>
   (access_flags AND LIBSCCA_ACCESS_FLAG_READ ext = 0 \<and>
    access_flags AND LIBSCCA_ACCESS_FLAG_WRITE ext = 0) \<Longrightarrow>
   (\<exists>error. libscca_file_open ext file filename access_flags w = (Inl (Error error), file, w) \<and>
      (file \<noteq> None \<and> filename \<noteq> None \<longrightarrow>
         (\<exists>message. error = [(LIBCERROR_ERROR_DOMAIN_ARGUMENTS,
                                LIBCERROR_ARGUMENT_ERROR_UNSUPPORTED_VALUE, message)]))) \<and>
   (\<exists>error. libscca_file_open_wide ext file wide_filename access_flags w =
               (Inl (Error error), file, w) \<and>
      (file \<noteq> None \<and> wide_filename \<noteq> None \<longrightarrow>
         (\<exists>message. error = [(LIBCERROR_ERROR_DOMAIN_ARGUMENTS,
                                LIBCERROR_ARGUMENT_ERROR_UNSUPPORTED_VALUE, message)]))) \<and>
   (\<exists>error. libscca_file_open_file_io_handle ext file handle access_flags w =
               (Inl (Error error), file, handle, w) \<and>
      (file \<noteq> None \<and> Option.bind file file_io_handle = None \<and> handle \<noteq> None \<longrightarrow>
         (\<exists>message. error = [(LIBCERROR_ERROR_DOMAIN_ARGUMENTS,
                                LIBCERROR_ARGUMENT_ERROR_UNSUPPORTED_VALUE, message)])))"
  by (cases "file"; cases filename; cases wide_filename; cases handle)
     (auto simp: libscca_file_open_def libscca_file_open_wide_def
        libscca_file_open_file_io_handle_def libcerror_error_set_def)

theorem open_rejects_write_and_flagless_access_witness:
  "libscca_file_open reference_externals (Some initialized_file) (Some ''A.pf'') 3 empty_world =
     (Inl (Error [(LIBCERROR_ERROR_DOMAIN_ARGUMENTS, LIBCERROR_ARGUMENT_ERROR_UNSUPPORTED_VALUE,
                   ''write access currently not supported.'')]),
      Some initialized_file, empty_world) \<and>
   libscca_file_open_wide reference_externals (Some initialized_file) (Some [0x41]) 3 empty_world =
     (Inl (Error [(LIBCERROR_ERROR_DOMAIN_ARGUMENTS, LIBCERROR_ARGUMENT_ERROR_UNSUPPORTED_VALUE,
                   ''write access currently not supported.'')]),
      Some initialized_file, empty_world) \<and>
   libscca_file_open_file_io_handle reference_externals (Some initialized_file)
       (Some (closed_handle_of minimal_v17_file)) 3 empty_world =
     (Inl (Error [(LIBCERROR_ERROR_DOMAIN_ARGUMENTS, LIBCERROR_ARGUMENT_ERROR_UNSUPPORTED_VALUE,
                   ''write access currently not supported.'')]),
      Some initialized_file, Some (closed_handle_of minimal_v17_file), empty_world) \<and>
   libscca_file_open_file_io_handle reference_externals (Some initialized_file)
       (Some (closed_handle_of minimal_v17_file)) 4 empty_world =
     (Inl (Error [(LIBCERROR_ERROR_DOMAIN_ARGUMENTS, LIBCERROR_ARGUMENT_ERROR_UNSUPPORTED_VALUE,
                   ''unsupported access flags.'')]),
      Some initialized_file, Some (closed_handle_of minimal_v17_file), empty_world)"
  using open_rejects_write_and_flagless_access
          [of 3 reference_externals "Some initialized_file" "Some ''A.pf''" empty_world
              "Some [0x41]" "Some (closed_handle_of minimal_v17_file)"]
        open_rejects_write_and_flagless_access
          [of 4 reference_externals "Some initialized_file" "Some ''A.pf''" empty_world
              "Some [0x41]" "Some (closed_handle_of minimal_v17_file)"]
  by (simp add: reference_externals_def libscca_file_open_def libscca_file_open_wide_def
        libscca_file_open_file_io_handle_def libcerror_error_set_def initialized_file_def
        internal_file_zero_def)

section \<open>Closing a file\<close>

lemma file_close_result:
  "libscca_file_close file w = ((result, error), file', handle', w') \<Longrightarrow>
   result = 0 \<or> result = - 1"
  apply (cases "file")
   apply (simp add: libscca_file_close_def)
  subgoal for internal_file
    apply (cases "file_io_handle internal_file")
     apply (simp add: libscca_file_close_def)
    apply (cases "file_io_handle_opened_in_library internal_file \<noteq> 0";
           cases "file_io_handle_created_in_library internal_file \<noteq> 0";
           cases "io_handle internal_file"; cases "volumes_array internal_file")
    apply (auto simp: libscca_file_close_def Let_def libscca_io_handle_clear_def
      libcdata_array_resize_0_def
      split: prod.splits sum.splits)
    done
  done

lemma file_close_success:
  "libscca_file_close (Some internal_file) w = ((0, error), file', handle', w') \<Longrightarrow>
   file' = Some initialized_file \<and> error = [] \<and>
   live w' = live w - parsed_blocks internal_file
               - (if file_io_handle_created_in_library internal_file \<noteq> 0 then 1 else 0)"
  apply (cases internal_file)
  apply (cases "file_io_handle internal_file")
   apply (simp add: libscca_file_close_def)
  apply (cases "file_io_handle_opened_in_library internal_file \<noteq> 0";
         cases "file_io_handle_created_in_library internal_file \<noteq> 0";
         cases "io_handle internal_file"; cases "volumes_array internal_file";
         cases "file_information internal_file"; cases "filename_strings internal_file")
  apply (auto simp: libscca_file_close_def Let_def libscca_io_handle_clear_def
      libbfio_handle_close_def libbfio_handle_free_def libcdata_array_resize_0_def
      libscca_file_information_free_def libfvalue_value_free_def memory_free_def
      initialized_file_def internal_file_zero_def parsed_blocks_def array_blocks_def
      fold_volume_information_free_world
      split: if_splits prod.splits sum.splits)
  done

text \<open>
  C10. \<^verbatim>\<open>libscca_file_close\<close> returns 0 or -1, never 1. When it returns 0 it sets no
  error and leaves the file as \<^verbatim>\<open>libscca_file_initialize\<close> made it: no file IO handle, both
  library flags 0, a zeroed IO handle (format version, file size and abort flag 0),
  prefetch hash 0, no file information, no filename strings, an empty volumes array; so
  the file can be opened again. The blocks of the file information, the filename strings
  and the volumes are freed, and the file IO handle too when the library created it.
\<close>

theorem file_close_resets_file:
  "(fst (fst (libscca_file_close file w)) = 0 \<or> fst (fst (libscca_file_close file w)) = - 1) \<and>
   (libscca_file_close (Some internal_file) w = ((0, error), file', handle', w') \<longrightarrow>
      file' = Some initialized_file \<and> error = [] \<and>
      live w' = live w - parsed_blocks internal_file
                  - (if file_io_handle_created_in_library internal_file \<noteq> 0 then 1 else 0))"
proof (rule conjI)
  obtain result chain left handle world
    where closed: "libscca_file_close file w = ((result, chain), left, handle, world)"
    by (metis prod.exhaust)
  from file_close_result [OF closed] closed
  show "fst (fst (libscca_file_close file w)) = 0 \<or> fst (fst (libscca_file_close file w)) = - 1"
    by simp
next
  show "libscca_file_close (Some internal_file) w = ((0, error), file', handle', w') \<longrightarrow>
      file' = Some initialized_file \<and> error = [] \<and>
      live w' = live w - parsed_blocks internal_file
                  - (if file_io_handle_created_in_library internal_file \<noteq> 0 then 1 else 0)"
    by (rule impI) (rule file_close_success)
qed

theorem file_close_resets_file_witness:
  "libscca_file_close (Some example_opened_file) \<lparr>alloc_tape = [], live = 5\<rparr> =
     ((0, []), Some initialized_file,
      Some ((closed_handle_of minimal_v17_file)\<lparr>bfio_offset := 240\<rparr>),
      \<lparr>alloc_tape = [], live = 0\<rparr>) \<and>
   parsed_blocks example_opened_file = 5"
proof -
  have closed: "libscca_file_close (Some example_opened_file) \<lparr>alloc_tape = [], live = 5\<rparr> =
     ((0, []), Some initialized_file,
      Some ((closed_handle_of minimal_v17_file)\<lparr>bfio_offset := 240\<rparr>),
      \<lparr>alloc_tape = [], live = 0\<rparr>)"
    by (simp add: libscca_file_close_def example_opened_file_def minimal_v17_opened_def
        example_volume_def Let_def libscca_io_handle_clear_def libbfio_handle_close_def
        libcdata_array_resize_0_def libscca_file_information_free_def libfvalue_value_free_def
        libscca_internal_volume_information_free_def memory_free_def initialized_file_def
        internal_file_zero_def open_handle_of_def closed_handle_of_def)
  from file_close_resets_file
         [of "Some example_opened_file" "\<lparr>alloc_tape = [], live = 5\<rparr>" example_opened_file
             "[]" "Some initialized_file"
             "Some ((closed_handle_of minimal_v17_file)\<lparr>bfio_offset := 240\<rparr>)"
             "\<lparr>alloc_tape = [], live = 0\<rparr>"] closed
  have "(0 :: int) = 5 - parsed_blocks example_opened_file - 0"
    by (simp add: example_opened_file_def minimal_v17_opened_def)
  with closed show ?thesis by simp
qed

section \<open>The file references of a volume\<close>

lemma file_reference_index:
  fixes offset i :: "32 word"
  assumes "unat offset + 8 + 8 * unat i < 2 ^ 32"
  shows "unat (offset + 8 + i * 8) = unat offset + 8 + 8 * unat i"
proof -
  have "unat (i * 8) = unat i * 8"
    using assms by (simp add: unat_word_ariths)
  moreover have "unat (offset + 8) = unat offset + 8"
    using assms by (simp add: unat_word_ariths)
  ultimately show ?thesis
    using assms by (simp add: unat_word_ariths)
qed

lemma file_references_loop_verbose:
  assumes "verbose" and "length data < 2 ^ 32" and "unat offset + 8 + 8 * unat n \<le> length data"
  shows "file_references_loop verbose data offset n i printed =
           Some (printed @ map (\<lambda>k. byte_stream_copy_to_uint64_little_endian
                                       (take 8 (drop (unat offset + 8 + 8 * k) data)))
                             [unat i..<unat n])"
  using assms
proof (induction verbose data offset n i printed rule: file_references_loop.induct)
  case (1 verbose data offset n i printed)
  show ?case
  proof (cases "i < n")
    case True
    then have less: "unat i < unat n" by (simp add: word_less_nat_alt)
    with "1.prems" have index: "unat (offset + 8 + i * 8) = unat offset + 8 + 8 * unat i"
      by (intro file_reference_index) simp
    from less "1.prems" have inside: "unat offset + 8 + 8 * unat i + 8 \<le> length data" by simp
    from True have next_index: "unat (i + 1) = Suc (unat i)" by (rule unat_inc_less)
    have bytes: "buffer_bytes data (unat (offset + 8 + i * 8)) 8 =
        Some (take 8 (drop (unat offset + 8 + 8 * unat i) data))"
      using inside by (simp add: buffer_bytes_def index)
    have "file_references_loop verbose data offset n i printed =
        file_references_loop verbose data offset n (i + 1)
          (printed @ [byte_stream_copy_to_uint64_little_endian
                        (take 8 (drop (unat offset + 8 + 8 * unat i) data))])"
      using True "1.prems" by (subst file_references_loop.simps) (simp add: bytes)
    also have "\<dots> = Some ((printed @ [byte_stream_copy_to_uint64_little_endian
                        (take 8 (drop (unat offset + 8 + 8 * unat i) data))]) @
                      map (\<lambda>k. byte_stream_copy_to_uint64_little_endian
                                       (take 8 (drop (unat offset + 8 + 8 * k) data)))
                             [unat (i + 1)..<unat n])"
      using True bytes "1.prems" by (intro "1.IH"(1)) simp_all
    finally show ?thesis
      using less by (simp add: next_index upt_conv_Cons)
  next
    case False
    then have "unat n \<le> unat i" by (simp add: word_less_nat_alt)
    with False show ?thesis by (subst file_references_loop.simps) simp
  qed
qed

lemma file_references_loop_quiet:
  "\<not> verbose \<Longrightarrow> file_references_loop verbose data offset n i printed = Some printed"
proof (induction verbose data offset n i printed rule: file_references_loop.induct)
  case (1 verbose data offset n i printed)
  then show ?case by (subst file_references_loop.simps) simp
qed

text \<open>
  C6. Where the file references section of a volume lies inside the volumes information
  (and that buffer has fewer than 2^32 bytes, as its 32-bit size makes it), the decoder
  reads the version at \<^verbatim>\<open>file_references_offset\<close> and the number of file references 4
  bytes on, and its loop runs over the indexes from 1 to the number of file references
  minus 1. The body of the loop is debug output: the default build decodes no 64-bit
  reference, whatever the number; a build with debug output, verbose, decodes the
  references at \<^verbatim>\<open>file_references_offset\<close> + 16 + 8 k for k from 0 to the number minus 2,
  so the number minus 1 of them (none when the number is 0 or 1), to print them. In both
  builds the result holds nothing but the version and the number: no reference is stored
  in the volume information.
\<close>

theorem file_references_follow_a_16_byte_header:
  assumes "length data < 2 ^ 32"
    and "unat offset + unat section_size \<le> length data"
    and "unat offset + 16 \<le> length data"
    and "unat offset + 8 +
           8 * unat (byte_stream_copy_to_uint32_little_endian
                       (take 4 (drop (unat offset + 4) data))) \<le> length data"
  shows "volumes_information_file_references verbose data offset section_size =
           Some (byte_stream_copy_to_uint32_little_endian (take 4 (drop (unat offset) data)),
                 byte_stream_copy_to_uint32_little_endian
                   (take 4 (drop (unat offset + 4) data)),
                 if verbose
                 then map (\<lambda>k. byte_stream_copy_to_uint64_little_endian
                                   (take 8 (drop (unat offset + 16 + 8 * k) data)))
                        [0..<unat (byte_stream_copy_to_uint32_little_endian
                                     (take 4 (drop (unat offset + 4) data))) - 1]
                 else [])"
proof -
  let ?n = "byte_stream_copy_to_uint32_little_endian (take 4 (drop (unat offset + 4) data))"
  have four: "unat (offset + 4) = unat offset + 4" and eight: "unat (offset + 8) = unat offset + 8"
    using assms(1,3) by (simp_all add: unat_word_ariths)
  have section_bytes: "buffer_bytes data (unat offset) (unat section_size) \<noteq> None"
    using assms(2) by (simp add: buffer_bytes_def)
  have version: "buffer_bytes data (unat offset) 4 = Some (take 4 (drop (unat offset) data))"
    using assms(3) by (simp add: buffer_bytes_def)
  have number: "buffer_bytes data (unat (offset + 4)) 4 =
      Some (take 4 (drop (unat offset + 4) data))"
    using assms(3) by (simp add: buffer_bytes_def four)
  have unknown: "buffer_bytes data (unat (offset + 8)) 8 \<noteq> None"
    using assms(3) by (simp add: buffer_bytes_def eight)
  have reindex: "map (\<lambda>k. byte_stream_copy_to_uint64_little_endian
                                   (take 8 (drop (unat offset + 8 + 8 * k) data)))
                   [1..<unat ?n] =
                 map (\<lambda>k. byte_stream_copy_to_uint64_little_endian
                                   (take 8 (drop (unat offset + 16 + 8 * k) data)))
                   [0..<unat ?n - 1]"
  proof (cases "unat ?n")
    case 0
    then show ?thesis by simp
  next
    case (Suc m)
    have shift: "[1..<Suc m] = map Suc [0..<m]"
      by (simp add: map_Suc_upt del: upt_Suc)
    have "map (\<lambda>k. byte_stream_copy_to_uint64_little_endian
                      (take 8 (drop (unat offset + 8 + 8 * k) data))) [1..<Suc m] =
          map (\<lambda>k. byte_stream_copy_to_uint64_little_endian
                      (take 8 (drop (unat offset + 8 + 8 * Suc k) data))) [0..<m]"
      unfolding shift by (simp add: comp_def del: upt_Suc)
    also have "(\<lambda>k. byte_stream_copy_to_uint64_little_endian
                      (take 8 (drop (unat offset + 8 + 8 * Suc k) data))) =
               (\<lambda>k. byte_stream_copy_to_uint64_little_endian
                      (take 8 (drop (unat offset + 16 + 8 * k) data)))"
    proof (rule ext)
      fix k
      have "unat offset + 8 + 8 * Suc k = unat offset + 16 + 8 * k" by simp
      then show "byte_stream_copy_to_uint64_little_endian
                      (take 8 (drop (unat offset + 8 + 8 * Suc k) data)) =
                 byte_stream_copy_to_uint64_little_endian
                      (take 8 (drop (unat offset + 16 + 8 * k) data))"
        by (simp only:)
    qed
    finally show ?thesis by (simp add: Suc del: upt_Suc)
  qed
  show ?thesis
  proof (cases verbose)
    case True
    have "file_references_loop True data offset ?n 1 [] =
        Some (map (\<lambda>k. byte_stream_copy_to_uint64_little_endian
                                   (take 8 (drop (unat offset + 16 + 8 * k) data)))
                   [0..<unat ?n - 1])"
      using file_references_loop_verbose [of True data offset ?n 1 "[]"] assms(1,4) reindex
      by simp
    with True show ?thesis
      using section_bytes unknown
      by (auto simp: volumes_information_file_references_def version number)
  next
    case False
    then show ?thesis
      by (simp add: volumes_information_file_references_def version number
            file_references_loop_quiet)
  qed
qed

theorem file_references_follow_a_16_byte_header_witness:
  "volumes_information_file_references True file_references_block 8 32 =
     Some (3, 3, [0x0001000000000042, 0x0002000000000043]) \<and>
   volumes_information_file_references False file_references_block 8 32 = Some (3, 3, []) \<and>
   volumes_information_file_references True one_file_reference_block 8 16 = Some (3, 1, [])"
  using file_references_follow_a_16_byte_header [of file_references_block 8 32 True]
    file_references_follow_a_16_byte_header [of file_references_block 8 32 False]
    file_references_follow_a_16_byte_header [of one_file_reference_block 8 16 True]
  by (simp add: file_references_block_def one_file_reference_block_def
        byte_stream_copy_to_uint32_little_endian_def
        byte_stream_copy_to_uint64_little_endian_def upt_rec)

lemma referencing_volume_fields:
  "scca_volume_information_fields referencing_volume_block 0 =
     Some \<lparr>vi_device_path_offset = 0, vi_device_path_number_of_characters = 0,
           vi_creation_time = 0x01D012A100000000, vi_serial_number = 0x12345678,
           vi_file_references_offset = 40, vi_file_references_size = 32,
           vi_directory_strings_array_offset = 0, vi_number_of_directory_strings = 0\<rparr>"
  by (simp add: scca_volume_information_fields_def buffer_bytes_def referencing_volume_block_def
        byte_stream_copy_to_uint32_little_endian_def
        byte_stream_copy_to_uint64_little_endian_def)

lemma referencing_volume_section:
  "volumes_information_file_references False referencing_volume_block 40 32 = Some (3, 3, [])"
  by (simp add: volumes_information_file_references_def buffer_bytes_def
        referencing_volume_block_def byte_stream_copy_to_uint32_little_endian_def
        file_references_loop_quiet)

text \<open>
  The volumes information of 72 bytes whose record points at a file references section
  with the number of file references 3: the default build decodes none of its two
  references, where a build with debug output decodes both, and the volume it appends to
  the array has a creation time and a serial number and no file reference.
\<close>

theorem default_build_decodes_no_file_reference:
  "volumes_information_file_references False referencing_volume_block 40 32 = Some (3, 3, []) \<and>
   volumes_information_file_references True referencing_volume_block 40 32 =
     Some (3, 3, [0x0001000000000042, 0x0002000000000043]) \<and>
   fst (read_volume_information reference_externals referencing_volume_block 72 0 (Some [])
          empty_world) =
     Inr (Some [\<lparr>device_path = None, device_path_size = 0,
                 creation_time = 0x01D012A100000000, serial_number = 0x12345678,
                 directory_strings = None\<rparr>])"
proof -
  have loud: "volumes_information_file_references True referencing_volume_block 40 32 =
      Some (3, 3, [0x0001000000000042, 0x0002000000000043])"
    by (simp add: volumes_information_file_references_def buffer_bytes_def
          referencing_volume_block_def byte_stream_copy_to_uint32_little_endian_def
          byte_stream_copy_to_uint64_little_endian_def file_references_loop.simps)
  have volume: "fst (read_volume_information reference_externals referencing_volume_block 72 0
          (Some []) empty_world) =
     Inr (Some [\<lparr>device_path = None, device_path_size = 0,
                 creation_time = 0x01D012A100000000, serial_number = 0x12345678,
                 directory_strings = None\<rparr>])"
    by (simp add: read_volume_information_def referencing_volume_fields
          referencing_volume_section empty_world_def
          libscca_volume_information_initialize_def memory_defs volume_information_zero_def
          volume_information_device_path_def volume_information_directory_strings_def
          libcdata_array_append_entry_def Let_def)
  from referencing_volume_section loud volume show ?thesis by simp
qed

section \<open>Offsets outside the volumes information\<close>

text \<open>
  C1 at a volumes information of 104 bytes whose one record has \<^verbatim>\<open>file_references_offset\<close>
  4096: the decoder, which compares no offset with the size of the buffer, goes on to read
  the version at index 4096 of the 104 bytes. It does not return an error.
\<close>

theorem volumes_information_reads_outside_buffer:
  "length overrun_volume_block = 104 \<and>
   map_option vi_file_references_offset
     (scca_volume_information_fields overrun_volume_block 0) = Some 4096 \<and>
   buffer_bytes overrun_volume_block 4096 4 = None \<and>
   fst (libscca_io_handle_read_volumes_information reference_externals
          (Some \<lparr>format_version = 17, file_size = 344, abort = 0\<rparr>)
          (open_handle_of (replicate 240 0 @ overrun_volume_block)) 240 104 1 (Some [])
          empty_world) = Inl Outside_Buffer"
proof -
  have len: "length overrun_volume_block = 104"
    by (simp add: overrun_volume_block_def)
  have decoded: "scca_volume_information_fields overrun_volume_block 0 =
     Some \<lparr>vi_device_path_offset = 0, vi_device_path_number_of_characters = 0,
           vi_creation_time = 0x01D012A100000000, vi_serial_number = 0x12345678,
           vi_file_references_offset = 4096, vi_file_references_size = 16,
           vi_directory_strings_array_offset = 0, vi_number_of_directory_strings = 0\<rparr>"
    by (simp add: scca_volume_information_fields_def buffer_bytes_def overrun_volume_block_def
          byte_stream_copy_to_uint32_little_endian_def
          byte_stream_copy_to_uint64_little_endian_def)
  have outside: "buffer_bytes overrun_volume_block 4096 4 = None"
    by (simp add: buffer_bytes_def len)
  have body: "read_volume_information reference_externals overrun_volume_block 104 0 (Some [])
      \<lparr>alloc_tape = [], live = 1\<rparr> = (Inl Outside_Buffer, \<lparr>alloc_tape = [], live = 2\<rparr>)"
    by (simp add: read_volume_information_def decoded libscca_volume_information_initialize_def
          memory_defs volumes_information_file_references_def outside Let_def)
  have loop: "volumes_information_loop reference_externals 40 overrun_volume_block 104 1 0 0
      (Some []) \<lparr>alloc_tape = [], live = 1\<rparr> =
      (Inl Outside_Buffer, Some [], \<lparr>alloc_tape = [], live = 2\<rparr>)"
    by (subst volumes_information_loop.simps) (simp add: body)
  have "libscca_io_handle_read_volumes_information reference_externals
          (Some \<lparr>format_version = 17, file_size = 344, abort = 0\<rparr>)
          (open_handle_of (replicate 240 0 @ overrun_volume_block)) 240 104 1 (Some [])
          empty_world =
        (Inl Outside_Buffer, Some [],
         (open_handle_of (replicate 240 0 @ overrun_volume_block))\<lparr>bfio_offset := 344\<rparr>,
         \<lparr>alloc_tape = [], live = 2\<rparr>)"
    by (simp add: libscca_io_handle_read_volumes_information_def libbfio_handle_seek_offset_def
          libbfio_handle_read_buffer_def open_handle_of_def memory_defs empty_world_def len
          sizeof_scca_volume_information_v17_t_def loop Let_def)
  with len decoded outside show ?thesis by simp
qed

section \<open>What a failed parse leaves\<close>

lemma device_path_world:
  assumes "volume_information_device_path data path_offset characters v w = (result, w')"
    and "device_path v = None"
  shows "(\<forall>error. result = Inl (Error error) \<longrightarrow> live w' = live w - volume_blocks v) \<and>
         (\<forall>v'. result = Inr v' \<longrightarrow> live w' - volume_blocks v' = live w - volume_blocks v)"
  using assms
  by (auto simp: volume_information_device_path_def Let_def memory_defs volume_blocks_def
        volume_information_free_world
      split: if_splits prod.splits option.splits list.splits bool.splits)

lemma directory_strings_world:
  assumes "volume_information_directory_strings ext data block_size strings_offset v w = (result, w')"
    and "directory_strings v = None"
  shows "(\<forall>error. result = Inl (Error error) \<longrightarrow> live w' = live w - volume_blocks v) \<and>
         (\<forall>v'. result = Inr v' \<longrightarrow> live w' - volume_blocks v' = live w - volume_blocks v)"
  using assms
  by (auto simp: volume_information_directory_strings_def Let_def memory_defs volume_blocks_def
        volume_information_free_world libfvalue_value_type_initialize_def
        libfvalue_value_type_set_data_strings_array_def
      split: if_splits prod.splits option.splits list.splits bool.splits sum.splits)

lemma device_path_keeps_directory_strings:
  "volume_information_device_path data path_offset characters v w = (Inr v', w') \<Longrightarrow>
   directory_strings v' = directory_strings v"
  by (auto simp: volume_information_device_path_def Let_def
      split: if_splits prod.splits option.splits bool.splits)

lemma read_volume_information_world:
  assumes "read_volume_information ext data block_size record_offset array w = (result, w')"
  shows "(\<forall>error. result = Inl (Error error) \<longrightarrow> live w' = live w) \<and>
         (\<forall>array'. result = Inr array' \<longrightarrow>
            live w' - array_blocks array' = live w - array_blocks array)"
proof -
  show ?thesis
  proof (cases "libscca_volume_information_initialize w")
    case (Pair created w1)
    show ?thesis
    proof (cases created)
      case (Inl error)
      with Pair assms show ?thesis
        by (auto simp: read_volume_information_def libscca_volume_information_initialize_def
              memory_defs split: prod.splits list.splits bool.splits)
    next
      case (Inr v0)
      with Pair have v0: "v0 = volume_information_zero" and w1: "live w1 = live w + 1"
        by (auto simp: libscca_volume_information_initialize_def memory_defs
            split: prod.splits list.splits bool.splits)
      show ?thesis
      proof (cases "scca_volume_information_fields data (unat record_offset)")
        case None
        with Pair Inr assms show ?thesis by (auto simp: read_volume_information_def)
      next
        case (Some decoded)
        define v1 where "v1 = v0\<lparr>creation_time := vi_creation_time decoded,
                       serial_number := vi_serial_number decoded\<rparr>"
        have v1: "volume_blocks v1 = 1" "directory_strings v1 = None" "device_path v1 = None"
          by (simp_all add: v1_def v0 volume_blocks_def volume_information_zero_def)
        show ?thesis
        proof (cases "vi_file_references_offset decoded \<noteq> 0 \<and>
                      volumes_information_file_references False data
                        (vi_file_references_offset decoded) (vi_file_references_size decoded) = None")
          case True
          with Pair Inr Some assms show ?thesis
            by (auto simp: read_volume_information_def Let_def)
        next
          case False
          obtain r2 w2 where path: "volume_information_device_path data
                             (vi_device_path_offset decoded)
                             (vi_device_path_number_of_characters decoded) v1 w1 = (r2, w2)"
            by (cases "volume_information_device_path data
                             (vi_device_path_offset decoded)
                             (vi_device_path_number_of_characters decoded) v1 w1")
          note path_world = device_path_world [OF path v1(3)]
          show ?thesis
          proof (cases r2)
            case (Inl failed)
            with Pair Inr Some False path assms have "result = Inl failed" "w' = w2"
              by (auto simp: read_volume_information_def Let_def v1_def)
            with Inl path_world v1 w1 show ?thesis by auto
          next
            case v2: (Inr v2)
            with path have strings2: "directory_strings v2 = None"
              using device_path_keeps_directory_strings v1 by metis
            obtain r3 w3 where strings: "volume_information_directory_strings ext data block_size
                                  (vi_directory_strings_array_offset decoded) v2 w2 = (r3, w3)"
              by (cases "volume_information_directory_strings ext data block_size
                                  (vi_directory_strings_array_offset decoded) v2 w2")
            note strings_world = directory_strings_world [OF strings strings2]
            show ?thesis
            proof (cases r3)
              case (Inl failed)
              with Pair Inr Some False path v2 strings assms have "result = Inl failed" "w' = w3"
                by (auto simp: read_volume_information_def Let_def v1_def)
              with Inl path_world strings_world v2 v1 w1 show ?thesis by auto
            next
              case v3: (Inr v3)
              have balance: "live w3 - volume_blocks v3 = live w"
                using path_world strings_world v2 v3 v1 w1 by auto
              from Pair Inr Some False path v2 strings v3 assms
              have final: "(case libcdata_array_append_entry array v3 w3 of
                                  (Inl error, w4) \<Rightarrow>
                                    (Inl (Error (libcerror_error_set error
                                                   LIBCERROR_ERROR_DOMAIN_RUNTIME
                                                   LIBCERROR_RUNTIME_ERROR_APPEND_FAILED
                                                   ''unable to append volume: %PRIu32 information to array.'')),
                                     libscca_internal_volume_information_free v3 w4)
                                | (Inr appended, w4) \<Rightarrow> (Inr appended, w4)) = (result, w')"
                by (auto simp: read_volume_information_def Let_def v1_def)
              then show ?thesis using balance
                by (auto simp: libcdata_array_append_entry_def allocation_succeeds_def
                      volume_information_free_world array_blocks_def
                    split: option.splits prod.splits list.splits bool.splits)
            qed
          qed
        qed
      qed
    qed
  qed
qed

lemma volumes_information_loop_world:
  assumes "volumes_information_loop ext record_size data block_size n i record_offset array w =
             (result, array', w')"
    and "result \<noteq> Inl Outside_Buffer"
  shows "live w' - array_blocks array' = live w - array_blocks array"
  using assms
proof (induction ext record_size data block_size n i record_offset array w
       rule: volumes_information_loop.induct)
  case (1 ext record_size data block_size n i record_offset array w)
  show ?case
  proof (cases "i < n")
    case False
    with "1.prems" show ?thesis by (subst (asm) volumes_information_loop.simps) simp
  next
    case True
    obtain r1 w1 where body: "read_volume_information ext data block_size record_offset array w = (r1, w1)"
      by (cases "read_volume_information ext data block_size record_offset array w")
    note body_world = read_volume_information_world [OF body]
    show ?thesis
    proof (cases r1)
      case (Inl failed)
      with True body "1.prems"(1) have "result = Inl failed" "array' = array" "w' = w1"
        by (subst (asm) volumes_information_loop.simps, simp)+
      with Inl body_world "1.prems"(2) show ?thesis by (cases failed) auto
    next
      case (Inr appended)
      with True body "1.prems"(1)
      have "volumes_information_loop ext record_size data block_size n (i + 1)
              (record_offset + word_of_nat record_size) appended w1 = (result, array', w')"
        by (subst (asm) volumes_information_loop.simps) simp
      from "1.IH" [OF True body [symmetric] Inr this "1.prems"(2)] body_world Inr
      show ?thesis by auto
    qed
  qed
qed

lemma read_volumes_information_world:
  assumes "libscca_io_handle_read_volumes_information ext io h block_offset block_size n array w =
             (result, array', h', w')"
    and "result \<noteq> Inl Outside_Buffer"
  shows "live w' - array_blocks array' = live w - array_blocks array"
proof (cases io)
  case None
  with assms show ?thesis by (simp add: libscca_io_handle_read_volumes_information_def)
next
  case (Some handle)
  show ?thesis
  proof (cases "libbfio_handle_seek_offset h (unat block_offset)")
    case (Inl error)
    with Some assms show ?thesis by (simp add: libscca_io_handle_read_volumes_information_def)
  next
    case (Inr sought)
    obtain ok w1 where allocated: "memory_allocate w = (ok, w1)" by (cases "memory_allocate w")
    show ?thesis
    proof (cases ok)
      case False
      with allocated have "live w1 = live w"
        by (auto simp: memory_defs split: list.splits prod.splits bool.splits)
      with Some Inr allocated False assms show ?thesis
        by (simp add: libscca_io_handle_read_volumes_information_def)
    next
      case True
      with allocated have w1: "live w1 = live w + 1"
        by (auto simp: memory_defs split: list.splits prod.splits bool.splits)
      obtain read handle1 where buffer: "libbfio_handle_read_buffer sought (unat block_size) = (read, handle1)"
        by (cases "libbfio_handle_read_buffer sought (unat block_size)")
      show ?thesis
      proof (cases read)
        case (Inl error)
        with Some Inr allocated True buffer assms w1 show ?thesis
          by (auto simp: libscca_io_handle_read_volumes_information_def memory_free_def)
      next
        case data: (Inr data)
        show ?thesis
        proof (cases "length data \<noteq> unat block_size")
          case True
          with Some Inr allocated \<open>ok\<close> buffer data assms w1 show ?thesis
            by (auto simp: libscca_io_handle_read_volumes_information_def memory_free_def)
        next
          case False
          define record_size where "record_size =
             (if format_version handle = 17 then sizeof_scca_volume_information_v17_t
              else sizeof_scca_volume_information_v23_t)"
          obtain r2 array2 w2 where loop: "volumes_information_loop ext record_size data block_size
                                      n 0 0 array w1 = (r2, array2, w2)"
            by (cases "volumes_information_loop ext record_size data block_size n 0 0 array w1")
          from Some Inr allocated \<open>ok\<close> buffer data False loop assms(1)
          have final: "(case (r2, array2, w2) of
                                 (Inl (Error error), appended, w2) \<Rightarrow>
                                   (Inl (Error error), appended, handle1, memory_free w2)
                               | (Inl Outside_Buffer, appended, w2) \<Rightarrow>
                                   (Inl Outside_Buffer, appended, handle1, w2)
                               | (Inr _, appended, w2) \<Rightarrow>
                                   (Inr (), appended, handle1, memory_free w2)) =
                       (result, array', h', w')"
            by (simp add: libscca_io_handle_read_volumes_information_def Let_def record_size_def)
          with assms(2) have r2: "r2 \<noteq> Inl Outside_Buffer"
            by (auto split: sum.splits failure.splits)
          from volumes_information_loop_world [OF loop r2] final w1 assms(2) show ?thesis
            by (auto simp: memory_free_def split: sum.splits failure.splits)
        qed
      qed
    qed
  qed
qed

lemma read_filename_strings_world:
  assumes "libscca_io_handle_read_filename_strings ext io h strings_offset strings_size
             (Some strings) w = (result, strings', h', w')"
  shows "live w' = live w \<and> strings' \<noteq> None"
  using assms
  by (auto simp: libscca_io_handle_read_filename_strings_def memory_defs Let_def
      split: option.splits sum.splits prod.splits list.splits bool.splits if_splits)

lemma file_open_read_filename_strings_world:
  assumes "file_open_read_filename_strings ext internal_file information h w =
             (result, internal_file', h', w')"
    and "filename_strings internal_file = None"
  shows "live w' - parsed_blocks internal_file' = live w - parsed_blocks internal_file \<and>
         file_information internal_file' = file_information internal_file \<and>
         volumes_array internal_file' = volumes_array internal_file \<and>
         file_io_handle internal_file' = file_io_handle internal_file \<and>
         io_handle internal_file' = io_handle internal_file"
proof (cases "libfvalue_value_type_initialize w")
  case (Pair created w1)
  show ?thesis
  proof (cases created)
    case (Inl error)
    with Pair assms show ?thesis
      by (auto simp: file_open_read_filename_strings_def libfvalue_value_type_initialize_def
            memory_defs split: list.splits prod.splits bool.splits)
  next
    case (Inr strings)
    with Pair have w1: "live w1 = live w + 1"
      by (auto simp: libfvalue_value_type_initialize_def memory_defs
          split: list.splits prod.splits bool.splits)
    obtain r2 strings2 h2 w2 where decoded:
      "libscca_io_handle_read_filename_strings ext (io_handle internal_file) h
         (filename_strings_offset information) (filename_strings_size information)
         (Some strings) w1 = (r2, strings2, h2, w2)"
      by (metis prod.exhaust)
    from read_filename_strings_world [OF decoded] have w2: "live w2 = live w1" "strings2 \<noteq> None"
      by simp_all
    from Pair Inr decoded assms(1)
    have "internal_file' = internal_file\<lparr>filename_strings := strings2\<rparr>" "w' = w2"
      by (auto simp: file_open_read_filename_strings_def split: sum.splits)
    with w1 w2 assms(2) show ?thesis by (auto simp: parsed_blocks_def)
  qed
qed

lemma file_open_read_on_error_world:
  assumes "file_open_read_on_error internal_file w = (internal_file', w')"
  shows "filename_strings internal_file' = None \<and> file_information internal_file' = None \<and>
         volumes_array internal_file' = map_option (\<lambda>entries. []) (volumes_array internal_file) \<and>
         file_io_handle internal_file' = file_io_handle internal_file \<and>
         live w' = live w - parsed_blocks internal_file"
  using assms
  by (auto simp: file_open_read_on_error_def Let_def libfvalue_value_free_def
        libscca_file_information_free_def libcdata_array_resize_0_def memory_free_def
        parsed_blocks_def array_blocks_def fold_volume_information_free_world
      split: option.splits prod.splits if_splits)

lemma read_volume_information_array:
  "read_volume_information ext data block_size record_offset array w = (Inr array', w') \<Longrightarrow>
   array' \<noteq> None"
  by (auto simp: read_volume_information_def Let_def libcdata_array_append_entry_def
      split: prod.splits sum.splits option.splits if_splits bool.splits)

lemma volumes_information_loop_array:
  assumes "volumes_information_loop ext record_size data block_size n i record_offset array w =
             (result, array', w')"
    and "array \<noteq> None"
  shows "array' \<noteq> None"
  using assms
proof (induction ext record_size data block_size n i record_offset array w
       rule: volumes_information_loop.induct)
  case (1 ext record_size data block_size n i record_offset array w)
  show ?case
  proof (cases "i < n")
    case False
    with "1.prems" show ?thesis by (subst (asm) volumes_information_loop.simps) simp
  next
    case True
    obtain r1 w1 where body: "read_volume_information ext data block_size record_offset array w = (r1, w1)"
      by (cases "read_volume_information ext data block_size record_offset array w")
    show ?thesis
    proof (cases r1)
      case (Inl failed)
      with True body "1.prems"(1) have "array' = array"
        by (subst (asm) volumes_information_loop.simps) simp
      with "1.prems"(2) show ?thesis by simp
    next
      case (Inr appended)
      with True body "1.prems"(1)
      have "volumes_information_loop ext record_size data block_size n (i + 1)
              (record_offset + word_of_nat record_size) appended w1 = (result, array', w')"
        by (subst (asm) volumes_information_loop.simps) simp
      moreover from body Inr have "appended \<noteq> None"
        using read_volume_information_array by blast
      ultimately show ?thesis
        using "1.IH" [OF True body [symmetric] Inr] by blast
    qed
  qed
qed

lemma read_volumes_information_array:
  assumes "libscca_io_handle_read_volumes_information ext io h block_offset block_size n array w =
             (result, array', h', w')"
    and "array \<noteq> None"
  shows "array' \<noteq> None"
proof (cases io)
  case None
  with assms show ?thesis by (simp add: libscca_io_handle_read_volumes_information_def)
next
  case (Some handle)
  show ?thesis
  proof (cases "libbfio_handle_seek_offset h (unat block_offset)")
    case (Inl error)
    with Some assms show ?thesis by (simp add: libscca_io_handle_read_volumes_information_def)
  next
    case (Inr sought)
    obtain ok w1 where allocated: "memory_allocate w = (ok, w1)" by (cases "memory_allocate w")
    obtain read handle1
      where buffer: "libbfio_handle_read_buffer sought (unat block_size) = (read, handle1)"
      by (cases "libbfio_handle_read_buffer sought (unat block_size)")
    show ?thesis
    proof (cases "ok \<and> (\<exists>data. read = Inr data \<and> length data = unat block_size)")
      case False
      with Some Inr allocated buffer assms show ?thesis
        by (cases ok; cases read)
           (auto simp: libscca_io_handle_read_volumes_information_def)
    next
      case True
      then obtain data where data: "ok" "read = Inr data" "length data = unat block_size"
        by blast
      define record_size where "record_size =
             (if format_version handle = 17 then sizeof_scca_volume_information_v17_t
              else sizeof_scca_volume_information_v23_t)"
      obtain r2 array2 w2 where loop: "volumes_information_loop ext record_size data block_size
                                      n 0 0 array w1 = (r2, array2, w2)"
        by (cases "volumes_information_loop ext record_size data block_size n 0 0 array w1")
      from Some Inr allocated buffer data loop assms(1) have "array' = array2"
        by (auto simp: libscca_io_handle_read_volumes_information_def Let_def record_size_def
            split: sum.splits failure.splits)
      with volumes_information_loop_array [OF loop assms(2)] show ?thesis by simp
    qed
  qed
qed

lemma file_open_read_failure:
  assumes run: "libscca_file_open_read ext (Some f) h w = (Inl (Error e), f', h', w')"
    and pre: "file_information f = None" "filename_strings f = None" "volumes_array f = Some []"
  shows "\<exists>g. f' = Some g \<and> file_information g = None \<and> filename_strings g = None \<and>
             volumes_array g = Some [] \<and> file_io_handle g = file_io_handle f \<and>
             live w' = live w"
proof (cases "io_handle f")
  case None
  with run pre show ?thesis by (auto simp: libscca_file_open_read_def)
next
  case (Some io)
  define io0 where "io0 = (if abort io \<noteq> 0 then io\<lparr>abort := 0\<rparr> else io)"
  define file0 where "file0 = f\<lparr>io_handle := Some io0\<rparr>"
  have file0: "parsed_blocks file0 = 0" "volumes_array file0 = Some []"
    "file_io_handle file0 = file_io_handle f"
    using pre by (simp_all add: file0_def parsed_blocks_def array_blocks_def)
  obtain r1 handle1 where header: "libscca_io_handle_read_file_header (Some io0) h = (r1, handle1)"
    by (cases "libscca_io_handle_read_file_header (Some io0) h")
  have released: "\<exists>g. f' = Some g \<and> file_information g = None \<and> filename_strings g = None \<and>
             volumes_array g = Some [] \<and> file_io_handle g = file_io_handle f \<and>
             live w' = live w"
    if "file_open_read_on_error file_left w_left = (g, w_after)" and "f' = Some g" "w' = w_after"
      and "live w_left - parsed_blocks file_left = live w"
      and "volumes_array file_left \<noteq> None" "file_io_handle file_left = file_io_handle f"
    for file_left w_left g w_after
    using file_open_read_on_error_world [OF that(1)] that(2-) by auto
  show ?thesis
  proof (cases r1)
    case (Inl error)
    obtain g w_after where cleanup: "file_open_read_on_error file0 w = (g, w_after)"
      by (cases "file_open_read_on_error file0 w")
    with run pre Some header Inl have "f' = Some g" "w' = w_after"
      by (simp_all add: libscca_file_open_read_def Let_def io0_def [symmetric] file0_def [symmetric])
    with cleanup file0 show ?thesis using released [OF cleanup] by simp
  next
    case (Inr decoded)
    obtain io1 hash where decoded: "decoded = (io1, hash)" by (cases decoded)
    define file1 where "file1 = file0\<lparr>io_handle := Some io1, prefetch_hash := hash\<rparr>"
    have file1: "parsed_blocks file1 = 0" "volumes_array file1 = Some []"
      "file_io_handle file1 = file_io_handle f" "filename_strings file1 = None"
      using file0 pre by (simp_all add: file1_def file0_def parsed_blocks_def array_blocks_def)
    obtain r2 w1 where created: "libscca_file_information_initialize w = (r2, w1)"
      by (cases "libscca_file_information_initialize w")
    show ?thesis
    proof (cases r2)
      case (Inl error)
      with created have w1: "live w1 = live w"
        by (auto simp: libscca_file_information_initialize_def memory_defs
            split: list.splits prod.splits bool.splits)
      obtain g w_after where cleanup: "file_open_read_on_error file1 w1 = (g, w_after)"
        by (cases "file_open_read_on_error file1 w1")
      with run pre Some header \<open>r1 = Inr decoded\<close> decoded created Inl
      have "f' = Some g" "w' = w_after"
        by (simp_all add: libscca_file_open_read_def Let_def io0_def [symmetric]
              file0_def [symmetric] file1_def [symmetric])
      with cleanup file1 w1 show ?thesis using released [OF cleanup] by simp
    next
      case information0: (Inr information0)
      with created have w1: "live w1 = live w + 1"
        by (auto simp: libscca_file_information_initialize_def memory_defs
            split: list.splits prod.splits bool.splits)
      obtain r3 handle2
        where reader: "file_information_read ext information0 handle1 io1 = (r3, handle2)"
        by (cases "file_information_read ext information0 handle1 io1")
      show ?thesis
      proof (cases r3)
        case (Inl error)
        define file_left where "file_left = file1\<lparr>file_information := Some information0\<rparr>"
        obtain g w_after where cleanup: "file_open_read_on_error file_left w1 = (g, w_after)"
          by (cases "file_open_read_on_error file_left w1")
        with run pre Some header \<open>r1 = Inr decoded\<close> decoded created information0 reader Inl
        have "f' = Some g" "w' = w_after"
          by (simp_all add: libscca_file_open_read_def Let_def io0_def [symmetric]
                file0_def [symmetric] file1_def [symmetric] file_left_def [symmetric])
        moreover have "parsed_blocks file_left = 1" "volumes_array file_left = Some []"
          "file_io_handle file_left = file_io_handle f"
          using file1 by (simp_all add: file_left_def parsed_blocks_def array_blocks_def)
        ultimately show ?thesis using cleanup w1 using released [OF cleanup] by simp
      next
        case information: (Inr information)
        define file2 where "file2 = file1\<lparr>file_information := Some information\<rparr>"
        have file2: "parsed_blocks file2 = 1" "volumes_array file2 = Some []"
          "file_io_handle file2 = file_io_handle f" "filename_strings file2 = None"
          using file1 by (simp_all add: file2_def parsed_blocks_def array_blocks_def)
        obtain r4 file3 handle3 w2
          where strings: "(if filename_strings_offset information \<noteq> 0
                           then file_open_read_filename_strings ext file2 information handle2 w1
                           else (Inr (), file2, handle2, w1)) = (r4, file3, handle3, w2)"
          by (metis prod.exhaust)
        have file3: "live w2 - parsed_blocks file3 = live w" "volumes_array file3 = Some []"
          "file_io_handle file3 = file_io_handle f"
        proof -
          show "live w2 - parsed_blocks file3 = live w" "volumes_array file3 = Some []"
            "file_io_handle file3 = file_io_handle f"
            using strings file2 w1
              file_open_read_filename_strings_world
                [of ext file2 information handle2 w1 r4 file3 handle3 w2]
            by (auto split: if_splits)
        qed
        from run pre Some header \<open>r1 = Inr decoded\<close> decoded created information0 reader
          information
        have rest: "(case (r4, file3, handle3, w2) of
                       (Inl error, file3, handle3, w2) \<Rightarrow>
                          (let (file', w') = file_open_read_on_error file3 w2
                           in (Inl (Error error), Some file', handle3, w'))
                     | (Inr _, file3, handle3, w2) \<Rightarrow>
                          if volumes_information_offset information \<noteq> 0
                          then
                            (case (case file_io_handle file3 of
                                     None \<Rightarrow>
                                       (Inl (Error (libcerror_error_set
                                               (libbfio_error ''libbfio_handle_seek_offset'')
                                               LIBCERROR_ERROR_DOMAIN_IO
                                               LIBCERROR_IO_ERROR_SEEK_FAILED
                                               ''unable to seek volumes information offset: %PRIi32 (0x%08PRIx32).'')),
                                        volumes_array file3, handle3, w2)
                                   | Some _ \<Rightarrow>
                                       libscca_io_handle_read_volumes_information
                                         ext (io_handle file3) handle3
                                         (volumes_information_offset information)
                                         (volumes_information_size information)
                                         (number_of_volumes information)
                                         (volumes_array file3) w2) of
                               (Inl (Error error), array, handle4, w3) \<Rightarrow>
                                 (let (file', w') =
                                        file_open_read_on_error
                                          (file3\<lparr>volumes_array := array\<rparr>) w3
                                  in (Inl (Error (libcerror_error_set error
                                                    LIBCERROR_ERROR_DOMAIN_IO
                                                    LIBCERROR_IO_ERROR_READ_FAILED
                                                    ''unable to read volumes information.'')),
                                      Some file', handle4, w'))
                             | (Inl Outside_Buffer, array, handle4, w3) \<Rightarrow>
                                 (Inl Outside_Buffer,
                                  Some (file3\<lparr>volumes_array := array\<rparr>),
                                  handle4, w3)
                             | (Inr _, array, handle4, w3) \<Rightarrow>
                                 (Inr (),
                                  Some (file3\<lparr>volumes_array := array\<rparr>),
                                  handle4, w3))
                          else (Inr (), Some file3, handle3, w2)) =
                    (Inl (Error e), f', h', w')"
          unfolding strings [symmetric]
          by (simp add: libscca_file_open_read_def Let_def io0_def [symmetric]
                file0_def [symmetric] file1_def [symmetric] file2_def [symmetric])
        show ?thesis
        proof (cases r4)
          case (Inl error)
          obtain g w_after where cleanup: "file_open_read_on_error file3 w2 = (g, w_after)"
            by (cases "file_open_read_on_error file3 w2")
          with rest Inl have "f' = Some g" "w' = w_after" by simp_all
          with cleanup file3 show ?thesis using released [OF cleanup] by simp
        next
          case (Inr finished)
          with rest have offset: "volumes_information_offset information \<noteq> 0"
            by (auto split: if_splits)
          obtain r5 array handle4 w3
            where volumes: "(case file_io_handle file3 of
                                     None \<Rightarrow>
                                       (Inl (Error (libcerror_error_set
                                               (libbfio_error ''libbfio_handle_seek_offset'')
                                               LIBCERROR_ERROR_DOMAIN_IO
                                               LIBCERROR_IO_ERROR_SEEK_FAILED
                                               ''unable to seek volumes information offset: %PRIi32 (0x%08PRIx32).'')),
                                        volumes_array file3, handle3, w2)
                                   | Some _ \<Rightarrow>
                                       libscca_io_handle_read_volumes_information
                                         ext (io_handle file3) handle3
                                         (volumes_information_offset information)
                                         (volumes_information_size information)
                                         (number_of_volumes information)
                                         (volumes_array file3) w2) = (r5, array, handle4, w3)"
            by (metis prod.exhaust)
          from rest Inr offset volumes obtain error where r5: "r5 = Inl (Error error)"
            by (cases r5; auto split: failure.splits)
          have "live w3 - array_blocks array = live w2 - array_blocks (volumes_array file3) \<and>
                array \<noteq> None"
          proof (cases "file_io_handle file3")
            case None
            with volumes have "array = volumes_array file3" "w3 = w2" by simp_all
            with file3(2) show ?thesis by simp
          next
            case (Some pointer)
            with volumes have decoded_volumes:
              "libscca_io_handle_read_volumes_information ext (io_handle file3) handle3
                 (volumes_information_offset information) (volumes_information_size information)
                 (number_of_volumes information) (volumes_array file3) w2 =
               (r5, array, handle4, w3)"
              by simp
            have "r5 \<noteq> Inl Outside_Buffer" "volumes_array file3 \<noteq> None"
              using r5 file3(2) by simp_all
            then show ?thesis
              using read_volumes_information_world [OF decoded_volumes]
                read_volumes_information_array [OF decoded_volumes]
              by simp
          qed
          then have balance:
            "live w3 - array_blocks array = live w2 - array_blocks (volumes_array file3)"
            and array: "array \<noteq> None"
            by simp_all
          define file_left where "file_left = file3\<lparr>volumes_array := array\<rparr>"
          obtain g w_after where cleanup: "file_open_read_on_error file_left w3 = (g, w_after)"
            by (cases "file_open_read_on_error file_left w3")
          with rest Inr offset volumes r5 have "f' = Some g" "w' = w_after"
            by (simp_all add: file_left_def)
          moreover have "live w3 - parsed_blocks file_left = live w"
            using balance file3 by (simp add: file_left_def parsed_blocks_def array_blocks_def)
          moreover have "volumes_array file_left \<noteq> None"
            "file_io_handle file_left = file_io_handle f"
            using array file3 by (simp_all add: file_left_def)
          ultimately show ?thesis using cleanup using released [OF cleanup] by simp
        qed
      qed
    qed
  qed
qed

lemma file_open_file_io_handle_on_error_fields:
  assumes "file_open_file_io_handle_on_error is_open internal_file handle error =
             (error', internal_file', handle')"
  shows "file_io_handle internal_file' = None \<and>
         file_information internal_file' = file_information internal_file \<and>
         filename_strings internal_file' = filename_strings internal_file \<and>
         volumes_array internal_file' = volumes_array internal_file"
  using assms
  by (auto simp: file_open_file_io_handle_on_error_def split: if_splits prod.splits sum.splits)

lemma file_open_file_io_handle_failure:
  assumes run: "libscca_file_open_file_io_handle ext (Some f) handle access_flags w =
                  (Inl (Error e), f', handle', w')"
    and pre: "file_information f = None" "filename_strings f = None" "volumes_array f = Some []"
      "file_io_handle f = None"
  shows "\<exists>g. f' = Some g \<and> file_io_handle g = None \<and> file_information g = None \<and>
             filename_strings g = None \<and> volumes_array g = Some [] \<and> live w' = live w"
proof (cases "\<exists>given. handle = Some given \<and>
                \<not> (access_flags AND LIBSCCA_ACCESS_FLAG_READ ext = 0 \<and>
                   access_flags AND LIBSCCA_ACCESS_FLAG_WRITE ext = 0) \<and>
                access_flags AND LIBSCCA_ACCESS_FLAG_WRITE ext = 0")
  case False
  with run pre show ?thesis
    by (cases handle) (auto simp: libscca_file_open_file_io_handle_def split: if_splits)
next
  case True
  then obtain given where given: "handle = Some given"
    and flags: "\<not> (access_flags AND LIBSCCA_ACCESS_FLAG_READ ext = 0 \<and>
                   access_flags AND LIBSCCA_ACCESS_FLAG_WRITE ext = 0)"
      "access_flags AND LIBSCCA_ACCESS_FLAG_WRITE ext = 0"
    by blast
  define file1 where "file1 = f\<lparr>file_io_handle := Some given\<rparr>"
  have file1: "file_information file1 = None" "filename_strings file1 = None"
    "volumes_array file1 = Some []"
    using pre by (simp_all add: file1_def)
  have cleaned: "\<exists>g. f' = Some g \<and> file_io_handle g = None \<and> file_information g = None \<and>
             filename_strings g = None \<and> volumes_array g = Some [] \<and> live w' = live w"
    if "file_open_file_io_handle_on_error is_open file_left handle_left error =
          (error', g, handle_after)"
      and "f' = Some g" "live w' = live w" "file_information file_left = None"
      "filename_strings file_left = None" "volumes_array file_left = Some []"
    for is_open file_left handle_left error error' g handle_after
    using file_open_file_io_handle_on_error_fields [OF that(1)] that(2-) by simp
  show ?thesis
  proof (cases "libbfio_handle_is_open given")
    case (Inl error)
    obtain error' g handle_after
      where cleanup: "file_open_file_io_handle_on_error (- 1) file1 given
                        (libcerror_error_set error LIBCERROR_ERROR_DOMAIN_IO
                           LIBCERROR_IO_ERROR_OPEN_FAILED
                           ''unable to determine if file IO handle is open.'') =
                      (error', g, handle_after)"
      by (metis prod.exhaust)
    with run pre given flags Inl have "f' = Some g" "w' = w"
      by (simp_all add: libscca_file_open_file_io_handle_def Let_def file1_def [symmetric])
    with file1 show ?thesis using cleaned [OF cleanup] by simp
  next
    case (Inr is_open)
    show ?thesis
    proof (cases "is_open = 0 \<and> (\<exists>error. libbfio_handle_open given = Inl error)")
      case True
      then obtain error where failed: "is_open = 0" "libbfio_handle_open given = Inl error"
        by blast
      obtain error' g handle_after
        where cleanup: "file_open_file_io_handle_on_error is_open file1 given
                          (libcerror_error_set error LIBCERROR_ERROR_DOMAIN_IO
                             LIBCERROR_IO_ERROR_OPEN_FAILED
                             ''unable to open file IO handle.'') =
                        (error', g, handle_after)"
        by (metis prod.exhaust)
      with run pre given flags Inr failed have "f' = Some g" "w' = w"
        by (simp_all add: libscca_file_open_file_io_handle_def Let_def file1_def [symmetric])
      with file1 show ?thesis using cleaned [OF cleanup] by simp
    next
      case False
      define file2 where "file2 =
        (if is_open = 0 then file1\<lparr>file_io_handle_opened_in_library := 1\<rparr> else file1)"
      define handle2 where "handle2 =
        (if is_open = 0 then (case libbfio_handle_open given of Inr opened \<Rightarrow> opened
                              | Inl _ \<Rightarrow> given) else given)"
      have opened: "(if is_open = 0
                     then (case libbfio_handle_open given of
                             Inl error \<Rightarrow> Inl error
                           | Inr opened \<Rightarrow>
                               Inr (file1\<lparr>file_io_handle_opened_in_library := 1\<rparr>, opened))
                     else Inr (file1, given)) = Inr (file2, handle2)"
        using False by (auto simp: file2_def handle2_def split: sum.splits)
      have file2: "file_information file2 = None" "filename_strings file2 = None"
        "volumes_array file2 = Some []"
        using file1 by (simp_all add: file2_def)
      obtain r3 file3 handle3 w3
        where parsed: "libscca_file_open_read ext (Some file2) handle2 w =
                         (r3, file3, handle3, w3)"
        by (metis prod.exhaust)
      from run pre given flags Inr parsed
      have rest: "(case (r3, file3, handle3, w3) of
                     (Inl (Error error), file3, handle3, w3) \<Rightarrow>
                       (let (error', file', handle') =
                              file_open_file_io_handle_on_error is_open
                                (case file3 of None \<Rightarrow> file2 | Some read \<Rightarrow> read)
                                handle3
                                (libcerror_error_set error LIBCERROR_ERROR_DOMAIN_IO
                                   LIBCERROR_IO_ERROR_READ_FAILED
                                   ''unable to read from file handle.'')
                        in (Inl (Error error'), Some file', Some handle', w3))
                   | (Inl Outside_Buffer, file3, handle3, w3) \<Rightarrow>
                       (Inl Outside_Buffer, file3, Some handle3, w3)
                   | (Inr _, file3, handle3, w3) \<Rightarrow>
                       (Inr (),
                        Some ((case file3 of None \<Rightarrow> file2 | Some read \<Rightarrow> read)
                                \<lparr>file_io_handle := Some handle3\<rparr>),
                        Some handle3, w3)) = (Inl (Error e), f', handle', w')"
        unfolding parsed [symmetric]
        by (simp add: libscca_file_open_file_io_handle_def Let_def file1_def [symmetric] opened)
      then obtain error where r3: "r3 = Inl (Error error)"
        by (cases r3; auto split: failure.splits)
      from file_open_read_failure [OF parsed [unfolded r3] file2]
      obtain left where left: "file3 = Some left" "file_information left = None"
        "filename_strings left = None" "volumes_array left = Some []" "live w3 = live w"
        by blast
      obtain error' g handle_after
        where cleanup: "file_open_file_io_handle_on_error is_open left handle3
                          (libcerror_error_set error LIBCERROR_ERROR_DOMAIN_IO
                             LIBCERROR_IO_ERROR_READ_FAILED
                             ''unable to read from file handle.'') =
                        (error', g, handle_after)"
        by (metis prod.exhaust)
      with rest r3 left have "f' = Some g" "w' = w3" by simp_all
      with left show ?thesis using cleaned [OF cleanup] by simp
    qed
  qed
qed

lemma two_volume_header:
  "libscca_io_handle_read_file_header (Some \<lparr>format_version = 0, file_size = 0, abort = 0\<rparr>)
      (open_handle_of two_volume_file) =
     (Inr (\<lparr>format_version = 17, file_size = 452, abort = 0\<rparr>, 0xDEADBEEF),
      (open_handle_of two_volume_file)\<lparr>bfio_offset := 84\<rparr>)"
  by (simp add: header_defs example_defs two_volume_file_def Let_def)

lemma two_volume_file_information:
  "spec_file_information_read file_information_zero
      ((open_handle_of two_volume_file)\<lparr>bfio_offset := 84\<rparr>)
      \<lparr>format_version = 17, file_size = 452, abort = 0\<rparr> =
     (Inr two_volume_information, (open_handle_of two_volume_file)\<lparr>bfio_offset := 240\<rparr>)"
  by (simp add: spec_file_information_read_def libbfio_handle_read_buffer_def example_defs
        two_volume_file_def file_information_zero_def two_volume_information_def Let_def)

lemma two_volume_fields:
  "scca_volume_information_fields two_volume_block 0 =
     Some \<lparr>vi_device_path_offset = 208, vi_device_path_number_of_characters = 2,
           vi_creation_time = 0x01D012A100000000, vi_serial_number = 0x12345678,
           vi_file_references_offset = 0, vi_file_references_size = 0,
           vi_directory_strings_array_offset = 0, vi_number_of_directory_strings = 0\<rparr>"
  by (simp add: scca_volume_information_fields_def buffer_bytes_def two_volume_block_def
        example_volume_record_def byte_stream_copy_to_uint32_little_endian_def
        byte_stream_copy_to_uint64_little_endian_def)

lemma two_volume_device_path:
  "buffer_bytes two_volume_block 208 4 = Some [0x43, 0, 0x3A, 0]"
  by (simp add: buffer_bytes_def two_volume_block_def example_volume_record_def)

lemma two_volume_first:
  "read_volume_information reference_externals two_volume_block 212 0 (Some [])
      \<lparr>alloc_tape = [True, True, True, False], live = 2\<rparr> =
     (Inr (Some [decoded_volume]), \<lparr>alloc_tape = [False], live = 4\<rparr>)"
  by (simp add: read_volume_information_def two_volume_fields
        libscca_volume_information_initialize_def memory_defs volume_information_zero_def
        volume_information_device_path_def volume_information_directory_strings_def
        libcdata_array_append_entry_def decoded_volume_def Let_def two_volume_device_path)

lemma two_volume_second:
  "read_volume_information reference_externals two_volume_block 212 40 (Some [decoded_volume])
      \<lparr>alloc_tape = [False], live = 4\<rparr> =
     (Inl (Error [(LIBCERROR_ERROR_DOMAIN_MEMORY, LIBCERROR_MEMORY_ERROR_INSUFFICIENT,
                   ''unable to create volume information.''),
                  (LIBCERROR_ERROR_DOMAIN_RUNTIME, LIBCERROR_RUNTIME_ERROR_INITIALIZE_FAILED,
                   ''unable to create volume: %PRIu32 information.'')]),
      \<lparr>alloc_tape = [], live = 4\<rparr>)"
  by (simp add: read_volume_information_def libscca_volume_information_initialize_def
        memory_defs libcerror_error_set_def)

lemma two_volume_loop:
  "volumes_information_loop reference_externals 40 two_volume_block 212 2 0 0 (Some [])
      \<lparr>alloc_tape = [True, True, True, False], live = 2\<rparr> =
     (Inl (Error [(LIBCERROR_ERROR_DOMAIN_MEMORY, LIBCERROR_MEMORY_ERROR_INSUFFICIENT,
                   ''unable to create volume information.''),
                  (LIBCERROR_ERROR_DOMAIN_RUNTIME, LIBCERROR_RUNTIME_ERROR_INITIALIZE_FAILED,
                   ''unable to create volume: %PRIu32 information.'')]),
      Some [decoded_volume], \<lparr>alloc_tape = [], live = 4\<rparr>)"
  apply (subst volumes_information_loop.simps)
  apply (simp add: two_volume_first)
  apply (subst volumes_information_loop.simps)
  apply (simp add: two_volume_second)
  done

lemma two_volume_read_block:
  "libbfio_handle_read_buffer ((open_handle_of two_volume_file)\<lparr>bfio_offset := 240\<rparr>) 212 =
     (Inr two_volume_block, (open_handle_of two_volume_file)\<lparr>bfio_offset := 452\<rparr>)"
  by (simp add: libbfio_handle_read_buffer_def open_handle_of_def two_volume_file_def
        example_file_header_def two_volume_block_def example_volume_record_def Let_def)

lemma two_volume_block_length: "length two_volume_block = 212"
  by (simp add: two_volume_block_def example_volume_record_def)

lemma two_volume_volumes:
  "libscca_io_handle_read_volumes_information reference_externals
      (Some \<lparr>format_version = 17, file_size = 452, abort = 0\<rparr>)
      ((open_handle_of two_volume_file)\<lparr>bfio_offset := 240\<rparr>) 240 212 2 (Some [])
      \<lparr>alloc_tape = [True, True, True, True, False], live = 1\<rparr> =
     (Inl (Error volumes_failure), Some [decoded_volume],
      (open_handle_of two_volume_file)\<lparr>bfio_offset := 452\<rparr>,
      \<lparr>alloc_tape = [], live = 3\<rparr>)"
proof -
  have seek: "libbfio_handle_seek_offset ((open_handle_of two_volume_file)\<lparr>bfio_offset := 240\<rparr>) 240 =
      Inr ((open_handle_of two_volume_file)\<lparr>bfio_offset := 240\<rparr>)"
    by (simp add: libbfio_handle_seek_offset_def open_handle_of_def)
  show ?thesis
    by (simp add: libscca_io_handle_read_volumes_information_def seek memory_defs
          two_volume_read_block two_volume_block_length
          sizeof_scca_volume_information_v17_t_def two_volume_loop volumes_failure_def)
qed

lemma two_volume_open_read:
  "libscca_file_open_read reference_externals
      (Some (initialized_file
               \<lparr>file_io_handle := Some pointer, file_io_handle_opened_in_library := 1\<rparr>))
      (open_handle_of two_volume_file)
      \<lparr>alloc_tape = [True, True, True, True, True, False], live = 0\<rparr> =
     (Inl (Error (volumes_failure @
                  [(LIBCERROR_ERROR_DOMAIN_IO, LIBCERROR_IO_ERROR_READ_FAILED,
                    ''unable to read volumes information.'')])),
      Some (initialized_file
              \<lparr>io_handle := Some \<lparr>format_version = 17, file_size = 452, abort = 0\<rparr>,
               file_io_handle := Some pointer, file_io_handle_opened_in_library := 1,
               prefetch_hash := 0xDEADBEEF\<rparr>),
      (open_handle_of two_volume_file)\<lparr>bfio_offset := 452\<rparr>,
      \<lparr>alloc_tape = [], live = 0\<rparr>)"
proof -
  have reader: "file_information_read reference_externals = spec_file_information_read"
    by (simp add: reference_externals_def)
  have offsets: "filename_strings_offset two_volume_information = 0"
    "volumes_information_offset two_volume_information = 240"
    "volumes_information_size two_volume_information = 212"
    "number_of_volumes two_volume_information = 2"
    by (simp_all add: two_volume_information_def file_information_zero_def)
  have cleanup: "file_open_read_on_error
      \<lparr>io_handle = Some \<lparr>format_version = 17, file_size = 452, abort = 0\<rparr>,
       file_io_handle = Some pointer, file_io_handle_created_in_library = 0,
       file_io_handle_opened_in_library = 1, prefetch_hash = 0xDEADBEEF,
       file_information = Some two_volume_information, filename_strings = None,
       volumes_array = Some [decoded_volume]\<rparr> \<lparr>alloc_tape = [], live = 3\<rparr> =
     (\<lparr>io_handle = Some \<lparr>format_version = 17, file_size = 452, abort = 0\<rparr>,
       file_io_handle = Some pointer, file_io_handle_created_in_library = 0,
       file_io_handle_opened_in_library = 1, prefetch_hash = 0xDEADBEEF,
       file_information = None, filename_strings = None,
       volumes_array = Some []\<rparr>, \<lparr>alloc_tape = [], live = 0\<rparr>)"
    by (simp add: file_open_read_on_error_def libscca_file_information_free_def
          libcdata_array_resize_0_def libscca_internal_volume_information_free_def
          libfvalue_value_free_def memory_free_def decoded_volume_def Let_def)
  show ?thesis
    by (simp add: libscca_file_open_read_def initialized_file_def internal_file_zero_def
          io_handle_zero_def two_volume_header two_volume_file_information reader offsets
          Let_def libscca_file_information_initialize_def memory_defs two_volume_volumes
          cleanup libcerror_error_set_def)
qed

lemma two_volume_open:
  "libscca_file_open_file_io_handle reference_externals (Some initialized_file)
      (Some (closed_handle_of two_volume_file)) 1
      \<lparr>alloc_tape = [True, True, True, True, True, False], live = 0\<rparr> =
     (Inl (Error (volumes_failure @
                  [(LIBCERROR_ERROR_DOMAIN_IO, LIBCERROR_IO_ERROR_READ_FAILED,
                    ''unable to read volumes information.''),
                   (LIBCERROR_ERROR_DOMAIN_IO, LIBCERROR_IO_ERROR_READ_FAILED,
                    ''unable to read from file handle.'')])),
      Some (initialized_file
              \<lparr>io_handle := Some \<lparr>format_version = 17, file_size = 452, abort = 0\<rparr>,
               prefetch_hash := 0xDEADBEEF\<rparr>),
      Some ((closed_handle_of two_volume_file)\<lparr>bfio_offset := 452\<rparr>),
      \<lparr>alloc_tape = [], live = 0\<rparr>)"
proof -
  have opened: "libbfio_handle_open (closed_handle_of two_volume_file) =
      Inr (open_handle_of two_volume_file)"
    by (simp add: libbfio_handle_open_def closed_handle_of_def open_handle_of_def)
  have is_open: "libbfio_handle_is_open (closed_handle_of two_volume_file) = Inr 0"
    by (simp add: libbfio_handle_is_open_def closed_handle_of_def)
  have closed: "libbfio_handle_close ((open_handle_of two_volume_file)\<lparr>bfio_offset := 452\<rparr>) =
      (Inr (), (closed_handle_of two_volume_file)\<lparr>bfio_offset := 452\<rparr>)"
    by (simp add: libbfio_handle_close_def closed_handle_of_def open_handle_of_def)
  have flags: "LIBSCCA_ACCESS_FLAG_READ reference_externals = 1"
    "LIBSCCA_ACCESS_FLAG_WRITE reference_externals = 2"
    by (simp_all add: reference_externals_def)
  have init: "file_io_handle initialized_file = None"
    by (simp add: initialized_file_def internal_file_zero_def)
  show ?thesis
    by (simp add: libscca_file_open_file_io_handle_def opened is_open flags init
          two_volume_open_read [of "closed_handle_of two_volume_file"]
          file_open_file_io_handle_on_error_def closed libcerror_error_set_def)
       (simp add: initialized_file_def internal_file_zero_def)
qed

text \<open>
  C4. Take a file that is not open: no file information, no filename strings, an empty
  volumes array. When \<^verbatim>\<open>libscca_file_open_read\<close> returns an error on it, the file it
  leaves has again no file information, no filename strings and an empty volumes array,
  and every block allocated during the parse has been freed (the file information, the
  filename strings value, each volume information appended so far with its device path
  and directory strings, and the buffers of the decoders). When
  \<^verbatim>\<open>libscca_file_open_file_io_handle\<close> returns an error, the file has no file IO handle
  either: it is not open, and the caller is handed nothing but the error. (The format
  version, the file size and the prefetch hash decoded from the header stay in the file;
  they are overwritten by the next open.)
\<close>

theorem failed_parse_releases_everything:
  assumes "file_information f = None" and "filename_strings f = None"
    and "volumes_array f = Some []"
  shows "(libscca_file_open_read ext (Some f) h w = (Inl (Error e), f', h', w') \<longrightarrow>
            (\<exists>g. f' = Some g \<and> file_information g = None \<and> filename_strings g = None \<and>
                  volumes_array g = Some [] \<and> parsed_blocks g = 0 \<and> live w' = live w)) \<and>
         (file_io_handle f = None \<and>
          libscca_file_open_file_io_handle ext (Some f) handle access_flags w =
            (Inl (Error e), f', handle', w') \<longrightarrow>
            (\<exists>g. f' = Some g \<and> file_io_handle g = None \<and> file_information g = None \<and>
                  filename_strings g = None \<and> volumes_array g = Some [] \<and>
                  parsed_blocks g = 0 \<and> live w' = live w))"
proof (rule conjI)
  show "libscca_file_open_read ext (Some f) h w = (Inl (Error e), f', h', w') \<longrightarrow>
            (\<exists>g. f' = Some g \<and> file_information g = None \<and> filename_strings g = None \<and>
                  volumes_array g = Some [] \<and> parsed_blocks g = 0 \<and> live w' = live w)"
  proof
    assume "libscca_file_open_read ext (Some f) h w = (Inl (Error e), f', h', w')"
    from file_open_read_failure [OF this assms] show "\<exists>g. f' = Some g \<and> file_information g = None \<and> filename_strings g = None \<and>
                  volumes_array g = Some [] \<and> parsed_blocks g = 0 \<and> live w' = live w"
      by (auto simp: parsed_blocks_def array_blocks_def)
  qed
  show "file_io_handle f = None \<and>
          libscca_file_open_file_io_handle ext (Some f) handle access_flags w =
            (Inl (Error e), f', handle', w') \<longrightarrow>
            (\<exists>g. f' = Some g \<and> file_io_handle g = None \<and> file_information g = None \<and>
                  filename_strings g = None \<and> volumes_array g = Some [] \<and>
                  parsed_blocks g = 0 \<and> live w' = live w)"
  proof
    assume "file_io_handle f = None \<and>
          libscca_file_open_file_io_handle ext (Some f) handle access_flags w =
            (Inl (Error e), f', handle', w')"
    then have "libscca_file_open_file_io_handle ext (Some f) handle access_flags w =
            (Inl (Error e), f', handle', w')" "file_io_handle f = None" by simp_all
    from file_open_file_io_handle_failure [OF this(1) assms this(2)]
    show "\<exists>g. f' = Some g \<and> file_io_handle g = None \<and> file_information g = None \<and>
                  filename_strings g = None \<and> volumes_array g = Some [] \<and>
                  parsed_blocks g = 0 \<and> live w' = live w"
      by (auto simp: parsed_blocks_def array_blocks_def)
  qed
qed

theorem failed_parse_releases_everything_witness:
  "libscca_file_open_file_io_handle reference_externals (Some initialized_file)
      (Some (closed_handle_of two_volume_file)) 1
      \<lparr>alloc_tape = [True, True, True, True, True, False], live = 0\<rparr> =
     (Inl (Error (volumes_failure @
                  [(LIBCERROR_ERROR_DOMAIN_IO, LIBCERROR_IO_ERROR_READ_FAILED,
                    ''unable to read volumes information.''),
                   (LIBCERROR_ERROR_DOMAIN_IO, LIBCERROR_IO_ERROR_READ_FAILED,
                    ''unable to read from file handle.'')])),
      Some (initialized_file
              \<lparr>io_handle := Some \<lparr>format_version = 17, file_size = 452, abort = 0\<rparr>,
               prefetch_hash := 0xDEADBEEF\<rparr>),
      Some ((closed_handle_of two_volume_file)\<lparr>bfio_offset := 452\<rparr>),
      \<lparr>alloc_tape = [], live = 0\<rparr>) \<and>
   parsed_blocks (initialized_file
              \<lparr>io_handle := Some \<lparr>format_version = 17, file_size = 452, abort = 0\<rparr>,
               prefetch_hash := 0xDEADBEEF\<rparr>) = 0"
  using two_volume_open
    failed_parse_releases_everything
      [where f = initialized_file and ext = reference_externals
         and handle = "Some (closed_handle_of two_volume_file)" and access_flags = 1
         and w = "\<lparr>alloc_tape = [True, True, True, True, True, False], live = 0\<rparr>"
         and e = "volumes_failure @
                  [(LIBCERROR_ERROR_DOMAIN_IO, LIBCERROR_IO_ERROR_READ_FAILED,
                    ''unable to read volumes information.''),
                   (LIBCERROR_ERROR_DOMAIN_IO, LIBCERROR_IO_ERROR_READ_FAILED,
                    ''unable to read from file handle.'')]"
         and f' = "Some (initialized_file
              \<lparr>io_handle := Some \<lparr>format_version = 17, file_size = 452, abort = 0\<rparr>,
               prefetch_hash := 0xDEADBEEF\<rparr>)"
         and handle' = "Some ((closed_handle_of two_volume_file)\<lparr>bfio_offset := 452\<rparr>)"
         and w' = "\<lparr>alloc_tape = [], live = 0\<rparr>"]
  by (simp add: initialized_file_def internal_file_zero_def)

end
